theory Spec2Isabelle
  imports Complex_Main "HOL-Library.Sublist" "HOL-Library.AList"
begin

section \<open>JavaScript values used by the application\<close>

text \<open>
  JavaScript numbers are modelled by their numeric value as rationals (token counts and
  counters are integral, file sizes in MB are not); rounding of doubles, NaN and the
  infinities are outside the model. Strings are character lists.
\<close>

type_synonym number = rat

text \<open>\<^verbatim>\<open>String.prototype.includes\<close>: the argument occurs as a contiguous substring.\<close>

fun str_includes :: "string \<Rightarrow> string \<Rightarrow> bool" where
  "str_includes [] sub = (sub = [])"
| "str_includes (c # cs) sub = (prefix sub (c # cs) \<or> str_includes cs sub)"

text \<open>\<^verbatim>\<open>String.prototype.startsWith\<close>.\<close>

definition startsWith :: "string \<Rightarrow> string \<Rightarrow> bool" where
  "startsWith s p = prefix p s"

text \<open>
  \<^verbatim>\<open>String.prototype.trim\<close> on the ASCII white space characters (space, tab, line feed,
  vertical tab, form feed, carriage return).
\<close>

definition isSpace :: "char \<Rightarrow> bool" where
  "isSpace c = (c \<in> set [CHR '' '', CHR 0x09, CHR 0x0A, CHR 0x0B, CHR 0x0C, CHR 0x0D])"

definition trim :: "string \<Rightarrow> string" where
  "trim s = rev (dropWhile isSpace (rev (dropWhile isSpace s)))"

text \<open>\<^verbatim>\<open>String.prototype.toLowerCase\<close> on ASCII letters; other characters are kept.\<close>

definition lowerChar :: "char \<Rightarrow> char" where
  "lowerChar c =
     (let n = (of_char c :: nat) in if 65 \<le> n \<and> n \<le> 90 then char_of (n + 32) else c)"

definition toLowerCase :: "string \<Rightarrow> string" where
  "toLowerCase s = map lowerChar s"

section \<open>Quota ledger (App.tsx)\<close>

text \<open>The interfaces \<^verbatim>\<open>Plan\<close> and \<^verbatim>\<open>ApiLimits\<close> of types.ts.\<close>

record Plan =
  plan_ident :: int
  plan_name :: string
  plan_monthly_limit :: number
  price_monthly :: number
  max_input_tokens_per_month :: number
  max_output_tokens_per_month :: number
  max_strs_per_month :: number
  max_strs_per_day :: number
  max_file_size_mb_per_document :: number
  max_total_upload_mb_per_str :: number

text \<open>
  A calendar date: the ISO date string (\<^verbatim>\<open>YYYY-MM-DD\<close>) in which \<^verbatim>\<open>reset_date\<close> and
  the day of a \<^verbatim>\<open>daily_usage\<close> row are stored.
\<close>

record date =
  year :: int
  month :: nat
  day :: nat

text \<open>
  What the ledger reads from \<^verbatim>\<open>Date\<close>. Of \<^verbatim>\<open>today = new Date()\<close> it takes the UTC
  calendar date (\<^verbatim>\<open>today.toISOString().split('T')[0]\<close>) and, through \<^verbatim>\<open>getMonth()\<close>
  and \<^verbatim>\<open>getFullYear()\<close>, the month and year of the local calendar date. A stored date
  string is parsed by \<^verbatim>\<open>new Date(reset_date)\<close> as UTC midnight of that date, and
  \<^verbatim>\<open>getMonth()\<close> and \<^verbatim>\<open>getFullYear()\<close> again read the local calendar date of that
  instant. The time zone of the browser decides what the local dates are.
\<close>

record clock =
  utcDate :: date
  localDate :: date
  midnightLocal :: "date \<Rightarrow> date"

record ApiLimits =
  limits_user_id :: string
  limits_plan_id :: int
  monthly_limit :: number
  used :: number
  reset_date :: date
  input_tokens_used_monthly :: number
  output_tokens_used_monthly :: number
  strs_used_monthly :: number

record User =
  user_ident :: string
  user_name :: string
  email :: string
  firmName :: string

text \<open>
  The result of a Supabase query as the source destructures it: \<^verbatim>\<open>{ data, error }\<close>,
  the error carrying a code and a message.
\<close>

record db_error =
  code :: string
  message :: string

record 'a db_response =
  data :: "'a option"
  error :: "db_error option"

text \<open>A row of \<^verbatim>\<open>daily_usage\<close>; a column may be null.\<close>

record daily_usage_row =
  str_count :: "number option"
  input_tokens :: "number option"
  output_tokens :: "number option"
  total_bytes :: "number option"

text \<open>\<^verbatim>\<open>x || 0\<close> on a nullable number.\<close>

definition or_zero :: "number option \<Rightarrow> number" where
  "or_zero x = (case x of None \<Rightarrow> 0 | Some v \<Rightarrow> v)"

datatype usageType = STR_GEN | TOKENS_INPUT | TOKENS_OUTPUT | FILE_SIZE_DOC | FILE_SIZE_TOTAL

text \<open>The toasts of the quota ledger, by what they report.\<close>

datatype toast =
    Limits_not_loaded
  | Monthly_STR_limit
  | Daily_usage_error string
  | Daily_STR_limit
  | Monthly_input_token_limit
  | Monthly_output_token_limit
  | Document_size_limit
  | Total_upload_size_limit
  | Usage_reset
  | Usage_reset_failed string
  | Plan_assignment_failed string
  | Load_plan_failed string

text \<open>
  \<^verbatim>\<open>checkApiAllowance(usageType, value)\<close>. The component state it closes over
  (\<^verbatim>\<open>userApiLimits\<close>, \<^verbatim>\<open>userPlan\<close>, \<^verbatim>\<open>user\<close>) and the answer of the
  \<^verbatim>\<open>daily_usage\<close> query it awaits are arguments. The result is the returned boolean and
  the toast shown, if any.
\<close>

definition checkApiAllowance ::
  "ApiLimits option \<Rightarrow> Plan option \<Rightarrow> User option \<Rightarrow> daily_usage_row db_response
     \<Rightarrow> usageType \<Rightarrow> number \<Rightarrow> bool \<times> toast option" where
  "checkApiAllowance userApiLimits userPlan user dailyUsage usageType val =
    (case (userApiLimits, userPlan, user) of
       (Some limits, Some plan, Some u) \<Rightarrow>
         (case usageType of
            STR_GEN \<Rightarrow>
              (if strs_used_monthly limits + val > max_strs_per_month plan
               then (False, Some Monthly_STR_limit)
               else
                 (case error dailyUsage of
                    Some e \<Rightarrow>
                      (if code e \<noteq> ''PGRST116''
                       then (False, Some (Daily_usage_error (message e)))
                       else if or_zero (case data dailyUsage of None \<Rightarrow> None | Some r \<Rightarrow> str_count r)
                                 + val > max_strs_per_day plan
                       then (False, Some Daily_STR_limit)
                       else (True, None))
                  | None \<Rightarrow>
                      (if or_zero (case data dailyUsage of None \<Rightarrow> None | Some r \<Rightarrow> str_count r)
                            + val > max_strs_per_day plan
                       then (False, Some Daily_STR_limit)
                       else (True, None))))
          | TOKENS_INPUT \<Rightarrow>
              (if input_tokens_used_monthly limits + val > max_input_tokens_per_month plan
               then (False, Some Monthly_input_token_limit) else (True, None))
          | TOKENS_OUTPUT \<Rightarrow>
              (if output_tokens_used_monthly limits + val > max_output_tokens_per_month plan
               then (False, Some Monthly_output_token_limit) else (True, None))
          | FILE_SIZE_DOC \<Rightarrow>
              (if val > max_file_size_mb_per_document plan
               then (False, Some Document_size_limit) else (True, None))
          | FILE_SIZE_TOTAL \<Rightarrow>
              (if val > max_total_upload_mb_per_str plan
               then (False, Some Total_upload_size_limit) else (True, None)))
     | _ \<Rightarrow> (False, Some Limits_not_loaded))"

text \<open>The same-day STR count the check reads from the query: \<^verbatim>\<open>dailyUsageData?.str_count || 0\<close>.\<close>

definition dailyStrsUsed :: "daily_usage_row db_response \<Rightarrow> number" where
  "dailyStrsUsed dailyUsage =
     or_zero (case data dailyUsage of None \<Rightarrow> None | Some r \<Rightarrow> str_count r)"

text \<open>The query failed with an error other than "no rows" (\<^verbatim>\<open>PGRST116\<close>).\<close>

definition dailyFetchFailed :: "daily_usage_row db_response \<Rightarrow> bool" where
  "dailyFetchFailed dailyUsage =
     (case error dailyUsage of None \<Rightarrow> False | Some e \<Rightarrow> code e \<noteq> ''PGRST116'')"

section \<open>Documents and projects (types.ts)\<close>

datatype status =
  Uploading | Uploaded | Extracting_Text | Classifying | Processed | Error | Unsupported

record File =
  file_name :: string
  file_type :: string
  file_size :: nat

record Document =
  doc_id :: string
  doc_projectId :: string
  fileName :: string
  fileType :: string
  docTypes :: "string list option"
  doc_file :: "File option"
  uploadDate :: string
  status :: status
  extractedText :: "string option"
  progress :: "number option"
  doc_error :: "string option"

record Report =
  report_id :: string
  report_content :: string

text \<open>
  \<^verbatim>\<open>scenario\<close> is declared with the string-literal union \<^verbatim>\<open>Scenario\<close>; at run time it
  holds whatever string the parsed AI response carried, so the model keeps the string.
\<close>

record Project =
  proj_id :: string
  projectName :: string
  propertyAddress :: string
  clientName :: string
  searchPeriod :: string
  createdAt :: string
  documents :: "Document list"
  report :: "Report option"
  scenario :: "string option"
  missingDocuments :: "string list option"
  advocateInstructions :: "string option"

text \<open>\<^verbatim>\<open>Partial<ProjectDetails>\<close>: the object parsed from the AI response.\<close>

record ProjectDetails =
  details_projectName :: "string option"
  details_propertyAddress :: "string option"
  details_clientName :: "string option"
  details_searchPeriod :: "string option"
  details_scenario :: "string option"

definition emptyDetails :: ProjectDetails where
  "emptyDetails = \<lparr> details_projectName = None, details_propertyAddress = None,
     details_clientName = None, details_searchPeriod = None, details_scenario = None \<rparr>"

section \<open>Constants (constants.ts)\<close>

text \<open>The own keys of the \<^verbatim>\<open>SCENARIOS\<close> record, in source order.\<close>

definition SCENARIOS :: "string list" where
  "SCENARIOS = [''CLEAR_FREEHOLD_PLOT'', ''FLAT_IN_SOCIETY'', ''AGRICULTURAL_LAND'', ''NA_PLOT'',
     ''MORTGAGED_PROPERTY'', ''COURT_CASE_LITIGATION'', ''UNDER_CONSTRUCTION'', ''INDUSTRIAL_PLOT'',
     ''INHERITED_PROPERTY'', ''JOINT_OWNERSHIP'', ''REDEVELOPMENT_PROPERTY'', ''UNKNOWN'']"

text \<open>
  \<^verbatim>\<open>SCENARIOS\<close> is an object literal, so the property read \<^verbatim>\<open>SCENARIOS[key]\<close> also
  finds what every object inherits from \<^verbatim>\<open>Object.prototype\<close>; each of these inherited
  values is a function or an object, hence truthy.
\<close>

definition Object_prototype_properties :: "string list" where
  "Object_prototype_properties = [''constructor'', ''hasOwnProperty'', ''isPrototypeOf'',
     ''propertyIsEnumerable'', ''toLocaleString'', ''toString'', ''valueOf'', ''__proto__'',
     ''__defineGetter__'', ''__defineSetter__'', ''__lookupGetter__'', ''__lookupSetter__'']"

text \<open>The truthiness of \<^verbatim>\<open>SCENARIOS[key]\<close> for a string key.\<close>

definition SCENARIOS_lookup :: "string \<Rightarrow> bool" where
  "SCENARIOS_lookup key = (key \<in> set SCENARIOS \<or> key \<in> set Object_prototype_properties)"

section \<open>AI gateway (services/geminiService.ts)\<close>

definition UNSUPPORTED_FOR_EXTRACTION :: string where
  "UNSUPPORTED_FOR_EXTRACTION = ''UNSUPPORTED_FOR_EXTRACTION''"

definition RATE_LIMIT_EXCEEDED :: string where
  "RATE_LIMIT_EXCEEDED = ''RATE_LIMIT_EXCEEDED''"

text \<open>\<^verbatim>\<open>estimateTokens\<close>: a quarter of the length, rounded up; 0 for a missing or empty text.\<close>

definition estimateTokens :: "string option \<Rightarrow> number" where
  "estimateTokens text =
     (case text of
        None \<Rightarrow> 0
      | Some t \<Rightarrow> if t = [] then 0 else of_int \<lceil>(of_nat (length t) :: rat) / 4\<rceil>)"

text \<open>\<^verbatim>\<open>a || b\<close> on numbers.\<close>

definition num_or :: "number \<Rightarrow> number \<Rightarrow> number" where
  "num_or a b = (if a = 0 then b else a)"

text \<open>The arguments of one \<^verbatim>\<open>logAiCall\<close>.\<close>

record ai_call =
  model :: string
  apiEndpointType :: string
  promptTokens :: number
  completionTokens :: number
  success :: bool
  errorMessage :: "string option"

text \<open>What a gateway operation returns, and the usage record it hands to \<^verbatim>\<open>logAiCall\<close>.\<close>

record 'a gateway =
  returned :: 'a
  logged :: ai_call

text \<open>
  The provider call \<^verbatim>\<open>ai.models.generateContent\<close>: it throws (the argument is
  \<^verbatim>\<open>error.toString()\<close>) or answers with a response whose \<^verbatim>\<open>text\<close> may be undefined.
\<close>

datatype provider = Throws string | Responds "string option"

text \<open>\<^verbatim>\<open>fileToGenerativePart\<close>: reading the file can fail before the provider is called.\<close>

datatype file_read = Read_ok | Read_fails string

definition SUPPORTED_MIME_TYPES_FOR_EXTRACTION :: "string list" where
  "SUPPORTED_MIME_TYPES_FOR_EXTRACTION = [''image/jpeg'', ''image/png'', ''image/webp'',
     ''application/pdf'', ''image/gif'', ''image/bmp'', ''image/heic'', ''image/heif'',
     ''application/vnd.ms-excel'', ''text/html'']"

definition KNOWN_UNSUPPORTED_MIME_TYPES :: "string list" where
  "KNOWN_UNSUPPORTED_MIME_TYPES = [''application/msword'',
     ''application/vnd.openxmlformats-officedocument.wordprocessingml.document'',
     ''application/vnd.openxmlformats-officedocument.spreadsheetml.sheet'',
     ''text/csv'', ''application/zip'', ''application/x-zip-compressed'', ''video/x-msvideo'',
     ''text/css'', ''application/xml'', ''text/xml'', ''application/octet-stream'']"

definition docxPlaceholder :: "string \<Rightarrow> string" where
  "docxPlaceholder name = ''[Text content from DOCX file: '' @ name @
     ''. Direct AI text extraction for DOCX is not fully supported for initial document processing. Please consider converting to PDF or copy-pasting content for re-formatting.]''"

text \<open>
  The \<^verbatim>\<open>catch\<close> block of \<^verbatim>\<open>extractTextFromFile\<close>: the result and the error message
  logged.
\<close>

definition extractCatch :: "string \<Rightarrow> string \<times> string" where
  "extractCatch errMessage =
     (if str_includes errMessage ''429'' \<or> str_includes errMessage ''RESOURCE_EXCEEDED''
      then (RATE_LIMIT_EXCEEDED, ''Rate limit exceeded'')
      else (''Error: The text extraction process failed.'', errMessage))"

text \<open>
  The local variables every gateway operation assigns before its \<^verbatim>\<open>finally\<close> block
  logs the call.
\<close>

record 'a call_vars =
  result :: 'a
  ok :: bool
  errMsg :: "string option"
  actualPromptTokens :: number
  actualCompletionTokens :: number

text \<open>The \<^verbatim>\<open>finally\<close> block: the result with the usage record passed to \<^verbatim>\<open>logAiCall\<close>.\<close>

definition finally_log ::
  "string \<Rightarrow> string \<Rightarrow> number \<Rightarrow> number \<Rightarrow> 'a call_vars \<Rightarrow> 'a gateway" where
  "finally_log modelName endpoint estimatedInputTokens estimatedOutputTokens v =
     \<lparr> returned = result v,
       logged = \<lparr> model = modelName, apiEndpointType = endpoint,
         promptTokens = num_or (actualPromptTokens v) estimatedInputTokens,
         completionTokens = num_or (actualCompletionTokens v) estimatedOutputTokens,
         success = ok v, errorMessage = errMsg v \<rparr> \<rparr>"

text \<open>
  \<^verbatim>\<open>extractTextFromFile\<close>. The prompts of the gateway are long literal texts of which
  only the length is used (the logged token estimate), so the assembled prompt is an
  argument of each operation.
\<close>

definition extractTextFromFile ::
  "File \<Rightarrow> number \<Rightarrow> number \<Rightarrow> string \<Rightarrow> string \<Rightarrow> file_read \<Rightarrow> provider \<Rightarrow> string gateway" where
  "extractTextFromFile file estimatedInputTokens estimatedOutputTokens endpoint prompt filePart response =
    (if file_type file = [] \<or> file_type file \<in> set KNOWN_UNSUPPORTED_MIME_TYPES then
       \<lparr> returned =
           (if file_type file = ''application/vnd.openxmlformats-officedocument.wordprocessingml.document''
            then docxPlaceholder (file_name file) else UNSUPPORTED_FOR_EXTRACTION),
         logged = \<lparr> model = ''N/A_CLIENT_UNSUPPORTED'', apiEndpointType = endpoint,
           promptTokens = estimatedInputTokens, completionTokens = 0, success = True,
           errorMessage = Some ''Client-side unsupported file type'' \<rparr> \<rparr>
     else if file_type file \<notin> set SUPPORTED_MIME_TYPES_FOR_EXTRACTION then
       (let r = ''Error: Unsupported file type for AI text extraction: '' @ file_name file @
                ''. Only images and PDFs can be processed.''
        in \<lparr> returned = r,
             logged = \<lparr> model = ''N/A_CLIENT_UNSUPPORTED'', apiEndpointType = endpoint,
               promptTokens = estimatedInputTokens, completionTokens = 0, success = False,
               errorMessage = Some r \<rparr> \<rparr>)
     else
       finally_log ''gemini-2.5-flash'' endpoint estimatedInputTokens estimatedOutputTokens
         (case filePart of
            Read_fails e \<Rightarrow>
              \<lparr> result = fst (extractCatch e), ok = False, errMsg = Some (snd (extractCatch e)),
                actualPromptTokens = 0, actualCompletionTokens = 0 \<rparr>
          | Read_ok \<Rightarrow>
              (case response of
                 Throws e \<Rightarrow>
                   \<lparr> result = fst (extractCatch e), ok = False,
                     errMsg = Some (snd (extractCatch e)),
                     actualPromptTokens = estimateTokens (Some prompt),
                     actualCompletionTokens = 0 \<rparr>
               | Responds None \<Rightarrow>
                   \<lparr> result = ''Error: Empty or invalid text content from AI.'', ok = False,
                     errMsg = Some ''Error: Empty or invalid text content from AI.'',
                     actualPromptTokens = estimateTokens (Some prompt),
                     actualCompletionTokens = 0 \<rparr>
               | Responds (Some text) \<Rightarrow>
                   (if text = [] \<or> trim text = [] then
                      \<lparr> result = ''Error: Empty or invalid text content from AI.'', ok = False,
                        errMsg = Some ''Error: Empty or invalid text content from AI.'',
                        actualPromptTokens = estimateTokens (Some prompt),
                        actualCompletionTokens = 0 \<rparr>
                    else
                      \<lparr> result = trim text, ok = True, errMsg = None,
                        actualPromptTokens = estimateTokens (Some prompt),
                        actualCompletionTokens = estimateTokens (Some (trim text)) \<rparr>))))"

text \<open>The classification vocabulary: the array \<^verbatim>\<open>DOCUMENT_TYPES\<close> is joined from.\<close>

definition typesArray :: "string list" where
  "typesArray = [''Sale Deed'', ''Mutation Entry'', ''Loan Agreement'', ''Property Tax Receipt'',
     ''Power of Attorney'', ''Title Search Report'', ''Encumbrance Certificate'',
     ''Building Plan Approval'', ''Society Share Certificate'', ''Society NOC'', ''NA Order'',
     ''7/12 Extract'', ''Lease Deed'', ''Agreement for Sale'', ''Will / Probate'',
     ''Partition Deed'', ''Occupancy Certificate'', ''RERA Registration Certificate'',
     ''Redevelopment Agreement'', ''Legal Heir Certificate'', ''CERSAI Report'',
     ''Commencement Certificate'', ''Layout Plan'', ''Other'']"

text \<open>\<^verbatim>\<open>Array.prototype.join\<close>.\<close>

fun join :: "string list \<Rightarrow> string \<Rightarrow> string" where
  "join [] sep = []"
| "join [x] sep = x"
| "join (x # y # ys) sep = x @ sep @ join (y # ys) sep"

definition DOCUMENT_TYPES :: string where
  "DOCUMENT_TYPES = join typesArray '', ''"

text \<open>
  \<^verbatim>\<open>String.prototype.split\<close> at a non-empty separator: \<open>acc\<close> holds the characters of
  the current piece, reversed.
\<close>

function split_from :: "string \<Rightarrow> string \<Rightarrow> string \<Rightarrow> string list" where
  "split_from sep [] acc = [rev acc]"
| "split_from sep (c # cs) acc =
     (if sep \<noteq> [] \<and> prefix sep (c # cs)
      then rev acc # split_from sep (drop (length sep) (c # cs)) []
      else split_from sep cs (c # acc))"
  by pat_completeness auto
termination
  by (relation "measure (\<lambda>(sep, s, acc). length s)") auto

definition str_split :: "string \<Rightarrow> string \<Rightarrow> string list" where
  "str_split s sep = split_from sep s []"

definition classifyCatch :: "string \<Rightarrow> string \<times> string" where
  "classifyCatch errMessage =
     (if str_includes errMessage ''429'' \<or> str_includes errMessage ''RESOURCE_EXHAUSTED''
      then (RATE_LIMIT_EXCEEDED, ''Rate limit exceeded'')
      else (''Error'', errMessage))"

text \<open>The label chosen for a non-empty, trimmed answer of the provider.\<close>

definition matchClassification :: "string \<Rightarrow> string" where
  "matchClassification classification =
     (if str_includes (toLowerCase DOCUMENT_TYPES) (toLowerCase classification) then
        (case List.find (\<lambda>t. toLowerCase t = toLowerCase classification)
                (str_split DOCUMENT_TYPES '', '') of
           Some matchedType \<Rightarrow> if matchedType = [] then ''Other'' else matchedType
         | None \<Rightarrow> ''Other'')
      else ''Other'')"

definition classifyDocument ::
  "string \<Rightarrow> number \<Rightarrow> number \<Rightarrow> string \<Rightarrow> string \<Rightarrow> provider \<Rightarrow> string gateway" where
  "classifyDocument documentText estimatedInputTokens estimatedOutputTokens endpoint prompt response =
     finally_log ''gemini-2.5-flash'' endpoint estimatedInputTokens estimatedOutputTokens
       (case response of
          Throws e \<Rightarrow>
            \<lparr> result = fst (classifyCatch e), ok = False, errMsg = Some (snd (classifyCatch e)),
              actualPromptTokens = estimateTokens (Some prompt), actualCompletionTokens = 0 \<rparr>
        | Responds None \<Rightarrow>
            \<lparr> result = ''Other'', ok = False,
              errMsg = Some ''Empty or invalid text content from AI.'',
              actualPromptTokens = estimateTokens (Some prompt), actualCompletionTokens = 0 \<rparr>
        | Responds (Some text) \<Rightarrow>
            (if text = [] \<or> trim text = [] then
               \<lparr> result = ''Other'', ok = False,
                 errMsg = Some ''Empty or invalid text content from AI.'',
                 actualPromptTokens = estimateTokens (Some prompt), actualCompletionTokens = 0 \<rparr>
             else
               \<lparr> result = matchClassification (trim text), ok = True, errMsg = None,
                 actualPromptTokens = estimateTokens (Some prompt),
                 actualCompletionTokens = estimateTokens (Some (trim text)) \<rparr>))"

text \<open>A result that may be the rate-limited sentinel instead of a payload.\<close>

datatype 'a limited = RATE_LIMITED | Payload 'a

definition detailsCatch :: "string \<Rightarrow> ProjectDetails limited \<times> string" where
  "detailsCatch errMessage =
     (if str_includes errMessage ''429'' \<or> str_includes errMessage ''RESOURCE_EXCEEDED''
      then (RATE_LIMITED, ''Rate limit exceeded'')
      else (Payload emptyDetails, errMessage))"

text \<open>
  \<^verbatim>\<open>extractProjectDetailsAndScenario\<close>. \<^verbatim>\<open>JSON.parse\<close> is an argument: it gives the
  parsed object, or throws with a message (\<open>Inl\<close>).
\<close>

definition extractProjectDetailsAndScenario ::
  "(string \<Rightarrow> string + ProjectDetails) \<Rightarrow> string \<Rightarrow> number \<Rightarrow> number \<Rightarrow> string \<Rightarrow> string
     \<Rightarrow> provider \<Rightarrow> ProjectDetails limited gateway" where
  "extractProjectDetailsAndScenario JSON_parse documentText estimatedInputTokens
       estimatedOutputTokens endpoint prompt response =
    (if documentText = [] \<or> length (trim documentText) = 0 then
       \<lparr> returned = Payload emptyDetails,
         logged = \<lparr> model = ''N/A'', apiEndpointType = endpoint,
           promptTokens = estimatedInputTokens, completionTokens = estimatedOutputTokens,
           success = True, errorMessage = None \<rparr> \<rparr>
     else
       finally_log ''gemini-2.5-flash'' endpoint estimatedInputTokens estimatedOutputTokens
         (case response of
            Throws e \<Rightarrow>
              \<lparr> result = fst (detailsCatch e), ok = False, errMsg = Some (snd (detailsCatch e)),
                actualPromptTokens = estimateTokens (Some prompt), actualCompletionTokens = 0 \<rparr>
          | Responds text \<Rightarrow>
              (let jsonText = map_option trim text in
               if jsonText = None \<or> jsonText = Some [] then
                 \<lparr> result = Payload emptyDetails, ok = False,
                   errMsg = Some ''Empty response from AI.'',
                   actualPromptTokens = estimateTokens (Some prompt),
                   actualCompletionTokens = estimateTokens jsonText \<rparr>
               else
                 (case JSON_parse (the jsonText) of
                    Inr parsed \<Rightarrow>
                      \<lparr> result = Payload parsed, ok = True, errMsg = None,
                        actualPromptTokens = estimateTokens (Some prompt),
                        actualCompletionTokens = estimateTokens jsonText \<rparr>
                  | Inl parseError \<Rightarrow>
                      \<lparr> result = Payload emptyDetails, ok = False,
                        errMsg = Some (''Failed to parse AI response: '' @ parseError),
                        actualPromptTokens = estimateTokens (Some prompt),
                        actualCompletionTokens = estimateTokens jsonText \<rparr>))))"

definition completenessCatch :: "string \<Rightarrow> string list limited \<times> string" where
  "completenessCatch errMessage =
     (if str_includes errMessage ''429'' \<or> str_includes errMessage ''RESOURCE_EXCEEDED''
      then (RATE_LIMITED, ''Rate limit exceeded'')
      else (Payload [], errMessage))"

definition analyzeDocumentCompleteness ::
  "(string \<Rightarrow> string + string list) \<Rightarrow> number \<Rightarrow> number \<Rightarrow> string \<Rightarrow> string
     \<Rightarrow> provider \<Rightarrow> string list limited gateway" where
  "analyzeDocumentCompleteness JSON_parse estimatedInputTokens estimatedOutputTokens endpoint
       prompt response =
     finally_log ''gemini-2.5-flash'' endpoint estimatedInputTokens estimatedOutputTokens
       (case response of
          Throws e \<Rightarrow>
            \<lparr> result = fst (completenessCatch e), ok = False,
              errMsg = Some (snd (completenessCatch e)),
              actualPromptTokens = estimateTokens (Some prompt), actualCompletionTokens = 0 \<rparr>
        | Responds text \<Rightarrow>
            (let jsonText = map_option trim text in
             if jsonText = None \<or> jsonText = Some [] then
               \<lparr> result = Payload [], ok = False, errMsg = Some ''Empty response from AI.'',
                 actualPromptTokens = estimateTokens (Some prompt),
                 actualCompletionTokens = estimateTokens jsonText \<rparr>
             else
               (case JSON_parse (the jsonText) of
                  Inr parsed \<Rightarrow>
                    \<lparr> result = Payload parsed, ok = True, errMsg = None,
                      actualPromptTokens = estimateTokens (Some prompt),
                      actualCompletionTokens = estimateTokens jsonText \<rparr>
                | Inl parseError \<Rightarrow>
                    \<lparr> result = Payload [], ok = False,
                      errMsg = Some (''Failed to parse AI response: '' @ parseError),
                      actualPromptTokens = estimateTokens (Some prompt),
                      actualCompletionTokens = estimateTokens jsonText \<rparr>)))"

text \<open>\<^verbatim>\<open>Partial<Report> & { error?: string }\<close>, the result of the two report operations.\<close>

record report_result =
  rr_error :: "string option"
  rr_content :: "string option"
  rr_summary :: "string option"
  rr_strCategory :: "string option"
  rr_riskFlags :: "string list option"

definition reportError :: "string \<Rightarrow> report_result" where
  "reportError e = \<lparr> rr_error = Some e, rr_content = None, rr_summary = None,
     rr_strCategory = None, rr_riskFlags = None \<rparr>"

text \<open>The text of all processed documents, each under the header naming its file.\<close>

definition aggregateText :: "Document list \<Rightarrow> string" where
  "aggregateText docs =
     join (map (\<lambda>d. ''--- Document: '' @ fileName d @ '' ---'' @ [CHR 0x0A] @ the (extractedText d))
            (filter (\<lambda>d. status d = Processed \<and> extractedText d \<noteq> None \<and> extractedText d \<noteq> Some [])
               docs))
       [CHR 0x0A, CHR 0x0A]"

definition generateCatch :: "string \<Rightarrow> report_result \<times> string" where
  "generateCatch errMessage =
     (if str_includes errMessage ''429'' \<or> str_includes errMessage ''RESOURCE_EXCEEDED''
      then (reportError RATE_LIMIT_EXCEEDED, ''Rate limit exceeded'')
      else (reportError errMessage, errMessage))"

definition generateReport ::
  "(string \<Rightarrow> string + report_result) \<Rightarrow> Project \<Rightarrow> number \<Rightarrow> number \<Rightarrow> string \<Rightarrow> string
     \<Rightarrow> provider \<Rightarrow> report_result gateway" where
  "generateReport JSON_parse project estimatedInputTokens estimatedOutputTokens endpoint
       ragPrompt response =
     finally_log ''gemini-2.5-pro'' endpoint estimatedInputTokens estimatedOutputTokens
       (if aggregateText (documents project) = [] then
          \<lparr> result = reportError ''No processed documents found to generate report.'',
            ok = False, errMsg = None, actualPromptTokens = 0, actualCompletionTokens = 0 \<rparr>
        else
          (case response of
             Throws e \<Rightarrow>
               \<lparr> result = fst (generateCatch e), ok = False, errMsg = Some (snd (generateCatch e)),
                 actualPromptTokens = estimateTokens (Some ragPrompt),
                 actualCompletionTokens = 0 \<rparr>
           | Responds text \<Rightarrow>
               (let jsonText = map_option trim text in
                if jsonText = None \<or> jsonText = Some [] then
                  \<lparr> result = reportError ''Empty response from AI.'', ok = False,
                    errMsg = Some ''Empty response'',
                    actualPromptTokens = estimateTokens (Some ragPrompt),
                    actualCompletionTokens = estimateTokens jsonText \<rparr>
                else
                  (case JSON_parse (the jsonText) of
                     Inr parsed \<Rightarrow>
                       \<lparr> result = parsed, ok = True, errMsg = None,
                         actualPromptTokens = estimateTokens (Some ragPrompt),
                         actualCompletionTokens = estimateTokens jsonText \<rparr>
                   | Inl parseError \<Rightarrow>
                       \<lparr> result = reportError ''Failed to parse AI response.'', ok = False,
                         errMsg = Some parseError,
                         actualPromptTokens = estimateTokens (Some ragPrompt),
                         actualCompletionTokens = estimateTokens jsonText \<rparr>))))"

definition reformatCatch :: "string \<Rightarrow> report_result \<times> string" where
  "reformatCatch errMessage =
     (if str_includes errMessage ''429'' \<or> str_includes errMessage ''RESOURCE_EXCEEDED''
      then (reportError RATE_LIMIT_EXCEEDED, ''Rate limit exceeded'')
      else (reportError (''Failed to reformat report: '' @ errMessage), errMessage))"

text \<open>
  \<^verbatim>\<open>reformatReport\<close> hands a usage record to \<^verbatim>\<open>logAiCall\<close> in its \<^verbatim>\<open>finally\<close>
  block like the other operations. For blank input it has logged a first record before:
  the early \<^verbatim>\<open>return\<close> after that call lies inside the \<^verbatim>\<open>try\<close> block, so the
  \<^verbatim>\<open>finally\<close> block logs a second one.
\<close>

record 'a gateway_twice = "'a gateway" +
  loggedBefore :: "ai_call option"

definition reformatReport ::
  "string \<Rightarrow> number \<Rightarrow> number \<Rightarrow> string \<Rightarrow> string \<Rightarrow> provider
     \<Rightarrow> report_result gateway_twice" where
  "reformatReport inputReportContent estimatedInputTokens estimatedOutputTokens endpoint
       reformatPrompt response =
    (let blank = (trim inputReportContent = []);
         g = finally_log ''gemini-2.5-flash'' endpoint estimatedInputTokens estimatedOutputTokens
           (if blank then
              \<lparr> result = reportError ''No content provided for re-formatting.'', ok = True,
                errMsg = None, actualPromptTokens = 0, actualCompletionTokens = 0 \<rparr>
            else
              (case response of
                 Throws e \<Rightarrow>
                   \<lparr> result = fst (reformatCatch e), ok = False, errMsg = Some (snd (reformatCatch e)),
                     actualPromptTokens = estimateTokens (Some reformatPrompt),
                     actualCompletionTokens = 0 \<rparr>
               | Responds text \<Rightarrow>
                   (let resultText = map_option trim text in
                    if resultText = None \<or> resultText = Some [] then
                      \<lparr> result = reportError ''Empty response from AI.'', ok = False,
                        errMsg = Some ''Empty response from AI.'',
                        actualPromptTokens = estimateTokens (Some reformatPrompt),
                        actualCompletionTokens = estimateTokens resultText \<rparr>
                    else
                      \<lparr> result = \<lparr> rr_error = None, rr_content = resultText, rr_summary = None,
                          rr_strCategory = None, rr_riskFlags = None \<rparr>,
                        ok = True, errMsg = None,
                        actualPromptTokens = estimateTokens (Some reformatPrompt),
                        actualCompletionTokens = estimateTokens resultText \<rparr>)))
     in \<lparr> returned = returned g, logged = logged g,
          loggedBefore =
            (if blank then
               Some \<lparr> model = ''N/A'', apiEndpointType = endpoint,
                      promptTokens = estimatedInputTokens, completionTokens = estimatedOutputTokens,
                      success = True, errorMessage = None \<rparr>
             else None) \<rparr>)"

section \<open>Usage accounting (logAiCall, fetchUserPlanAndLimits)\<close>

text \<open>
  The tables of the relational store the two functions touch. Every query of the source
  can answer with an error object or throw; which one does is given by a fault map.
\<close>

record ai_usage_row =
  usage_user_id :: string
  usage_call :: ai_call
  total_tokens :: number

record db =
  ai_usage :: "ai_usage_row list"
  daily_usage :: "string \<times> date \<rightharpoonup> daily_usage_row"
  api_limits :: "string \<rightharpoonup> ApiLimits"
  plans :: "Plan list"

datatype db_op =
  Usage_insert | Daily_select | Daily_upsert | Limits_select | Limits_update | Limits_insert
  | Plan_select

datatype fault = Rejects db_error | Raises

type_synonym faults = "db_op \<Rightarrow> fault option"

text \<open>
  \<^verbatim>\<open>logAiCall\<close> awaits up to five queries, one after the other, and other calls run
  between two of them (the pipeline, the deriver, the completeness check and the report
  generation log independently of each other). A call in progress is at one of these
  stages; it holds the \<^verbatim>\<open>daily_usage\<close> row or the \<^verbatim>\<open>api_limits\<close> row it has read.
\<close>

datatype log_stage =
    Insert_usage
  | Select_daily
  | Upsert_daily "daily_usage_row option"
  | Select_limits
  | Update_limits ApiLimits
  | Log_done

text \<open>\<^verbatim>\<open>strCountIncrement\<close>.\<close>

definition strCountIncrement :: "ai_call \<Rightarrow> number" where
  "strCountIncrement call = (if apiEndpointType call = ''generateReport'' then 1 else 0)"

text \<open>
  One awaited query of \<^verbatim>\<open>logAiCall\<close> and the code up to the next one. \<open>today\<close> is the UTC
  date string computed when the call started. The two updates write absolute values
  computed from the row read in the stage before; the update of \<^verbatim>\<open>api_limits\<close> sets the
  three counter columns of the row stored at that moment. An exception ends the call in
  its \<^verbatim>\<open>catch\<close> block.
\<close>

definition logStep ::
  "date \<Rightarrow> faults \<Rightarrow> string \<Rightarrow> ai_call \<Rightarrow> log_stage \<Rightarrow> db \<Rightarrow> log_stage \<times> db" where
  "logStep today faults uid call stage d =
     (case stage of
        Insert_usage \<Rightarrow>
          (case faults Usage_insert of
             Some Raises \<Rightarrow> (Log_done, d)
           | Some (Rejects e) \<Rightarrow> (if success call then Select_daily else Log_done, d)
           | None \<Rightarrow>
               (if success call then Select_daily else Log_done,
                d\<lparr> ai_usage := ai_usage d @
                      [\<lparr> usage_user_id = uid, usage_call = call,
                         total_tokens = promptTokens call + completionTokens call \<rparr>] \<rparr>))
      | Select_daily \<Rightarrow>
          (case faults Daily_select of
             Some Raises \<Rightarrow> (Log_done, d)
           | Some (Rejects e) \<Rightarrow>
               (if code e \<noteq> ''PGRST116'' then Select_limits else Upsert_daily None, d)
           | None \<Rightarrow> (Upsert_daily (daily_usage d (uid, today)), d))
      | Upsert_daily currentDailyUsage \<Rightarrow>
          (case faults Daily_upsert of
             Some Raises \<Rightarrow> (Log_done, d)
           | Some (Rejects e) \<Rightarrow> (Select_limits, d)
           | None \<Rightarrow>
               (Select_limits,
                d\<lparr> daily_usage := (daily_usage d)((uid, today) \<mapsto>
                     \<lparr> str_count = Some (or_zero (Option.bind currentDailyUsage str_count)
                                          + strCountIncrement call),
                       input_tokens = Some (or_zero (Option.bind currentDailyUsage input_tokens)
                                             + promptTokens call),
                       output_tokens = Some (or_zero (Option.bind currentDailyUsage output_tokens)
                                              + completionTokens call),
                       total_bytes = Some 0 \<rparr>) \<rparr>))
      | Select_limits \<Rightarrow>
          (case faults Limits_select of
             Some f \<Rightarrow> (Log_done, d)
           | None \<Rightarrow>
               (case api_limits d uid of
                  None \<Rightarrow> (Log_done, d)
                | Some currentApiLimits \<Rightarrow> (Update_limits currentApiLimits, d)))
      | Update_limits currentApiLimits \<Rightarrow>
          (Log_done,
           case faults Limits_update of
             Some f \<Rightarrow> d
           | None \<Rightarrow>
               (case api_limits d uid of
                  None \<Rightarrow> d
                | Some row \<Rightarrow>
                    d\<lparr> api_limits := (api_limits d)(uid \<mapsto> row
                         \<lparr> strs_used_monthly :=
                             strs_used_monthly currentApiLimits + strCountIncrement call,
                           input_tokens_used_monthly :=
                             input_tokens_used_monthly currentApiLimits + promptTokens call,
                           output_tokens_used_monthly :=
                             output_tokens_used_monthly currentApiLimits + completionTokens call \<rparr>) \<rparr>))
      | Log_done \<Rightarrow> (Log_done, d))"

text \<open>A call that runs alone: its stages one after the other, with nothing in between.\<close>

definition logAiCall :: "date \<Rightarrow> faults \<Rightarrow> string option \<Rightarrow> ai_call \<Rightarrow> db \<Rightarrow> db" where
  "logAiCall today faults userId call d =
     (case userId of
        None \<Rightarrow> d
      | Some uid \<Rightarrow>
          snd (((\<lambda>(stage, d). logStep today faults uid call stage d) ^^ 5) (Insert_usage, d)))"

text \<open>
  \<^verbatim>\<open>fetchUserPlanAndLimits\<close>, run without another call in between: what the component
  state becomes (plan, ledger, same-day STR count), the store afterwards and the toast
  shown; or the failure caught at the end, which leaves the component state as it was.
\<close>

datatype fetched =
    Loaded Plan ApiLimits number db "toast option"
  | Load_failed string db

text \<open>The same-day STR count read after the reset logic, under the key \<^verbatim>\<open>todayStr\<close>.\<close>

definition fetchDailyStrs :: "date \<Rightarrow> faults \<Rightarrow> string \<Rightarrow> db \<Rightarrow> number option" where
  "fetchDailyStrs todayStr faults uid d =
     (case faults Daily_select of
        Some Raises \<Rightarrow> None
      | Some (Rejects e) \<Rightarrow> Some 0
      | None \<Rightarrow> Some (or_zero (Option.bind (daily_usage d (uid, todayStr)) str_count)))"

text \<open>
  The branch for a user with a ledger row: the plan is looked up, then the reset logic.
  The test compares the local month and year of now with the local month and year of the
  stored date, parsed as UTC midnight; the date written back is the UTC date of now.
\<close>

definition loadExisting :: "clock \<Rightarrow> faults \<Rightarrow> string \<Rightarrow> db \<Rightarrow> ApiLimits \<Rightarrow> fetched" where
  "loadExisting clk faults userId d apiLimitsData =
     (case (faults Plan_select,
            List.find (\<lambda>p. plan_ident p = limits_plan_id apiLimitsData) (plans d)) of
        (None, Some planData) \<Rightarrow>
          (let resetDate = midnightLocal clk (reset_date apiLimitsData) in
           if month (localDate clk) \<noteq> month resetDate \<or> year (localDate clk) \<noteq> year resetDate then
             (let currentApiLimits = apiLimitsData
                    \<lparr> input_tokens_used_monthly := 0, output_tokens_used_monthly := 0,
                      strs_used_monthly := 0, reset_date := utcDate clk \<rparr>
              in case faults Limits_update of
                   Some Raises \<Rightarrow> Load_failed ''api_limits update'' d
                 | Some (Rejects e) \<Rightarrow>
                     (case fetchDailyStrs (utcDate clk) faults userId d of
                        None \<Rightarrow> Load_failed ''daily_usage'' d
                      | Some n \<Rightarrow>
                          Loaded planData currentApiLimits n d
                            (Some (Usage_reset_failed (message e))))
                 | None \<Rightarrow>
                     (let d1 = (case api_limits d userId of
                                  None \<Rightarrow> d
                                | Some row \<Rightarrow>
                                    d\<lparr> api_limits := (api_limits d)(userId \<mapsto> row
                                         \<lparr> input_tokens_used_monthly := 0,
                                           output_tokens_used_monthly := 0,
                                           strs_used_monthly := 0,
                                           reset_date := utcDate clk \<rparr>) \<rparr>)
                      in case fetchDailyStrs (utcDate clk) faults userId d1 of
                           None \<Rightarrow> Load_failed ''daily_usage'' d1
                         | Some n \<Rightarrow> Loaded planData currentApiLimits n d1 (Some Usage_reset)))
           else
             (case fetchDailyStrs (utcDate clk) faults userId d of
                None \<Rightarrow> Load_failed ''daily_usage'' d
              | Some n \<Rightarrow> Loaded planData apiLimitsData n d None))
      | _ \<Rightarrow> Load_failed ''plans'' d)"

text \<open>The branch for a user without a ledger row: the Basic plan and a zeroed ledger.\<close>

definition loadDefault :: "clock \<Rightarrow> faults \<Rightarrow> string \<Rightarrow> db \<Rightarrow> fetched" where
  "loadDefault clk faults userId d =
     (case (faults Plan_select, List.find (\<lambda>p. plan_name p = ''Basic'') (plans d)) of
        (None, Some defaultPlanData) \<Rightarrow>
          (let newApiLimits = \<lparr> limits_user_id = userId,
                 limits_plan_id = plan_ident defaultPlanData,
                 monthly_limit = plan_monthly_limit defaultPlanData, used = 0,
                 reset_date = utcDate clk, input_tokens_used_monthly = 0,
                 output_tokens_used_monthly = 0, strs_used_monthly = 0 \<rparr>
           in case faults Limits_insert of
                Some Raises \<Rightarrow> Load_failed ''api_limits insert'' d
              | Some (Rejects e) \<Rightarrow>
                  Loaded defaultPlanData newApiLimits 0 d
                    (Some (Plan_assignment_failed (message e)))
              | None \<Rightarrow>
                  Loaded defaultPlanData newApiLimits 0
                    (d\<lparr> api_limits := (api_limits d)(userId \<mapsto> newApiLimits) \<rparr>) None)
      | _ \<Rightarrow> Load_failed ''plans'' d)"

definition fetchUserPlanAndLimits :: "clock \<Rightarrow> faults \<Rightarrow> string \<Rightarrow> db \<Rightarrow> fetched" where
  "fetchUserPlanAndLimits clk faults userId d =
     (case faults Limits_select of
        Some Raises \<Rightarrow> Load_failed ''api_limits'' d
      | Some (Rejects e) \<Rightarrow>
          (if code e \<noteq> ''PGRST116'' then Load_failed (message e) d
           else loadDefault clk faults userId d)
      | None \<Rightarrow>
          (case api_limits d userId of
             Some apiLimitsData \<Rightarrow> loadExisting clk faults userId d apiLimitsData
           | None \<Rightarrow> loadDefault clk faults userId d))"

section \<open>Application state (App.tsx)\<close>

text \<open>\<^verbatim>\<open>ProcessingQueueItem\<close>.\<close>

record Job =
  job_projectId :: string
  job_documentId :: string
  job_file :: File

text \<open>What a pending \<^verbatim>\<open>setTimeout\<close> callback does when it fires.\<close>

datatype timer_action = Resume_processing | Retry_derivation string

text \<open>The component state the pipeline and the deriver read and write, with the pending timers.\<close>

record app =
  user :: "User option"
  userPlan :: "Plan option"
  userApiLimits :: "ApiLimits option"
  projects :: "Project list"
  processingQueue :: "Job list"
  isProcessing :: bool
  isExtractingFor :: "string set"
  timers :: "(nat \<times> timer_action) list"

text \<open>
  The state update all pipeline steps share:
  \<^verbatim>\<open>prev.map(p => p.id === projectId ? {...p, documents: p.documents.map(d => d.id === documentId ? f(d) : d)} : p)\<close>.
\<close>

definition mapDocument ::
  "string \<Rightarrow> string \<Rightarrow> (Document \<Rightarrow> Document) \<Rightarrow> Project list \<Rightarrow> Project list" where
  "mapDocument projectId documentId f ps =
     map (\<lambda>p. if proj_id p = projectId
               then p\<lparr> documents := map (\<lambda>d. if doc_id d = documentId then f d else d) (documents p) \<rparr>
               else p) ps"

text \<open>The worker's look-up of the document of a job.\<close>

definition findDocument :: "string \<Rightarrow> string \<Rightarrow> Project list \<Rightarrow> Document option" where
  "findDocument projectId documentId ps =
     (case List.find (\<lambda>p. proj_id p = projectId) ps of
        None \<Rightarrow> None
      | Some project \<Rightarrow> List.find (\<lambda>d. doc_id d = documentId) (documents project))"

section \<open>Document pipeline (processSingleDocument and the queue worker)\<close>

datatype process_result = PROCESS_SUCCESS | PROCESS_ERROR | PROCESS_RATE_LIMITED

text \<open>
  The \<^verbatim>\<open>catch\<close> block of \<^verbatim>\<open>processSingleDocument\<close>, for an error with the given
  message.
\<close>

definition catchProcessing ::
  "string \<Rightarrow> string \<Rightarrow> string \<Rightarrow> Project list \<Rightarrow> Project list \<times> process_result" where
  "catchProcessing projectId documentId msg ps =
     (mapDocument projectId documentId
        (\<lambda>d. d\<lparr> status := Error,
                 doc_error := Some (if msg = [] then ''AI processing failed''
                                    else msg) \<rparr>) ps,
      if msg = RATE_LIMIT_EXCEEDED then PROCESS_RATE_LIMITED else PROCESS_ERROR)"

text \<open>A stage of the job either ends it with a result or hands a value to the next stage.\<close>

datatype 'a stage = Finished process_result | Continue 'a

text \<open>Step 1: the status becomes \<^verbatim>\<open>Extracting Text\<close>.\<close>

definition markExtracting :: "string \<Rightarrow> string \<Rightarrow> Project list \<Rightarrow> Project list" where
  "markExtracting projectId documentId ps =
     mapDocument projectId documentId (\<lambda>d. d\<lparr> status := Extracting_Text \<rparr>) ps"

text \<open>
  Step 2 and the start of step 3, given whether both allowance checks passed and, if they
  did, what \<^verbatim>\<open>extractTextFromFile\<close> returned.
\<close>

definition afterExtract ::
  "string \<Rightarrow> string \<Rightarrow> bool \<Rightarrow> string \<Rightarrow> Project list \<Rightarrow> Project list \<times> string stage" where
  "afterExtract projectId documentId allowed extracted ps =
     (if \<not> allowed then
        (fst (catchProcessing projectId documentId RATE_LIMIT_EXCEEDED ps),
         Finished (snd (catchProcessing projectId documentId RATE_LIMIT_EXCEEDED ps)))
      else if extracted = RATE_LIMIT_EXCEEDED then (ps, Finished PROCESS_RATE_LIMITED)
      else if extracted = UNSUPPORTED_FOR_EXTRACTION then
        (mapDocument projectId documentId
           (\<lambda>d. d\<lparr> status := Unsupported,
                    doc_error := Some ''This file type can be stored but not analyzed by AI.'' \<rparr>) ps,
         Finished PROCESS_SUCCESS)
      else if startsWith extracted ''Error'' then
        (fst (catchProcessing projectId documentId extracted ps),
         Finished (snd (catchProcessing projectId documentId extracted ps)))
      else
        (mapDocument projectId documentId
           (\<lambda>d. d\<lparr> extractedText := Some extracted, status := Classifying \<rparr>) ps,
         Continue extracted))"

text \<open>
  Steps 4 and 5, given whether both allowance checks for classification passed and, if
  they did, what \<^verbatim>\<open>classifyDocument\<close> returned.
\<close>

definition afterClassify ::
  "string \<Rightarrow> string \<Rightarrow> bool \<Rightarrow> string \<Rightarrow> Project list \<Rightarrow> Project list \<times> process_result" where
  "afterClassify projectId documentId allowed docType ps =
     (if \<not> allowed then catchProcessing projectId documentId RATE_LIMIT_EXCEEDED ps
      else if docType = RATE_LIMIT_EXCEEDED then (ps, PROCESS_RATE_LIMITED)
      else
        (mapDocument projectId documentId
           (\<lambda>d. d\<lparr> docTypes := Some [docType], status := Processed \<rparr>) ps,
         PROCESS_SUCCESS))"

text \<open>A query that was not made (the token checks do not read \<^verbatim>\<open>daily_usage\<close>).\<close>

definition notQueried :: "daily_usage_row db_response" where
  "notQueried = \<lparr> data = None, error = None \<rparr>"

text \<open>
  \<^verbatim>\<open>!(await checkApiAllowance('TOKENS_INPUT', i)) || !(await checkApiAllowance('TOKENS_OUTPUT', o))\<close>
  is false.
\<close>

definition tokensAllowed :: "app \<Rightarrow> number \<Rightarrow> number \<Rightarrow> bool" where
  "tokensAllowed a tin tout =
     (fst (checkApiAllowance (userApiLimits a) (userPlan a) (user a) notQueried TOKENS_INPUT tin)
      \<and> fst (checkApiAllowance (userApiLimits a) (userPlan a) (user a) notQueried TOKENS_OUTPUT tout))"

text \<open>What the outside world answers during one job.\<close>

record job_env =
  extractPrompt :: string
  filePart :: file_read
  extractResponse :: provider
  classifyPrompt :: string
  classifyResponse :: provider

definition processSingleDocument :: "app \<Rightarrow> Job \<Rightarrow> job_env \<Rightarrow> Project list \<times> process_result" where
  "processSingleDocument a job env =
     (if user a = None then (projects a, PROCESS_ERROR)
      else
        (let projectId = job_projectId job; documentId = job_documentId job;
             ps1 = markExtracting projectId documentId (projects a);
             estimatedInputTokens =
               of_int \<lceil>(of_nat (file_size (job_file job)) :: rat) / (1024 * 4)\<rceil>;
             estimatedOutputTokens = 2000;
             extracted = returned (extractTextFromFile (job_file job) estimatedInputTokens
                 estimatedOutputTokens ''extractTextFromFile'' (extractPrompt env) (filePart env)
                 (extractResponse env))
         in case afterExtract projectId documentId
                   (tokensAllowed a estimatedInputTokens estimatedOutputTokens) extracted ps1 of
              (ps2, Finished r) \<Rightarrow> (ps2, r)
            | (ps2, Continue txt) \<Rightarrow>
                afterClassify projectId documentId (tokensAllowed a 500 50)
                  (returned (classifyDocument txt 500 50 ''classifyDocument''
                     (classifyPrompt env) (classifyResponse env)))
                  ps2))"

text \<open>
  The handler of the job's result in the worker effect. A rate-limited result leaves the
  queue as it is and starts the 20-second timer that clears \<^verbatim>\<open>isProcessing\<close>; the
  second component names the project whose metadata derivation is triggered.
\<close>

definition handleResult :: "Job \<Rightarrow> process_result \<Rightarrow> app \<Rightarrow> app \<times> string option" where
  "handleResult nextItem r a =
     (case r of
        PROCESS_RATE_LIMITED \<Rightarrow> (a\<lparr> timers := timers a @ [(20000, Resume_processing)] \<rparr>, None)
      | PROCESS_SUCCESS \<Rightarrow>
          (a\<lparr> processingQueue := drop 1 (processingQueue a), isProcessing := False \<rparr>,
           Some (job_projectId nextItem))
      | PROCESS_ERROR \<Rightarrow>
          (a\<lparr> processingQueue := drop 1 (processingQueue a), isProcessing := False \<rparr>, None))"

text \<open>One run of the worker effect, with the job it starts carried through to its result.\<close>

definition workerEffect :: "app \<Rightarrow> job_env \<Rightarrow> app \<times> string option" where
  "workerEffect a env =
     (if user a = None then (a, None)
      else if \<not> isProcessing a \<and> length (processingQueue a) > 0 then
        (case processingQueue a of
           [] \<Rightarrow> (a, None)
         | nextItem # rest \<Rightarrow>
             (case findDocument (job_projectId nextItem) (job_documentId nextItem) (projects a) of
                Some document \<Rightarrow>
                  (let (ps, r) = processSingleDocument a nextItem env
                   in handleResult nextItem r (a\<lparr> isProcessing := True, projects := ps \<rparr>))
              | None \<Rightarrow>
                  (a\<lparr> processingQueue := drop 1 (processingQueue a), isProcessing := False \<rparr>,
                   None)))
      else (a, None))"

text \<open>A timer fires: the first pending one, by what it was set to do.\<close>

definition fireResume :: "app \<Rightarrow> app" where
  "fireResume a = a\<lparr> isProcessing := False, timers := remove1 (20000, Resume_processing) (timers a) \<rparr>"

section \<open>Project metadata deriver (runProjectDetailExtraction)\<close>

text \<open>\<^verbatim>\<open>a || b\<close> on an optional string: a missing or empty value gives the fallback.\<close>

definition str_or :: "string option \<Rightarrow> string \<Rightarrow> string" where
  "str_or x fallback = (case x of None \<Rightarrow> fallback | Some v \<Rightarrow> if v = [] then fallback else v)"

text \<open>Step 6: the object built from the project and the extracted details.\<close>

definition mergeDetails :: "ProjectDetails \<Rightarrow> Project \<Rightarrow> Project" where
  "mergeDetails extractedDetails p =
     p\<lparr> projectName := str_or (details_projectName extractedDetails) (projectName p),
        propertyAddress := str_or (details_propertyAddress extractedDetails) (propertyAddress p),
        clientName := str_or (details_clientName extractedDetails) (clientName p),
        searchPeriod := str_or (details_searchPeriod extractedDetails) (searchPeriod p),
        scenario := Some (case details_scenario extractedDetails of
                            None \<Rightarrow> ''UNKNOWN''
                          | Some sc \<Rightarrow> if sc \<noteq> [] \<and> SCENARIOS_lookup sc then sc else ''UNKNOWN'') \<rparr>"

text \<open>What the outside world answers during one derivation.\<close>

record derive_env =
  parseDetails :: "string \<Rightarrow> string + ProjectDetails"
  detailsPrompt :: string
  detailsResponse :: provider

text \<open>
  What a run does besides changing the state: the projects whose completeness check it
  requests and whether it asks for the limits to be fetched again.
\<close>

record derive_effects =
  completenessChecks :: "string list"
  limitsRefetched :: bool

definition noEffects :: derive_effects where
  "noEffects = \<lparr> completenessChecks = [], limitsRefetched = False \<rparr>"

text \<open>The text the run aggregates from the project it finds in \<^verbatim>\<open>projects\<close>.\<close>

definition allTextOf :: "app \<Rightarrow> string \<Rightarrow> string" where
  "allTextOf a projectId =
     (case List.find (\<lambda>p. proj_id p = projectId) (projects a) of
        None \<Rightarrow> []
      | Some projectToUpdate \<Rightarrow> aggregateText (documents projectToUpdate))"

text \<open>\<^verbatim>\<open>Math.ceil(allText.length / 4) || 3000\<close>.\<close>

definition detailsInputEstimate :: "string \<Rightarrow> number" where
  "detailsInputEstimate allText = num_or (of_int \<lceil>(of_nat (length allText) :: rat) / 4\<rceil>) 3000"

text \<open>
  \<^verbatim>\<open>runProjectDetailExtraction\<close> is made by \<^verbatim>\<open>useCallback\<close> in a render and keeps
  that render's \<^verbatim>\<open>isExtractingFor\<close>, \<^verbatim>\<open>user\<close>, \<^verbatim>\<open>projects\<close> and allowance check;
  the functional state updates read the state at the time they are applied. Below, \<open>c\<close>
  is the state of the render that made the callback and \<open>a\<close> the state at the call. The
  project view calls the callback of the current render (\<open>c = a\<close>); the retry timer calls
  the callback that set it, and the worker the one of the render in which the job started.

  The run up to the point where it waits for the AI call: it returns early (nothing
  changes), or it has put the project into \<^verbatim>\<open>isExtractingFor\<close>.
\<close>

datatype derive_start = Returned_early | Lock_taken app

definition deriveStart :: "app \<Rightarrow> app \<Rightarrow> string \<Rightarrow> derive_start" where
  "deriveStart c a projectId =
     (if projectId \<in> isExtractingFor c \<or> user c = None then Returned_early
      else if \<not> tokensAllowed c (detailsInputEstimate (allTextOf c projectId)) 300
      then Returned_early
      else Lock_taken (a\<lparr> isExtractingFor := insert projectId (isExtractingFor a) \<rparr>))"

text \<open>The \<^verbatim>\<open>finally\<close> block: the project leaves \<^verbatim>\<open>isExtractingFor\<close>.\<close>

definition releaseLock :: "string \<Rightarrow> app \<Rightarrow> app" where
  "releaseLock projectId a = a\<lparr> isExtractingFor := isExtractingFor a - {projectId} \<rparr>"

text \<open>
  The \<^verbatim>\<open>try\<close> block, from the state in which the lock is held. The project and its text
  are those of the callback's render; the merge is applied to the projects of the current
  state. The flag \<^verbatim>\<open>projectWasUpdated\<close> is set inside the updater passed to
  \<^verbatim>\<open>setProjects\<close>, which runs when the update is processed; the test of step 7 reads the
  flag before that, so it finds it false and no completeness check is requested after a
  merge.
\<close>

definition deriveBody :: "app \<Rightarrow> app \<Rightarrow> string \<Rightarrow> derive_env \<Rightarrow> app \<times> derive_effects" where
  "deriveBody c a projectId env =
     (case List.find (\<lambda>p. proj_id p = projectId) (projects c) of
        None \<Rightarrow> (a, noEffects)
      | Some projectToUpdate \<Rightarrow>
          (if allTextOf c projectId = [] then
             (a, \<lparr> completenessChecks = [projectId], limitsRefetched = False \<rparr>)
           else
             (case returned (extractProjectDetailsAndScenario (parseDetails env)
                     (allTextOf c projectId) (detailsInputEstimate (allTextOf c projectId)) 300
                     ''extractProjectDetailsAndScenario'' (detailsPrompt env)
                     (detailsResponse env)) of
                RATE_LIMITED \<Rightarrow>
                  (a\<lparr> timers := timers a @ [(20000, Retry_derivation projectId)] \<rparr>, noEffects)
              | Payload extractedDetails \<Rightarrow>
                  (a\<lparr> projects := map (\<lambda>p. if proj_id p = projectId
                                            then mergeDetails extractedDetails p else p)
                                     (projects a) \<rparr>,
                   \<lparr> completenessChecks = [], limitsRefetched = True \<rparr>))))"

text \<open>One run of the callback of render \<open>c\<close>, from state \<open>a\<close>, carried through to its end.\<close>

definition runProjectDetailExtraction ::
  "app \<Rightarrow> app \<Rightarrow> string \<Rightarrow> derive_env \<Rightarrow> app \<times> derive_effects" where
  "runProjectDetailExtraction c a projectId env =
     (case deriveStart c a projectId of
        Returned_early \<Rightarrow> (a, noEffects)
      | Lock_taken a1 \<Rightarrow>
          (releaseLock projectId (fst (deriveBody c a1 projectId env)),
           snd (deriveBody c a1 projectId env)))"

section \<open>Persistent project store: loading the snapshot (App.tsx)\<close>

text \<open>
  A parsed JSON value. Numbers are restricted to integers (the loader only tests them for
  zero); the members of an object are kept in order, with distinct keys.
\<close>

datatype json =
  JNull | JBool bool | JNum int | JStr string | JArr "json list" | JObj "(string \<times> json) list"

text \<open>JavaScript truthiness.\<close>

definition truthy :: "json \<Rightarrow> bool" where
  "truthy v = (case v of JNull \<Rightarrow> False | JBool b \<Rightarrow> b | JNum n \<Rightarrow> n \<noteq> 0 | JStr s \<Rightarrow> s \<noteq> []
                | JArr xs \<Rightarrow> True | JObj kvs \<Rightarrow> True)"

text \<open>\<^verbatim>\<open>typeof v === 'object'\<close>, which also holds for \<^verbatim>\<open>null\<close> and for arrays.\<close>

definition isObject :: "json \<Rightarrow> bool" where
  "isObject v = (case v of JNull \<Rightarrow> True | JArr xs \<Rightarrow> True | JObj kvs \<Rightarrow> True | _ \<Rightarrow> False)"

text \<open>
  The property read \<^verbatim>\<open>v.k\<close> for the names the loader reads (\<^verbatim>\<open>id\<close>, \<^verbatim>\<open>documents\<close>,
  \<^verbatim>\<open>docType\<close>, \<^verbatim>\<open>docTypes\<close>, \<^verbatim>\<open>status\<close>, \<^verbatim>\<open>scenario\<close>, \<^verbatim>\<open>projectName\<close>, ...):
  none of them is inherited, so the read finds an own member or is undefined (\<open>None\<close>).
\<close>

definition field :: "json \<Rightarrow> string \<Rightarrow> json option" where
  "field v k = (case v of JObj kvs \<Rightarrow> map_of kvs k | _ \<Rightarrow> None)"

text \<open>\<^verbatim>\<open>v.k\<close> is truthy.\<close>

definition truthyProp :: "json \<Rightarrow> string \<Rightarrow> bool" where
  "truthyProp v k = (case field v k of None \<Rightarrow> False | Some x \<Rightarrow> truthy x)"

text \<open>The members copied by \<^verbatim>\<open>{...v}\<close>.\<close>

definition spread :: "json \<Rightarrow> (string \<times> json) list" where
  "spread v = (case v of JObj kvs \<Rightarrow> kvs | _ \<Rightarrow> [])"

text \<open>The decimal digits of a number.\<close>

function show_nat :: "nat \<Rightarrow> string" where
  "show_nat n = (if n < 10 then [char_of (48 + n)] else show_nat (n div 10) @ [char_of (48 + n mod 10)])"
  by pat_completeness auto
termination
  by (relation "measure id") auto

definition show_int :: "int \<Rightarrow> string" where
  "show_int i = (if i < 0 then CHR ''-'' # show_nat (nat (- i)) else show_nat (nat i))"

text \<open>
  The conversion of a value to a string, as a template literal and a computed property key
  perform it. An object parsed from JSON whose own member \<^verbatim>\<open>toString\<close> shadows the
  inherited method has no callable \<^verbatim>\<open>toString\<close>, and the inherited \<^verbatim>\<open>valueOf\<close>
  returns the object itself, so the conversion throws a \<^verbatim>\<open>TypeError\<close> (\<open>None\<close>). An
  array is converted by joining the conversions of its elements, \<^verbatim>\<open>null\<close> counting as
  the empty string.
\<close>

fun toStr :: "json \<Rightarrow> string option" and toStrs :: "json list \<Rightarrow> string list option" where
  "toStr JNull = Some ''null''"
| "toStr (JBool b) = Some (if b then ''true'' else ''false'')"
| "toStr (JNum i) = Some (show_int i)"
| "toStr (JStr s) = Some s"
| "toStr (JArr xs) = map_option (\<lambda>ss. join ss '','') (toStrs xs)"
| "toStr (JObj kvs) = (if map_of kvs ''toString'' \<noteq> None then None else Some ''[object Object]'')"
| "toStrs [] = Some []"
| "toStrs (x # xs) =
     (case (if x = JNull then Some [] else toStr x) of
        None \<Rightarrow> None
      | Some s \<Rightarrow> map_option ((#) s) (toStrs xs))"

text \<open>
  The comparison of \<^verbatim>\<open>Array.prototype.includes\<close>: primitives by value, objects and arrays
  by identity (two parsed values are never the same object).
\<close>

definition sameValueZero :: "json \<Rightarrow> json \<Rightarrow> bool" where
  "sameValueZero a b = (case a of JArr xs \<Rightarrow> False | JObj kvs \<Rightarrow> False | _ \<Rightarrow> a = b)"

definition arrayIncludes :: "json list \<Rightarrow> json \<Rightarrow> bool" where
  "arrayIncludes xs v = list_ex (\<lambda>x. sameValueZero x v) xs"

definition transientStatuses :: "json list" where
  "transientStatuses = [JStr ''Uploading'', JStr ''Uploaded'', JStr ''Extracting Text'',
     JStr ''Classifying'']"

text \<open>The validation of a project entry and of a document entry: \<^verbatim>\<open>v && typeof v === 'object' && v.id\<close>.\<close>

definition validEntry :: "json \<Rightarrow> bool" where
  "validEntry v = (truthy v \<and> isObject v \<and> truthyProp v ''id'')"

text \<open>The migration of the legacy \<^verbatim>\<open>docType\<close> field.\<close>

definition currentTypesOf :: "json \<Rightarrow> json list" where
  "currentTypesOf doc = (case field doc ''docTypes'' of Some (JArr ts) \<Rightarrow> ts | _ \<Rightarrow> [])"

definition finalTypesOf :: "json \<Rightarrow> json list" where
  "finalTypesOf doc =
     (case field doc ''docType'' of
        Some legacyType \<Rightarrow>
          if truthy legacyType \<and> \<not> arrayIncludes (currentTypesOf doc) legacyType
          then currentTypesOf doc @ [legacyType] else currentTypesOf doc
      | None \<Rightarrow> currentTypesOf doc)"

text \<open>The callback of \<^verbatim>\<open>documents.map\<close>.\<close>

definition migrateDocument :: "json \<Rightarrow> json" where
  "migrateDocument doc =
     (let newDoc = AList.delete ''docType''
                     (AList.update ''docTypes'' (JArr (finalTypesOf doc)) (spread doc))
      in if (case map_of newDoc ''status'' of
               Some st \<Rightarrow> arrayIncludes transientStatuses st | None \<Rightarrow> False)
         then JObj (AList.update ''progress'' (JNum 0)
                     (AList.update ''error'' (JStr ''Processing was interrupted. Please re-upload.'')
                        (AList.update ''status'' (JStr ''Error'') newDoc)))
         else JObj newDoc)"

text \<open>\<^verbatim>\<open>v || fallback\<close> on a property that may be undefined.\<close>

definition js_or :: "json option \<Rightarrow> json \<Rightarrow> json" where
  "js_or v fallback = (case v of Some x \<Rightarrow> if truthy x then x else fallback | None \<Rightarrow> fallback)"

text \<open>
  What the reducer does with one entry: it skips a malformed one, pushes the loaded
  project, or an exception is thrown while the project is built. The \<^verbatim>\<open>catch\<close> block
  then logs a template literal that converts \<^verbatim>\<open>project.id\<close> to a string: the entry is
  skipped, unless that conversion throws too, and then the exception leaves the loader.
\<close>

datatype entry_outcome = Skipped | Pushed json | Caught | Uncaught

definition updatedDocuments :: "json \<Rightarrow> json list" where
  "updatedDocuments project =
     map migrateDocument
       (filter validEntry (case field project ''documents'' of Some (JArr ds) \<Rightarrow> ds | _ \<Rightarrow> []))"

text \<open>
  \<^verbatim>\<open>project.scenario && SCENARIOS[project.scenario] ? project.scenario : 'UNKNOWN'\<close>;
  \<open>None\<close> when the conversion of the scenario to a property key throws.
\<close>

definition validatedScenario :: "json \<Rightarrow> json option" where
  "validatedScenario project =
     (case field project ''scenario'' of
        None \<Rightarrow> Some (JStr ''UNKNOWN'')
      | Some sc \<Rightarrow>
          if \<not> truthy sc then Some (JStr ''UNKNOWN'')
          else (case toStr sc of
                  None \<Rightarrow> None
                | Some key \<Rightarrow> Some (if SCENARIOS_lookup key then sc else JStr ''UNKNOWN'')))"

definition loadEntry :: "json \<Rightarrow> entry_outcome" where
  "loadEntry project =
     (if \<not> validEntry project then Skipped
      else
        (case validatedScenario project of
           Some sc \<Rightarrow>
             Pushed (JObj
               (AList.update ''advocateInstructions'' (js_or (field project ''advocateInstructions'') (JStr []))
               (AList.update ''report'' (js_or (field project ''report'') JNull)
               (AList.update ''scenario'' sc
               (AList.update ''searchPeriod'' (js_or (field project ''searchPeriod'') (JStr ''Not Provided''))
               (AList.update ''clientName'' (js_or (field project ''clientName'') (JStr ''Not Provided''))
               (AList.update ''propertyAddress'' (js_or (field project ''propertyAddress'') (JStr ''Not Provided''))
               (AList.update ''projectName'' (js_or (field project ''projectName'') (JStr ''Unnamed Project''))
               (AList.update ''documents'' (JArr (updatedDocuments project))
                  (spread project))))))))))
         | None \<Rightarrow>
             (case Option.bind (field project ''id'') toStr of
                Some shown \<Rightarrow> Caught
              | None \<Rightarrow> Uncaught)))"

text \<open>\<^verbatim>\<open>parsedData.reduce\<close>; \<open>None\<close> when an exception leaves the callback.\<close>

fun reduceProjects :: "json list \<Rightarrow> json list \<Rightarrow> json list option" where
  "reduceProjects acc [] = Some acc"
| "reduceProjects acc (project # rest) =
     (case loadEntry project of
        Skipped \<Rightarrow> reduceProjects acc rest
      | Caught \<Rightarrow> reduceProjects acc rest
      | Pushed loaded \<Rightarrow> reduceProjects (acc @ [loaded]) rest
      | Uncaught \<Rightarrow> None)"

text \<open>
  The initializer of the \<^verbatim>\<open>projects\<close> state. \<^verbatim>\<open>JSON.parse\<close> is an argument (\<open>None\<close>:
  it throws); the result \<open>None\<close> means that an exception leaves the initializer.
\<close>

definition loadProjects :: "(string \<Rightarrow> json option) \<Rightarrow> string option \<Rightarrow> json list option" where
  "loadProjects JSON_parse savedData =
     (case savedData of
        None \<Rightarrow> Some []
      | Some text \<Rightarrow>
          if text = [] then Some []
          else (case JSON_parse text of
                  None \<Rightarrow> Some []
                | Some (JArr entries) \<Rightarrow> reduceProjects [] entries
                | Some other \<Rightarrow> Some []))"

text \<open>The projects an entry contributes to the loaded collection.\<close>

definition pushedBy :: "json \<Rightarrow> json list" where
  "pushedBy entry = (case loadEntry entry of Pushed loaded \<Rightarrow> [loaded] | _ \<Rightarrow> [])"

section \<open>The pipeline as a transition system\<close>

text \<open>
  The worker is modelled event by event. Between two events a started call of
  \<^verbatim>\<open>processSingleDocument\<close> waits for the gateway: for the extraction or for the
  classification.
\<close>

datatype phase = Awaiting_extraction | Awaiting_classification

text \<open>
  The component state, the calls of \<^verbatim>\<open>processSingleDocument\<close> in progress, and the
  calls of \<^verbatim>\<open>handleGenerateReport\<close> (project view) in progress: each holds the
  \<^verbatim>\<open>project\<close> of the render in which it was started.
\<close>

record world =
  state :: app
  running :: "(Job \<times> phase) list"
  generating :: "Project list"

text \<open>
  The handlers of App.tsx that change the projects or the queue, as state updates.
  \<^verbatim>\<open>handleCreateProject\<close> adds the project and enqueues its documents.
\<close>

definition handleCreateProject :: "Project \<Rightarrow> app \<Rightarrow> app" where
  "handleCreateProject newProject a =
     a\<lparr> projects := newProject # projects a,
        processingQueue := processingQueue a @
          map (\<lambda>d. \<lparr> job_projectId = doc_projectId d, job_documentId = doc_id d,
                      job_file = the (doc_file d) \<rparr>)
            (filter (\<lambda>d. doc_file d \<noteq> None) (documents newProject)) \<rparr>"

text \<open>
  \<^verbatim>\<open>handleDocumentUpload\<close> adds the documents with status \<^verbatim>\<open>Uploading\<close>; the simulated
  upload then reports progress, fails, or completes and enqueues the job.
\<close>

definition addDocuments :: "string \<Rightarrow> Document list \<Rightarrow> app \<Rightarrow> app" where
  "addDocuments projectId newDocumentsToAdd a =
     a\<lparr> projects := map (\<lambda>p. if proj_id p = projectId
                               then p\<lparr> documents := documents p @ newDocumentsToAdd \<rparr> else p)
                        (projects a) \<rparr>"

definition uploadProgress :: "string \<Rightarrow> string \<Rightarrow> number \<Rightarrow> app \<Rightarrow> app" where
  "uploadProgress projectId documentId n a =
     a\<lparr> projects := mapDocument projectId documentId (\<lambda>d. d\<lparr> progress := Some n \<rparr>) (projects a) \<rparr>"

definition uploadFailed :: "string \<Rightarrow> string \<Rightarrow> app \<Rightarrow> app" where
  "uploadFailed projectId documentId a =
     a\<lparr> projects := mapDocument projectId documentId
          (\<lambda>d. d\<lparr> status := Error, doc_error := Some ''Network interruption during upload.'' \<rparr>)
          (projects a) \<rparr>"

definition uploadCompleted :: "Job \<Rightarrow> app \<Rightarrow> app" where
  "uploadCompleted job a =
     a\<lparr> projects := mapDocument (job_projectId job) (job_documentId job)
          (\<lambda>d. d\<lparr> status := Uploaded, progress := Some 100 \<rparr>) (projects a),
        processingQueue := processingQueue a @ [job] \<rparr>"

definition handleDeleteDocument :: "string \<Rightarrow> string \<Rightarrow> app \<Rightarrow> app" where
  "handleDeleteDocument projectId documentId a =
     a\<lparr> projects := map (\<lambda>p. if proj_id p = projectId
                               then p\<lparr> documents := filter (\<lambda>d. doc_id d \<noteq> documentId) (documents p) \<rparr>
                               else p) (projects a) \<rparr>"

definition handleDeleteProject :: "string \<Rightarrow> app \<Rightarrow> app" where
  "handleDeleteProject projectId a =
     a\<lparr> projects := filter (\<lambda>p. proj_id p \<noteq> projectId) (projects a) \<rparr>"

text \<open>\<^verbatim>\<open>handleUpdateDocumentType\<close>: the manual, additive assignment of a type.\<close>

definition addDocType :: "string \<Rightarrow> Document \<Rightarrow> Document" where
  "addDocType newType d =
     (let currentTypes = (case docTypes d of Some ts \<Rightarrow> ts | None \<Rightarrow> [])
      in if newType \<notin> set currentTypes then d\<lparr> docTypes := Some (currentTypes @ [newType]) \<rparr>
         else d)"

definition handleUpdateDocumentType :: "string \<Rightarrow> string \<Rightarrow> string \<Rightarrow> app \<Rightarrow> app" where
  "handleUpdateDocumentType projectId documentId newType a =
     a\<lparr> projects := mapDocument projectId documentId (addDocType newType) (projects a) \<rparr>"

text \<open>\<^verbatim>\<open>handleUpdateProject\<close> replaces the project of the same id.\<close>

definition handleUpdateProject :: "Project \<Rightarrow> app \<Rightarrow> app" where
  "handleUpdateProject updatedProject a =
     a\<lparr> projects := map (\<lambda>p. if proj_id p = proj_id updatedProject then updatedProject else p)
                        (projects a) \<rparr>"

text \<open>
  Its two callers, in the project view. \<^verbatim>\<open>handleSaveDetails\<close> stores
  \<^verbatim>\<open>{...project, ...formData}\<close>; \<^verbatim>\<open>handleGenerateReport\<close>, when the awaited
  \<^verbatim>\<open>generateReport\<close> has returned without an error, stores
  \<^verbatim>\<open>{...project, report: {...}}\<close>. In both, \<^verbatim>\<open>project\<close> is the one the handler
  was created with.
\<close>

record details_form =
  form_projectName :: string
  form_propertyAddress :: string
  form_clientName :: string
  form_searchPeriod :: string
  form_advocateInstructions :: string

definition handleSaveDetails :: "Project \<Rightarrow> details_form \<Rightarrow> app \<Rightarrow> app" where
  "handleSaveDetails project formData a =
     handleUpdateProject
       (project\<lparr> projectName := form_projectName formData,
                 propertyAddress := form_propertyAddress formData,
                 clientName := form_clientName formData,
                 searchPeriod := form_searchPeriod formData,
                 advocateInstructions := Some (form_advocateInstructions formData) \<rparr>) a"

definition reportGenerated :: "Project \<Rightarrow> Report \<Rightarrow> app \<Rightarrow> app" where
  "reportGenerated project newReport a =
     handleUpdateProject (project\<lparr> report := Some newReport \<rparr>) a"

text \<open>The \<^verbatim>\<open>.catch\<close> handler of the worker, for a call that rejects.\<close>

definition promiseRejected :: "Job \<Rightarrow> string \<Rightarrow> app \<Rightarrow> app" where
  "promiseRejected nextItem msg a =
     a\<lparr> projects := mapDocument (job_projectId nextItem) (job_documentId nextItem)
          (\<lambda>d. d\<lparr> status := Error,
                   doc_error := Some (if msg = [] then ''An unexpected error occurred during processing.''
                                      else msg) \<rparr>)
          (projects a),
        processingQueue := drop 1 (processingQueue a), isProcessing := False \<rparr>"

text \<open>The state update at the end of \<^verbatim>\<open>handleCheckCompleteness\<close>.\<close>

definition setMissingDocuments :: "string \<Rightarrow> string list \<Rightarrow> app \<Rightarrow> app" where
  "setMissingDocuments projectId missingDocs a =
     a\<lparr> projects := map (\<lambda>p. if proj_id p = projectId then p\<lparr> missingDocuments := Some missingDocs \<rparr>
                               else p) (projects a) \<rparr>"

text \<open>The session events.\<close>

definition signedIn :: "User \<Rightarrow> app \<Rightarrow> app" where
  "signedIn u a = a\<lparr> user := Some u \<rparr>"

definition signedOut :: "app \<Rightarrow> app" where
  "signedOut a = a\<lparr> user := None, userPlan := None, userApiLimits := None \<rparr>"

definition limitsLoaded :: "Plan \<Rightarrow> ApiLimits \<Rightarrow> app \<Rightarrow> app" where
  "limitsLoaded plan limits a = a\<lparr> userPlan := Some plan, userApiLimits := Some limits \<rparr>"

text \<open>
  The ids given to new documents (\<^verbatim>\<open>doc_${Date.now()}_${Math.random()}\<close>) are taken to
  be new in their project and different from each other.
\<close>

definition freshDocuments :: "string \<Rightarrow> Document list \<Rightarrow> app \<Rightarrow> bool" where
  "freshDocuments projectId docs a =
     (distinct (map doc_id docs)
      \<and> (\<forall>p \<in> set (projects a). proj_id p = projectId \<longrightarrow>
            (\<forall>d \<in> set docs. \<forall>e \<in> set (documents p). doc_id d \<noteq> doc_id e)))"

text \<open>
  One event. The worker effect starts the job at the head of the queue, or drops it when
  its document is gone; a started call goes on when the gateway answers (the allowance
  checks and the answer are arbitrary); the 20-second timer clears \<^verbatim>\<open>isProcessing\<close>.
  The other events are the handlers above, at any time; the project view shows a project
  of the current state. A metadata derivation is run by the callback of some render, the
  current or an older one. A report generation starts by keeping that project and may end
  without storing anything (a failed allowance check, an error result, an exception). The
  event in which it stores the report is \<^verbatim>\<open>reportStep\<close> below.
\<close>

inductive step :: "world \<Rightarrow> world \<Rightarrow> bool" where
  worker_start:
    "user (state w) \<noteq> None \<Longrightarrow> \<not> isProcessing (state w) \<Longrightarrow>
     processingQueue (state w) = nextItem # rest \<Longrightarrow>
     findDocument (job_projectId nextItem) (job_documentId nextItem) (projects (state w)) = Some doc \<Longrightarrow>
     step w (w\<lparr> state := (state w)\<lparr> isProcessing := True,
                 projects := markExtracting (job_projectId nextItem) (job_documentId nextItem)
                               (projects (state w)) \<rparr>,
              running := running w @ [(nextItem, Awaiting_extraction)] \<rparr>)"
| worker_drop:
    "user (state w) \<noteq> None \<Longrightarrow> \<not> isProcessing (state w) \<Longrightarrow>
     processingQueue (state w) = nextItem # rest \<Longrightarrow>
     findDocument (job_projectId nextItem) (job_documentId nextItem) (projects (state w)) = None \<Longrightarrow>
     step w (w\<lparr> state := (state w)\<lparr> processingQueue := drop 1 (processingQueue (state w)),
                                     isProcessing := False \<rparr> \<rparr>)"
| extraction_continues:
    "(job, Awaiting_extraction) \<in> set (running w) \<Longrightarrow>
     afterExtract (job_projectId job) (job_documentId job) allowed extracted (projects (state w))
       = (ps, Continue txt) \<Longrightarrow>
     step w (w\<lparr> state := (state w)\<lparr> projects := ps \<rparr>,
              running := (job, Awaiting_classification) # remove1 (job, Awaiting_extraction) (running w) \<rparr>)"
| extraction_ends:
    "(job, Awaiting_extraction) \<in> set (running w) \<Longrightarrow>
     afterExtract (job_projectId job) (job_documentId job) allowed extracted (projects (state w))
       = (ps, Finished r) \<Longrightarrow>
     step w (w\<lparr> state := fst (handleResult job r ((state w)\<lparr> projects := ps \<rparr>)),
              running := remove1 (job, Awaiting_extraction) (running w) \<rparr>)"
| classification_ends:
    "(job, Awaiting_classification) \<in> set (running w) \<Longrightarrow>
     afterClassify (job_projectId job) (job_documentId job) allowed docType (projects (state w))
       = (ps, r) \<Longrightarrow>
     step w (w\<lparr> state := fst (handleResult job r ((state w)\<lparr> projects := ps \<rparr>)),
              running := remove1 (job, Awaiting_classification) (running w) \<rparr>)"
| call_rejected:
    "(job, ph) \<in> set (running w) \<Longrightarrow>
     step w (w\<lparr> state := promiseRejected job msg (state w), running := remove1 (job, ph) (running w) \<rparr>)"
| resume_timer:
    "(20000, Resume_processing) \<in> set (timers (state w)) \<Longrightarrow>
     step w (w\<lparr> state := fireResume (state w) \<rparr>)"
| create_project:
    "proj_id newProject \<notin> set (map proj_id (projects (state w))) \<Longrightarrow>
     distinct (map doc_id (documents newProject)) \<Longrightarrow>
     \<forall>d \<in> set (documents newProject). status d = Uploaded \<and> doc_projectId d = proj_id newProject \<Longrightarrow>
     step w (w\<lparr> state := handleCreateProject newProject (state w) \<rparr>)"
| upload_starts:
    "freshDocuments projectId docs (state w) \<Longrightarrow> \<forall>d \<in> set docs. status d = Uploading \<Longrightarrow>
     step w (w\<lparr> state := addDocuments projectId docs (state w) \<rparr>)"
| upload_progresses:
    "step w (w\<lparr> state := uploadProgress projectId documentId n (state w) \<rparr>)"
| upload_fails:
    "step w (w\<lparr> state := uploadFailed projectId documentId (state w) \<rparr>)"
| upload_completes:
    "step w (w\<lparr> state := uploadCompleted job (state w) \<rparr>)"
| delete_document:
    "step w (w\<lparr> state := handleDeleteDocument projectId documentId (state w) \<rparr>)"
| delete_project:
    "step w (w\<lparr> state := handleDeleteProject projectId (state w) \<rparr>)"
| update_document_type:
    "step w (w\<lparr> state := handleUpdateDocumentType projectId documentId newType (state w) \<rparr>)"
| save_details:
    "project \<in> set (projects (state w)) \<Longrightarrow>
     step w (w\<lparr> state := handleSaveDetails project formData (state w) \<rparr>)"
| report_starts:
    "project \<in> set (projects (state w)) \<Longrightarrow>
     step w (w\<lparr> generating := project # generating w \<rparr>)"
| report_fails:
    "project \<in> set (generating w) \<Longrightarrow>
     step w (w\<lparr> generating := remove1 project (generating w) \<rparr>)"
| derive_metadata:
    "step w (w\<lparr> state := fst (runProjectDetailExtraction c (state w) projectId env) \<rparr>)"
| completeness_checked:
    "step w (w\<lparr> state := setMissingDocuments projectId missingDocs (state w) \<rparr>)"
| sign_in:
    "step w (w\<lparr> state := signedIn u (state w) \<rparr>)"
| sign_out:
    "step w (w\<lparr> state := signedOut (state w) \<rparr>)"
| limits_loaded:
    "step w (w\<lparr> state := limitsLoaded plan limits (state w) \<rparr>)"

text \<open>A document in status \<^verbatim>\<open>Extracting Text\<close> or \<^verbatim>\<open>Classifying\<close>.\<close>

definition inFlight :: "Document \<Rightarrow> bool" where
  "inFlight d = (status d = Extracting_Text \<or> status d = Classifying)"

text \<open>
  The state after the component is mounted: an empty queue, no call and no timer, and the
  loaded projects, in which no document is in flight (the loader turns transient statuses
  into \<^verbatim>\<open>Error\<close>) and whose ids are taken to be distinct.
\<close>

definition initial :: "world \<Rightarrow> bool" where
  "initial w =
     (running w = [] \<and> generating w = []
      \<and> processingQueue (state w) = [] \<and> \<not> isProcessing (state w)
      \<and> timers (state w) = []
      \<and> distinct (map proj_id (projects (state w)))
      \<and> (\<forall>p \<in> set (projects (state w)). distinct (map doc_id (documents p))
            \<and> (\<forall>d \<in> set (documents p). \<not> inFlight d)))"

text \<open>
  A report generation ends with a report: the project it kept, with the report, replaces
  the project of that id.
\<close>

inductive reportStep :: "world \<Rightarrow> world \<Rightarrow> bool" where
  report_stored:
    "project \<in> set (generating w) \<Longrightarrow>
     reportStep w (w\<lparr> state := reportGenerated project newReport (state w),
                     generating := remove1 project (generating w) \<rparr>)"

inductive reachable :: "world \<Rightarrow> bool" where
  reach_initial: "initial w \<Longrightarrow> reachable w"
| reach_step: "reachable w \<Longrightarrow> step w w' \<Longrightarrow> reachable w'"
| reach_report: "reachable w \<Longrightarrow> reportStep w w' \<Longrightarrow> reachable w'"


section \<open>The invariant of the pipeline\<close>

text \<open>The document the job at the head of the queue names.\<close>

definition headKey :: "Job list \<Rightarrow> (string \<times> string) set" where
  "headKey q = (case q of [] \<Rightarrow> {} | job # rest \<Rightarrow> {(job_projectId job, job_documentId job)})"

text \<open>Project ids are distinct, and so are the document ids within each project.\<close>

definition idsDistinct :: "Project list \<Rightarrow> bool" where
  "idsDistinct ps =
     (distinct (map proj_id ps) \<and> (\<forall>p \<in> set ps. distinct (map doc_id (documents p))))"

text \<open>Every document in flight is the one named by the job at the head of the queue.\<close>

definition inFlightAtHead :: "Project list \<Rightarrow> Job list \<Rightarrow> bool" where
  "inFlightAtHead ps q =
     (\<forall>p \<in> set ps. \<forall>d \<in> set (documents p). inFlight d \<longrightarrow> (proj_id p, doc_id d) \<in> headKey q)"

definition noInFlight :: "Project list \<Rightarrow> bool" where
  "noInFlight ps = (\<forall>p \<in> set ps. \<forall>d \<in> set (documents p). \<not> inFlight d)"

text \<open>The number of pending timers that will clear \<^verbatim>\<open>isProcessing\<close>.\<close>

definition resumeCount :: "app \<Rightarrow> nat" where
  "resumeCount a = length (filter (\<lambda>t. t = (20000, Resume_processing)) (timers a))"

text \<open>
  At most one call is in progress; it works on the head of the queue, with
  \<^verbatim>\<open>isProcessing\<close> set and no timer pending. At most one timer is pending, and then
  \<^verbatim>\<open>isProcessing\<close> is set.
\<close>

definition workerInv :: "world \<Rightarrow> bool" where
  "workerInv w =
     ((running w = []
       \<or> (\<exists>job ph rest. running w = [(job, ph)] \<and> processingQueue (state w) = job # rest
             \<and> isProcessing (state w) \<and> resumeCount (state w) = 0))
      \<and> resumeCount (state w) \<le> 1
      \<and> (resumeCount (state w) = 1 \<longrightarrow> isProcessing (state w)))"

definition pipelineInv :: "world \<Rightarrow> bool" where
  "pipelineInv w = (idsDistinct (projects (state w))
            \<and> inFlightAtHead (projects (state w)) (processingQueue (state w))
            \<and> workerInv w)"

section \<open>Conditions named in the statements\<close>

text \<open>
  The first pair of allowance checks of a job (for extraction) fails: the estimate of the
  input tokens is the file size divided by 4096, rounded up, that of the output tokens 2000.
\<close>

definition stageOneDenied :: "app \<Rightarrow> Job \<Rightarrow> bool" where
  "stageOneDenied a job =
     (\<not> tokensAllowed a (of_int \<lceil>(of_nat (file_size (job_file job)) :: rat) / (1024 * 4)\<rceil>) 2000)"

text \<open>What \<^verbatim>\<open>extractTextFromFile\<close> returns in the job.\<close>

definition extractedOf :: "Job \<Rightarrow> job_env \<Rightarrow> string" where
  "extractedOf job env =
     returned (extractTextFromFile (job_file job)
       (of_int \<lceil>(of_nat (file_size (job_file job)) :: rat) / (1024 * 4)\<rceil>) 2000
       ''extractTextFromFile'' (extractPrompt env) (filePart env) (extractResponse env))"

text \<open>
  The second pair of allowance checks (for classification, 500 and 50 tokens) fails, after
  the first pair passed and extraction delivered a text.
\<close>

definition stageTwoDenied :: "app \<Rightarrow> Job \<Rightarrow> job_env \<Rightarrow> bool" where
  "stageTwoDenied a job env =
     (\<not> stageOneDenied a job
      \<and> extractedOf job env \<noteq> RATE_LIMIT_EXCEEDED
      \<and> extractedOf job env \<noteq> UNSUPPORTED_FOR_EXTRACTION
      \<and> \<not> startsWith (extractedOf job env) ''Error''
      \<and> \<not> tokensAllowed a 500 50)"

text \<open>
  What \<^verbatim>\<open>extractProjectDetailsAndScenario\<close> returns in a derivation run by the callback
  of the render with state \<open>a\<close>.
\<close>

definition detailsOf :: "app \<Rightarrow> string \<Rightarrow> derive_env \<Rightarrow> ProjectDetails limited" where
  "detailsOf a projectId env =
     returned (extractProjectDetailsAndScenario (parseDetails env) (allTextOf a projectId)
       (detailsInputEstimate (allTextOf a projectId)) 300 ''extractProjectDetailsAndScenario''
       (detailsPrompt env) (detailsResponse env))"

text \<open>
  A derivation for the project, run by the callback of the render with state \<open>a\<close>, reaches
  the AI call: in that render the project is not locked, a user is logged in, both
  allowance checks pass and the project has processed text.
\<close>

definition derivationCalls :: "app \<Rightarrow> string \<Rightarrow> bool" where
  "derivationCalls a projectId =
     (projectId \<notin> isExtractingFor a \<and> user a \<noteq> None
      \<and> tokensAllowed a (detailsInputEstimate (allTextOf a projectId)) 300
      \<and> allTextOf a projectId \<noteq> [])"

text \<open>
  The AI call fails with an error the gateway does not take for a rate limit, or its
  response is empty, or the response does not parse.
\<close>

definition derivationFails :: "derive_env \<Rightarrow> bool" where
  "derivationFails env =
     (case detailsResponse env of
        Throws e \<Rightarrow> \<not> str_includes e ''429'' \<and> \<not> str_includes e ''RESOURCE_EXCEEDED''
      | Responds None \<Rightarrow> True
      | Responds (Some t) \<Rightarrow> trim t = [] \<or> isl (parseDetails env (trim t)))"

text \<open>
  The three monthly counters of the second ledger row are at least those of the first, and
  both rows belong to the same reset period.
\<close>

definition countersLe :: "ApiLimits \<Rightarrow> ApiLimits \<Rightarrow> bool" where
  "countersLe l l' =
     (input_tokens_used_monthly l \<le> input_tokens_used_monthly l'
      \<and> output_tokens_used_monthly l \<le> output_tokens_used_monthly l'
      \<and> strs_used_monthly l \<le> strs_used_monthly l'
      \<and> reset_date l' = reset_date l)"

text \<open>All three monthly counters are zero.\<close>

definition countersZero :: "ApiLimits \<Rightarrow> bool" where
  "countersZero l =
     (input_tokens_used_monthly l = 0 \<and> output_tokens_used_monthly l = 0
      \<and> strs_used_monthly l = 0)"

text \<open>
  The test of the reset logic: on the local calendar, the month or the year of the stored
  reset date is not that of now.
\<close>

definition monthChanged :: "clock \<Rightarrow> ApiLimits \<Rightarrow> bool" where
  "monthChanged clk l =
     (month (localDate clk) \<noteq> month (midnightLocal clk (reset_date l))
      \<or> year (localDate clk) \<noteq> year (midnightLocal clk (reset_date l)))"

text \<open>
  Between its read of \<^verbatim>\<open>api_limits\<close> and its write, a call that runs alone holds the row
  that is stored.
\<close>

definition holdsStored :: "string \<Rightarrow> log_stage \<Rightarrow> db \<Rightarrow> bool" where
  "holdsStored uid stage d =
     (case stage of Update_limits cur \<Rightarrow> api_limits d uid = Some cur | _ \<Rightarrow> True)"

section \<open>Fixtures\<close>

definition basicPlan :: Plan where
  "basicPlan = \<lparr> plan_ident = 1, plan_name = ''Basic'', plan_monthly_limit = 10,
     price_monthly = 0, max_input_tokens_per_month = 100000,
     max_output_tokens_per_month = 50000, max_strs_per_month = 10, max_strs_per_day = 2,
     max_file_size_mb_per_document = 10, max_total_upload_mb_per_str = 50 \<rparr>"

definition freshLimits :: ApiLimits where
  "freshLimits = \<lparr> limits_user_id = ''u1'', limits_plan_id = 1, monthly_limit = 10, used = 0,
     reset_date = \<lparr> year = 2026, month = 11, day = 2 \<rparr>,
     input_tokens_used_monthly = 0, output_tokens_used_monthly = 0, strs_used_monthly = 0 \<rparr>"

definition advocate :: User where
  "advocate = \<lparr> user_ident = ''u1'', user_name = ''A'', email = ''a@example.com'',
     firmName = ''F'' \<rparr>"

definition dailyTimeout :: "daily_usage_row db_response" where
  "dailyTimeout = \<lparr> data = None, error = Some \<lparr> code = ''500'', message = ''timeout'' \<rparr> \<rparr>"

definition dailyNoRows :: "daily_usage_row db_response" where
  "dailyNoRows = \<lparr> data = None, error = Some \<lparr> code = ''PGRST116'', message = ''no rows'' \<rparr> \<rparr>"

definition pdfFile :: File where
  "pdfFile = \<lparr> file_name = ''deed.pdf'', file_type = ''application/pdf'', file_size = 8192 \<rparr>"

definition docA :: Document where
  "docA = \<lparr> doc_id = ''doc_1'', doc_projectId = ''proj_1'', fileName = ''deed.pdf'',
     fileType = ''application/pdf'', docTypes = Some [], doc_file = Some pdfFile,
     uploadDate = ''2026-11-02'', status = Uploaded, extractedText = None, progress = None,
     doc_error = None \<rparr>"

definition docB :: Document where
  "docB = docA\<lparr> doc_id := ''doc_2'', fileName := ''tax.pdf'' \<rparr>"

definition projectOne :: Project where
  "projectOne = \<lparr> proj_id = ''proj_1'', projectName = ''Plot 7'', propertyAddress = ''Pune'',
     clientName = ''Asha'', searchPeriod = ''30 years'', createdAt = ''2026-11-02'',
     documents = [docA, docB], report = None, scenario = Some ''NA_PLOT'',
     missingDocuments = None, advocateInstructions = Some [] \<rparr>"

definition jobA :: Job where
  "jobA = \<lparr> job_projectId = ''proj_1'', job_documentId = ''doc_1'', job_file = pdfFile \<rparr>"

definition jobB :: Job where
  "jobB = \<lparr> job_projectId = ''proj_1'', job_documentId = ''doc_2'', job_file = pdfFile \<rparr>"

definition appReady :: app where
  "appReady = \<lparr> user = Some advocate, userPlan = Some basicPlan, userApiLimits = Some freshLimits,
     projects = [projectOne], processingQueue = [jobA, jobB], isProcessing = False,
     isExtractingFor = {}, timers = [] \<rparr>"

definition envClassifyFails :: job_env where
  "envClassifyFails = \<lparr> extractPrompt = ''Extract all text'', filePart = Read_ok,
     extractResponse = Responds (Some ''SALE DEED between A and B''),
     classifyPrompt = ''Classify'', classifyResponse = Throws ''Error: 500 Internal Server Error'' \<rparr>"



definition appExhausted :: app where
  "appExhausted = appReady\<lparr> userApiLimits := Some (freshLimits\<lparr> input_tokens_used_monthly := 100000 \<rparr>) \<rparr>"

definition exhaustedError :: string where
  "exhaustedError = ''ApiError: RESOURCE_EXHAUSTED''"

definition processedDoc :: Document where
  "processedDoc = docA\<lparr> status := Processed, extractedText := Some ''SALE DEED between A and B'',
     docTypes := Some [''Sale Deed''] \<rparr>"

definition projectProcessed :: Project where
  "projectProcessed = projectOne\<lparr> documents := [processedDoc, docB] \<rparr>"

definition appDerive :: app where
  "appDerive = appReady\<lparr> projects := [projectProcessed], processingQueue := [] \<rparr>"



definition envConstructor :: derive_env where
  "envConstructor = \<lparr> parseDetails = (\<lambda>j. Inr (emptyDetails\<lparr> details_scenario := Some ''constructor'' \<rparr>)),
     detailsPrompt = ''Derive'', detailsResponse = Responds (Some ''{\"scenario\":\"constructor\"}'') \<rparr>"

definition envServerError :: derive_env where
  "envServerError = \<lparr> parseDetails = (\<lambda>j. Inl ''Unexpected token''), detailsPrompt = ''Derive'',
     detailsResponse = Throws ''Error: 500 Internal Server Error'' \<rparr>"

definition envNoFields :: derive_env where
  "envNoFields = \<lparr> parseDetails = (\<lambda>j. Inr emptyDetails), detailsPrompt = ''Derive'',
     detailsResponse = Responds (Some ''{}'') \<rparr>"

definition noFaults :: faults where
  "noFaults = (\<lambda>op. None)"

definition octoberLimits :: ApiLimits where
  "octoberLimits = freshLimits\<lparr> reset_date := \<lparr> year = 2026, month = 10, day = 15 \<rparr>,
     input_tokens_used_monthly := 5000, output_tokens_used_monthly := 900, strs_used_monthly := 3 \<rparr>"

definition storeOctober :: db where
  "storeOctober = \<lparr> ai_usage = [], daily_usage = Map.empty,
     api_limits = [''u1'' \<mapsto> octoberLimits], plans = [basicPlan] \<rparr>"

definition reportCall :: ai_call where
  "reportCall = \<lparr> model = ''gemini-2.5-pro'', apiEndpointType = ''generateReport'',
     promptTokens = 1200, completionTokens = 800, success = True, errorMessage = None \<rparr>"

definition today1 :: date where
  "today1 = \<lparr> year = 2026, month = 10, day = 20 \<rparr>"

definition classifyCall :: ai_call where
  "classifyCall = \<lparr> model = ''gemini-2.5-flash'', apiEndpointType = ''classifyDocument'',
     promptTokens = 500, completionTokens = 50, success = True, errorMessage = None \<rparr>"

text \<open>The ledger row after the report call alone, and after the classification call alone.\<close>

definition reportCounted :: ApiLimits where
  "reportCounted = octoberLimits\<lparr> strs_used_monthly := 4, input_tokens_used_monthly := 6200,
     output_tokens_used_monthly := 1700 \<rparr>"

definition classifyCounted :: ApiLimits where
  "classifyCounted = octoberLimits\<lparr> strs_used_monthly := 3, input_tokens_used_monthly := 5500,
     output_tokens_used_monthly := 950 \<rparr>"

text \<open>
  The calendar day before a date: west of UTC, the local calendar date of the UTC midnight
  with which the date begins.
\<close>

definition leapYear :: "int \<Rightarrow> bool" where
  "leapYear y = (y mod 4 = 0 \<and> (y mod 100 \<noteq> 0 \<or> y mod 400 = 0))"

definition daysInMonth :: "int \<Rightarrow> nat \<Rightarrow> nat" where
  "daysInMonth y m =
     (if m = 2 then (if leapYear y then 29 else 28)
      else if m = 4 \<or> m = 6 \<or> m = 9 \<or> m = 11 then 30 else 31)"

definition dayBefore :: "date \<Rightarrow> date" where
  "dayBefore d =
     (if 1 < day d then d\<lparr> day := day d - 1 \<rparr>
      else if 1 < month d
      then \<lparr> year = year d, month = month d - 1, day = daysInMonth (year d) (month d - 1) \<rparr>
      else \<lparr> year = year d - 1, month = 12, day = 31 \<rparr>)"

text \<open>
  A browser on UTC, and one in a zone west of UTC (New York, say) at a moment of the day at
  which its calendar date is the UTC date (there, any time before the early evening).
\<close>

definition onUTC :: "date \<Rightarrow> clock" where
  "onUTC today = \<lparr> utcDate = today, localDate = today, midnightLocal = (\<lambda>d. d) \<rparr>"

definition westOfUTC :: "date \<Rightarrow> clock" where
  "westOfUTC today = \<lparr> utcDate = today, localDate = today, midnightLocal = dayBefore \<rparr>"

definition november1 :: date where
  "november1 = \<lparr> year = 2026, month = 11, day = 1 \<rparr>"

text \<open>
  The ledger row on the first of November: after the reset of that day, and after a report
  has then been generated and logged.
\<close>

definition resetLimits :: ApiLimits where
  "resetLimits = octoberLimits\<lparr> input_tokens_used_monthly := 0, output_tokens_used_monthly := 0,
     strs_used_monthly := 0, reset_date := november1 \<rparr>"

definition novemberLimits :: ApiLimits where
  "novemberLimits = resetLimits\<lparr> strs_used_monthly := 1, input_tokens_used_monthly := 1200,
     output_tokens_used_monthly := 800 \<rparr>"

definition storeWith :: "ApiLimits \<Rightarrow> db" where
  "storeWith row = storeOctober\<lparr> api_limits := [''u1'' \<mapsto> row] \<rparr>"

definition tampered :: json where
  "tampered = JArr [JObj [(''id'', JObj [(''toString'', JNum 1)]),
                          (''scenario'', JObj [(''toString'', JNum 1)])]]"

definition legacyDoc :: json where
  "legacyDoc = JObj [(''id'', JStr ''d1''), (''docType'', JStr ''Sale Deed''),
     (''status'', JStr ''Classifying'')]"

definition snapshot :: json where
  "snapshot = JArr [JObj [(''projectName'', JStr ''no id'')],
     JObj [(''id'', JStr ''p1''), (''documents'', JArr [legacyDoc, JObj [(''fileName'', JStr ''x'')], JNull])],
     JNum 3]"


text \<open>
  A run of the application: a stored project with one processed document is loaded, two
  files are uploaded to it, and a report is generated while the first of them is being
  extracted.
\<close>

definition docC :: Document where
  "docC = docA\<lparr> doc_id := ''doc_0'', fileName := ''index2.pdf'', doc_file := None,
     status := Processed, extractedText := Some ''INDEX II for plot 7'',
     docTypes := Some [''Index II''] \<rparr>"

definition projectLoaded :: Project where
  "projectLoaded = projectOne\<lparr> documents := [docC] \<rparr>"

definition uploadA :: Document where
  "uploadA = docA\<lparr> status := Uploading, progress := Some 0 \<rparr>"

definition uploadB :: Document where
  "uploadB = docB\<lparr> status := Uploading, progress := Some 0 \<rparr>"

definition run0 :: world where
  "run0 = \<lparr> state = appReady\<lparr> projects := [projectLoaded], processingQueue := [] \<rparr>,
     running = [], generating = [] \<rparr>"

definition run1 :: world where
  "run1 = run0\<lparr> state := addDocuments ''proj_1'' [uploadA, uploadB] (state run0) \<rparr>"

definition run2 :: world where
  "run2 = run1\<lparr> state := uploadCompleted jobA (state run1) \<rparr>"

definition run3 :: world where
  "run3 = run2\<lparr> state := uploadCompleted jobB (state run2) \<rparr>"

definition run4 :: world where
  "run4 = run3\<lparr> state := (state run3)\<lparr> isProcessing := True,
       projects := markExtracting (job_projectId jobA) (job_documentId jobA)
                     (projects (state run3)) \<rparr>,
     running := running run3 @ [(jobA, Awaiting_extraction)] \<rparr>"

text \<open>The project as the project view shows it while the first upload is being extracted.\<close>

definition staleProject :: Project where
  "staleProject = projectLoaded\<lparr> documents :=
     [docC, uploadA\<lparr> status := Extracting_Text, progress := Some 100 \<rparr>,
      uploadB\<lparr> status := Uploaded, progress := Some 100 \<rparr>] \<rparr>"

definition run5 :: world where
  "run5 = run4\<lparr> generating := staleProject # generating run4 \<rparr>"

definition run6 :: world where
  "run6 = run5\<lparr> state := (state run5)\<lparr> projects :=
       mapDocument (job_projectId jobA) (job_documentId jobA)
         (\<lambda>d. d\<lparr> extractedText := Some ''SALE DEED between A and B'', status := Classifying \<rparr>)
         (projects (state run5)) \<rparr>,
     running := (jobA, Awaiting_classification) # remove1 (jobA, Awaiting_extraction) (running run5) \<rparr>"

definition run7 :: world where
  "run7 = run6\<lparr> state := fst (handleResult jobA PROCESS_SUCCESS ((state run6)\<lparr> projects :=
       mapDocument (job_projectId jobA) (job_documentId jobA)
         (\<lambda>d. d\<lparr> docTypes := Some [''Sale Deed''], status := Processed \<rparr>)
         (projects (state run6)) \<rparr>)),
     running := remove1 (jobA, Awaiting_classification) (running run6) \<rparr>"

definition run8 :: world where
  "run8 = run7\<lparr> state := (state run7)\<lparr> isProcessing := True,
       projects := markExtracting (job_projectId jobB) (job_documentId jobB)
                     (projects (state run7)) \<rparr>,
     running := running run7 @ [(jobB, Awaiting_extraction)] \<rparr>"

definition staleReport :: Report where
  "staleReport = \<lparr> report_id = ''report_1'', report_content = ''# Title report'' \<rparr>"

definition run9 :: world where
  "run9 = run8\<lparr> state := reportGenerated staleProject staleReport (state run8),
     generating := remove1 staleProject (generating run8) \<rparr>"

definition worldStale :: world where
  "worldStale = run9\<lparr> state := (state run9)\<lparr> projects :=
       mapDocument (job_projectId jobB) (job_documentId jobB)
         (\<lambda>d. d\<lparr> extractedText := Some ''TAX RECEIPT 2025'', status := Classifying \<rparr>)
         (projects (state run9)) \<rparr>,
     running := (jobB, Awaiting_classification) # remove1 (jobB, Awaiting_extraction) (running run9) \<rparr>"

section \<open>Allowance check for STR generation\<close>

text \<open>
  C3, as stated, fails: with the plan, the ledger and the user loaded, the monthly counter
  at zero and no STR generated today, the check still returns false when the
  \<^verbatim>\<open>daily_usage\<close> query fails with an error other than "no rows".
\<close>

theorem C3_counterexample:
  "\<not> (fst (checkApiAllowance (Some freshLimits) (Some basicPlan) (Some advocate) dailyTimeout STR_GEN 1)
        = False
      \<longleftrightarrow> (strs_used_monthly freshLimits + 1 > max_strs_per_month basicPlan
           \<or> dailyStrsUsed dailyTimeout + 1 > max_strs_per_day basicPlan))"
  by (simp add: checkApiAllowance_def freshLimits_def basicPlan_def advocate_def
      dailyTimeout_def dailyStrsUsed_def or_zero_def)

text \<open>
  C3, amended: with the ledger, the plan and the user loaded, the check for STR
  generation with value 1 returns false exactly when the monthly STR counter plus 1
  exceeds the monthly cap, or the same-day query fails with an error other than "no rows",
  or the freshly fetched same-day count plus 1 exceeds the daily cap; it returns true in
  every other case.
\<close>

theorem C3_str_allowance:
  "fst (checkApiAllowance (Some limits) (Some plan) (Some u) dailyUsage STR_GEN 1) =
     (\<not> (strs_used_monthly limits + 1 > max_strs_per_month plan
         \<or> dailyFetchFailed dailyUsage
         \<or> dailyStrsUsed dailyUsage + 1 > max_strs_per_day plan))"
  by (simp add: checkApiAllowance_def dailyFetchFailed_def dailyStrsUsed_def
      split: option.splits)

theorem C3_str_allowance_witness:
  "fst (checkApiAllowance (Some freshLimits) (Some basicPlan) (Some advocate) dailyNoRows STR_GEN 1)
     = True
   \<and> fst (checkApiAllowance (Some freshLimits) (Some basicPlan) (Some advocate) dailyTimeout STR_GEN 1)
     = False"
  using C3_str_allowance [of freshLimits basicPlan advocate dailyNoRows]
    C3_str_allowance [of freshLimits basicPlan advocate dailyTimeout]
  by (simp add: freshLimits_def basicPlan_def dailyNoRows_def dailyTimeout_def
      dailyFetchFailed_def dailyStrsUsed_def or_zero_def)


section \<open>Document updates\<close>

lemma find_map_document:
  assumes "\<And>d. doc_id (f d) = doc_id d"
  shows "List.find (\<lambda>d. doc_id d = did) (map (\<lambda>d. if doc_id d = did then f d else d) ds)
         = map_option f (List.find (\<lambda>d. doc_id d = did) ds)"
  using assms by (induction ds) auto

lemma findDocument_mapDocument:
  assumes "\<And>d. doc_id (f d) = doc_id d"
  shows "findDocument pid did (mapDocument pid did f ps) = map_option f (findDocument pid did ps)"
proof (induction ps)
  case Nil
  then show ?case by (simp add: findDocument_def mapDocument_def)
next
  case (Cons p ps)
  then show ?case
    using find_map_document [OF assms, of did "documents p"]
    by (auto simp: findDocument_def mapDocument_def split: option.splits)
qed

lemma findDocument_markExtracting:
  "findDocument pid did (markExtracting pid did ps)
     = map_option (\<lambda>d. d\<lparr> status := Extracting_Text \<rparr>) (findDocument pid did ps)"
  unfolding markExtracting_def by (rule findDocument_mapDocument) simp

lemma findDocument_catchProcessing:
  "findDocument pid did (fst (catchProcessing pid did msg ps))
     = map_option (\<lambda>d. d\<lparr> status := Error,
          doc_error := Some (if msg = [] then ''AI processing failed'' else msg) \<rparr>)
        (findDocument pid did ps)"
  unfolding catchProcessing_def fst_conv by (rule findDocument_mapDocument) simp


section \<open>A failed allowance check in the pipeline\<close>

lemma process_stage_one_denied:
  assumes "user a = Some u" "stageOneDenied a job"
  shows "processSingleDocument a job env =
     catchProcessing (job_projectId job) (job_documentId job) RATE_LIMIT_EXCEEDED
       (markExtracting (job_projectId job) (job_documentId job) (projects a))"
  using assms by (simp add: processSingleDocument_def stageOneDenied_def afterExtract_def Let_def)


lemma process_stage_two_denied:
  assumes "user a = Some u" "stageTwoDenied a job env"
  shows "processSingleDocument a job env =
     catchProcessing (job_projectId job) (job_documentId job) RATE_LIMIT_EXCEEDED
       (mapDocument (job_projectId job) (job_documentId job)
          (\<lambda>d. d\<lparr> extractedText := Some (extractedOf job env), status := Classifying \<rparr>)
          (markExtracting (job_projectId job) (job_documentId job) (projects a)))"
  using assms
  by (simp add: processSingleDocument_def stageOneDenied_def stageTwoDenied_def extractedOf_def
      afterExtract_def afterClassify_def Let_def)

lemma snd_catch_rate_limit: "snd (catchProcessing pid did RATE_LIMIT_EXCEEDED ps) = PROCESS_RATE_LIMITED"
  by (simp add: catchProcessing_def)

lemma denied_result:
  assumes "user a = Some u" "stageOneDenied a job \<or> stageTwoDenied a job env"
  shows "snd (processSingleDocument a job env) = PROCESS_RATE_LIMITED"
  using assms process_stage_one_denied [of a u job env] process_stage_two_denied [of a u job env]
  by (auto simp: snd_catch_rate_limit)

lemma denied_status:
  assumes "user a = Some u" "stageOneDenied a job \<or> stageTwoDenied a job env"
    and "findDocument (job_projectId job) (job_documentId job) (projects a) = Some d"
  shows "map_option (\<lambda>x. (status x, doc_error x))
           (findDocument (job_projectId job) (job_documentId job)
              (fst (processSingleDocument a job env)))
         = Some (Error, Some RATE_LIMIT_EXCEEDED)"
proof -
  from assms(2) show ?thesis
  proof
    assume "stageOneDenied a job"
    then show ?thesis
      using assms(1,3) process_stage_one_denied [of a u job env]
      by (simp add: findDocument_catchProcessing findDocument_markExtracting
          RATE_LIMIT_EXCEEDED_def)
  next
    assume "stageTwoDenied a job env"
    then show ?thesis
      using assms(1,3) process_stage_two_denied [of a u job env]
      by (simp add: findDocument_catchProcessing findDocument_mapDocument
          findDocument_markExtracting RATE_LIMIT_EXCEEDED_def)
  qed
qed

lemma jobA_document: "findDocument (job_projectId jobA) (job_documentId jobA) [projectOne] = Some docA"
  by (simp add: findDocument_def jobA_def projectOne_def docA_def)

lemma exhausted_denied: "stageOneDenied appExhausted jobA"
  by (simp add: stageOneDenied_def tokensAllowed_def checkApiAllowance_def appExhausted_def
      appReady_def freshLimits_def basicPlan_def jobA_def pdfFile_def)

lemma ready_allowed: "tokensAllowed appReady 2 2000" "tokensAllowed appReady 500 50"
  by (simp_all add: tokensAllowed_def checkApiAllowance_def appReady_def freshLimits_def
      basicPlan_def)

lemma jobA_estimate: "(of_int \<lceil>(of_nat (file_size (job_file jobA)) :: rat) / (1024 * 4)\<rceil> :: rat) = 2"
  by (simp add: jobA_def pdfFile_def)

lemma extract_eval:
  "returned (extractTextFromFile (job_file jobA) 2 2000 ''extractTextFromFile''
      (extractPrompt envClassifyFails) (filePart envClassifyFails)
      (extractResponse envClassifyFails)) = ''SALE DEED between A and B''"
  by (simp add: extractTextFromFile_def jobA_def pdfFile_def envClassifyFails_def
      KNOWN_UNSUPPORTED_MIME_TYPES_def SUPPORTED_MIME_TYPES_FOR_EXTRACTION_def finally_log_def
      trim_def isSpace_def)

lemma classify_eval:
  "returned (classifyDocument t 500 50 ''classifyDocument'' (classifyPrompt envClassifyFails)
      (classifyResponse envClassifyFails)) = ''Error''"
  by (simp add: classifyDocument_def envClassifyFails_def finally_log_def classifyCatch_def)


lemma worker_denied:
  assumes "user a = Some u" and "\<not> isProcessing a" and "processingQueue a = job # rest"
    and "findDocument (job_projectId job) (job_documentId job) (projects a) = Some d"
    and "stageOneDenied a job \<or> stageTwoDenied a job env"
  shows "map_option (\<lambda>x. (status x, doc_error x))
           (findDocument (job_projectId job) (job_documentId job)
              (projects (fst (workerEffect a env))))
         = Some (Error, Some RATE_LIMIT_EXCEEDED)
       \<and> processingQueue (fst (workerEffect a env)) = job # rest
       \<and> isProcessing (fst (workerEffect a env))
       \<and> timers (fst (workerEffect a env)) = timers a @ [(20000, Resume_processing)]
       \<and> snd (workerEffect a env) = None"
proof -
  obtain ps r where pr: "processSingleDocument a job env = (ps, r)"
    by (cases "processSingleDocument a job env")
  have r: "r = PROCESS_RATE_LIMITED"
    using denied_result [OF assms(1,5)] pr by simp
  have st: "map_option (\<lambda>x. (status x, doc_error x))
           (findDocument (job_projectId job) (job_documentId job) ps)
         = Some (Error, Some RATE_LIMIT_EXCEEDED)"
    using denied_status [OF assms(1,5,4)] pr by simp
  have w: "workerEffect a env =
      (a\<lparr> isProcessing := True, projects := ps,
          timers := timers a @ [(20000, Resume_processing)] \<rparr>, None)"
    using assms(1-4) pr r by (simp add: workerEffect_def handleResult_def)
  show ?thesis using st assms(3) by (simp add: w)
qed



text \<open>
  C5, as stated, fails: with the monthly input-token cap already reached, the worker marks
  the document of the first job \<^verbatim>\<open>Error\<close> but does not advance: the queue still holds
  both jobs, the first one at its head.
\<close>

theorem C5_counterexample:
  "stageOneDenied appExhausted jobA
   \<and> processingQueue appExhausted = [jobA, jobB]
   \<and> processingQueue (fst (workerEffect appExhausted envClassifyFails)) = [jobA, jobB]
   \<and> processingQueue (fst (workerEffect appExhausted envClassifyFails))
        \<noteq> drop 1 (processingQueue appExhausted)"
proof -
  have h: "user appExhausted = Some advocate" "\<not> isProcessing appExhausted"
    "processingQueue appExhausted = jobA # [jobB]"
    "findDocument (job_projectId jobA) (job_documentId jobA) (projects appExhausted) = Some docA"
    using jobA_document by (simp_all add: appExhausted_def appReady_def)
  have d: "stageOneDenied appExhausted jobA \<or> stageTwoDenied appExhausted jobA envClassifyFails"
    using exhausted_denied by simp
  show ?thesis
    using worker_denied [OF h d] exhausted_denied h(3) by simp
qed

text \<open>
  C5, amended: when an allowance check of the job being worked fails (for extraction, or
  for classification after a text was extracted), the pipeline marks that document
  \<^verbatim>\<open>Error\<close> with the message \<^verbatim>\<open>RATE_LIMIT_EXCEEDED\<close> and treats the job as rate
  limited: the job stays at the head of the queue, \<^verbatim>\<open>isProcessing\<close> stays set, a
  20-second timer is started that clears it (so that the same job is taken up again), and
  no metadata derivation is triggered.
\<close>

theorem C5_allowance_failure:
  assumes "user a = Some u" and "\<not> isProcessing a" and "processingQueue a = job # rest"
    and "findDocument (job_projectId job) (job_documentId job) (projects a) = Some d"
    and "stageOneDenied a job \<or> stageTwoDenied a job env"
  shows "map_option (\<lambda>x. (status x, doc_error x))
           (findDocument (job_projectId job) (job_documentId job)
              (projects (fst (workerEffect a env))))
         = Some (Error, Some RATE_LIMIT_EXCEEDED)
       \<and> processingQueue (fst (workerEffect a env)) = job # rest
       \<and> isProcessing (fst (workerEffect a env))
       \<and> timers (fst (workerEffect a env)) = timers a @ [(20000, Resume_processing)]
       \<and> snd (workerEffect a env) = None
       \<and> processingQueue (fireResume (fst (workerEffect a env))) = job # rest
       \<and> \<not> isProcessing (fireResume (fst (workerEffect a env)))"
  using worker_denied [OF assms] by (simp add: fireResume_def)

theorem C5_allowance_failure_witness:
  "map_option (\<lambda>x. (status x, doc_error x))
           (findDocument (job_projectId jobA) (job_documentId jobA)
              (projects (fst (workerEffect appExhausted envClassifyFails))))
         = Some (Error, Some RATE_LIMIT_EXCEEDED)
   \<and> processingQueue (fst (workerEffect appExhausted envClassifyFails)) = [jobA, jobB]
   \<and> isProcessing (fst (workerEffect appExhausted envClassifyFails))
   \<and> processingQueue (fireResume (fst (workerEffect appExhausted envClassifyFails))) = [jobA, jobB]"
proof -
  have h: "user appExhausted = Some advocate" "\<not> isProcessing appExhausted"
    "processingQueue appExhausted = jobA # [jobB]"
    "findDocument (job_projectId jobA) (job_documentId jobA) (projects appExhausted) = Some docA"
    using jobA_document by (simp_all add: appExhausted_def appReady_def)
  have d: "stageOneDenied appExhausted jobA \<or> stageTwoDenied appExhausted jobA envClassifyFails"
    using exhausted_denied by simp
  show ?thesis
    using C5_allowance_failure [OF h d] by simp
qed

section \<open>What a processed document holds\<close>

text \<open>
  C1 names a property the code misses on one path. When the provider call of
  \<^verbatim>\<open>classifyDocument\<close> throws an error that is not a rate limit, the function returns the
  string \<^verbatim>\<open>Error\<close>; \<^verbatim>\<open>processSingleDocument\<close> tests the label only against the
  rate-limit sentinel (the extracted text, in contrast, is tested for a leading
  \<^verbatim>\<open>Error\<close>), stores it and marks the document \<^verbatim>\<open>Processed\<close>. The document below
  ends \<^verbatim>\<open>Processed\<close> with the single label \<^verbatim>\<open>Error\<close>, which is not in the vocabulary.
\<close>

theorem C1_processed_with_label_Error:
  "processSingleDocument appReady jobA envClassifyFails =
     ([projectOne\<lparr> documents :=
         [docA\<lparr> status := Processed, extractedText := Some ''SALE DEED between A and B'',
                 docTypes := Some [''Error''] \<rparr>, docB] \<rparr>], PROCESS_SUCCESS)
   \<and> ''Error'' \<notin> set typesArray"
proof -
  have u: "user appReady \<noteq> None" "projects appReady = [projectOne]"
    by (simp_all add: appReady_def)
  have m: "markExtracting (job_projectId jobA) (job_documentId jobA) [projectOne]
            = [projectOne\<lparr> documents := [docA\<lparr> status := Extracting_Text \<rparr>, docB] \<rparr>]"
    by (simp add: markExtracting_def mapDocument_def jobA_def projectOne_def docA_def docB_def)
  have e: "afterExtract (job_projectId jobA) (job_documentId jobA) True ''SALE DEED between A and B''
             [projectOne\<lparr> documents := [docA\<lparr> status := Extracting_Text \<rparr>, docB] \<rparr>]
           = ([projectOne\<lparr> documents := [docA\<lparr> status := Classifying,
                   extractedText := Some ''SALE DEED between A and B'' \<rparr>, docB] \<rparr>],
              Continue ''SALE DEED between A and B'')"
    by (simp add: afterExtract_def mapDocument_def jobA_def projectOne_def docA_def docB_def
        RATE_LIMIT_EXCEEDED_def UNSUPPORTED_FOR_EXTRACTION_def startsWith_def)
  have c: "afterClassify (job_projectId jobA) (job_documentId jobA) True ''Error''
             [projectOne\<lparr> documents := [docA\<lparr> status := Classifying,
                   extractedText := Some ''SALE DEED between A and B'' \<rparr>, docB] \<rparr>]
           = ([projectOne\<lparr> documents :=
                 [docA\<lparr> status := Processed, extractedText := Some ''SALE DEED between A and B'',
                       docTypes := Some [''Error''] \<rparr>, docB] \<rparr>], PROCESS_SUCCESS)"
    by (simp add: afterClassify_def mapDocument_def jobA_def projectOne_def docA_def docB_def
        RATE_LIMIT_EXCEEDED_def)
  have p: "processSingleDocument appReady jobA envClassifyFails =
     ([projectOne\<lparr> documents :=
         [docA\<lparr> status := Processed, extractedText := Some ''SALE DEED between A and B'',
                 docTypes := Some [''Error''] \<rparr>, docB] \<rparr>], PROCESS_SUCCESS)"
    unfolding processSingleDocument_def Let_def jobA_estimate extract_eval classify_eval
    using u ready_allowed by (simp add: m e c)
  show ?thesis using p by (simp add: typesArray_def)
qed



section \<open>Rate-limit detection in the gateway\<close>

lemma exhausted_not_exceeded:
  "\<not> str_includes exhaustedError ''429''" "\<not> str_includes exhaustedError ''RESOURCE_EXCEEDED''"
  "str_includes exhaustedError ''RESOURCE_EXHAUSTED''"
  by (simp_all add: exhaustedError_def)

lemma aggregate_processed: "aggregateText (documents projectProcessed) \<noteq> []"
  by (simp add: aggregateText_def projectProcessed_def projectOne_def processedDoc_def docA_def docB_def)


text \<open>
  C8 names a property the code misses. Five of the six operations look for
  \<^verbatim>\<open>RESOURCE_EXCEEDED\<close> in the error text, only \<^verbatim>\<open>classifyDocument\<close> for
  \<^verbatim>\<open>RESOURCE_EXHAUSTED\<close>. An error text that signals resource exhaustion without the
  number 429 is mapped to the sentinel by classification and to a generic error (or an
  empty payload) by the other five.
\<close>

theorem C8_resource_exhausted:
  "returned (extractTextFromFile pdfFile i1 o1 ep p Read_ok (Throws exhaustedError))
      = ''Error: The text extraction process failed.''
   \<and> returned (extractProjectDetailsAndScenario parse1 ''SALE DEED'' i1 o1 ep p (Throws exhaustedError))
      = Payload emptyDetails
   \<and> returned (analyzeDocumentCompleteness parse2 i1 o1 ep p (Throws exhaustedError)) = Payload []
   \<and> returned (generateReport parse3 projectProcessed i1 o1 ep p (Throws exhaustedError))
      = reportError exhaustedError
   \<and> returned (reformatReport ''# Report'' i1 o1 ep p (Throws exhaustedError))
      = reportError (''Failed to reformat report: '' @ exhaustedError)
   \<and> returned (classifyDocument ''SALE DEED'' i1 o1 ep p (Throws exhaustedError))
      = RATE_LIMIT_EXCEEDED
   \<and> ''Error: The text extraction process failed.'' \<noteq> RATE_LIMIT_EXCEEDED
   \<and> exhaustedError \<noteq> RATE_LIMIT_EXCEEDED"
proof -
  have 1: "returned (extractTextFromFile pdfFile i1 o1 ep p Read_ok (Throws exhaustedError))
      = ''Error: The text extraction process failed.''"
    using exhausted_not_exceeded
    by (simp add: extractTextFromFile_def pdfFile_def KNOWN_UNSUPPORTED_MIME_TYPES_def
        SUPPORTED_MIME_TYPES_FOR_EXTRACTION_def finally_log_def extractCatch_def)
  have 2: "returned (extractProjectDetailsAndScenario parse1 ''SALE DEED'' i1 o1 ep p (Throws exhaustedError))
      = Payload emptyDetails"
    using exhausted_not_exceeded
    by (simp add: extractProjectDetailsAndScenario_def finally_log_def detailsCatch_def trim_def
        isSpace_def)
  have 3: "returned (analyzeDocumentCompleteness parse2 i1 o1 ep p (Throws exhaustedError)) = Payload []"
    using exhausted_not_exceeded
    by (simp add: analyzeDocumentCompleteness_def finally_log_def completenessCatch_def)
  have 4: "returned (generateReport parse3 projectProcessed i1 o1 ep p (Throws exhaustedError))
      = reportError exhaustedError"
    using exhausted_not_exceeded aggregate_processed
    by (simp add: generateReport_def finally_log_def generateCatch_def)
  have 5: "returned (reformatReport ''# Report'' i1 o1 ep p (Throws exhaustedError))
      = reportError (''Failed to reformat report: '' @ exhaustedError)"
    using exhausted_not_exceeded
    by (simp add: reformatReport_def finally_log_def reformatCatch_def trim_def isSpace_def Let_def)
  have 6: "returned (classifyDocument ''SALE DEED'' i1 o1 ep p (Throws exhaustedError))
      = RATE_LIMIT_EXCEEDED"
    using exhausted_not_exceeded
    by (simp add: classifyDocument_def finally_log_def classifyCatch_def)
  show ?thesis using 1 2 3 4 5 6 by (simp add: RATE_LIMIT_EXCEEDED_def exhaustedError_def)
qed



section \<open>The runs of the metadata deriver\<close>




lemma calls_start:
  "derivationCalls c pid \<Longrightarrow>
     deriveStart c a pid = Lock_taken (a\<lparr> isExtractingFor := insert pid (isExtractingFor a) \<rparr>)"
  by (simp add: derivationCalls_def deriveStart_def)

lemma calls_found:
  "derivationCalls c pid \<Longrightarrow> \<exists>p. List.find (\<lambda>p. proj_id p = pid) (projects c) = Some p"
  by (auto simp: derivationCalls_def allTextOf_def split: option.splits)


lemma run_payload:
  assumes "derivationCalls c pid" "detailsOf c pid env = Payload d"
  shows "fst (runProjectDetailExtraction c a pid env) =
           a\<lparr> projects := map (\<lambda>p. if proj_id p = pid then mergeDetails d p else p) (projects a),
              isExtractingFor := isExtractingFor a - {pid} \<rparr>"
proof -
  obtain p where p: "List.find (\<lambda>p. proj_id p = pid) (projects c) = Some p"
    using calls_found [OF assms(1)] by blast
  have t: "allTextOf c pid \<noteq> []"
    using assms(1) by (simp add: derivationCalls_def)
  show ?thesis
    using assms(2) p t
    by (simp add: runProjectDetailExtraction_def calls_start [OF assms(1)] deriveBody_def
        detailsOf_def releaseLock_def)
qed

text \<open>
  The lock test reads the set of the render that made the callback: a request through a
  callback of a render in which the project was not locked takes the lock also when the
  project is in the set by now. The retry after a rate limit is such a request.
\<close>

lemma older_callback_not_dropped:
  assumes "derivationCalls c pid" and "pid \<in> isExtractingFor a"
  shows "deriveStart c a pid = Lock_taken a"
proof -
  have "insert pid (isExtractingFor a) = isExtractingFor a"
    using assms(2) by auto
  then show ?thesis
    using calls_start [OF assms(1), of a] by simp
qed


lemma allText_appDerive:
  "allTextOf appDerive ''proj_1'' = ''--- Document: deed.pdf ---'' @ [CHR 0x0A] @ ''SALE DEED between A and B''"
  by (simp add: allTextOf_def appDerive_def projectProcessed_def projectOne_def aggregateText_def
      processedDoc_def docA_def docB_def)

lemma calls_appDerive: "derivationCalls appDerive ''proj_1''"
  unfolding derivationCalls_def allText_appDerive
  by (simp add: appDerive_def appReady_def tokensAllowed_def checkApiAllowance_def
      detailsInputEstimate_def num_or_def freshLimits_def basicPlan_def)

lemma unlocked_appDerive: "isExtractingFor appDerive = {}"
  by (simp add: appDerive_def appReady_def)

lemma trim_allText:
  "trim (''--- Document: deed.pdf ---'' @ [CHR 0x0A] @ ''SALE DEED between A and B'') \<noteq> []"
  by (simp add: trim_def isSpace_def)


lemma details_constructor:
  "detailsOf appDerive ''proj_1'' envConstructor
     = Payload (emptyDetails\<lparr> details_scenario := Some ''constructor'' \<rparr>)"
  unfolding detailsOf_def allText_appDerive using trim_allText
  by (simp add: extractProjectDetailsAndScenario_def envConstructor_def finally_log_def
      trim_def isSpace_def)

lemma merge_empty: "mergeDetails emptyDetails p = p\<lparr> scenario := Some ''UNKNOWN'' \<rparr>"
  by (simp add: mergeDetails_def emptyDetails_def str_or_def)

lemma fails_payload: "derivationFails env \<Longrightarrow> detailsOf c pid env = Payload emptyDetails"
  by (auto simp: derivationFails_def detailsOf_def extractProjectDetailsAndScenario_def
      finally_log_def detailsCatch_def Let_def split: provider.splits option.splits sum.splits)

lemma no_fields_payload: "detailsOf c pid envNoFields = Payload emptyDetails"
  by (simp add: detailsOf_def extractProjectDetailsAndScenario_def envNoFields_def
      finally_log_def trim_def isSpace_def)

lemma run_by_details:
  assumes "detailsOf c pid env = detailsOf c pid env2"
  shows "runProjectDetailExtraction c a pid env = runProjectDetailExtraction c a pid env2"
  using assms
  by (simp add: runProjectDetailExtraction_def deriveBody_def detailsOf_def
      split: derive_start.splits option.splits)

lemma server_error_fails: "derivationFails envServerError"
  by (simp add: derivationFails_def envServerError_def)

lemma mergeDetails_fields:
  "projectName (mergeDetails d p) = str_or (details_projectName d) (projectName p)"
  "propertyAddress (mergeDetails d p) = str_or (details_propertyAddress d) (propertyAddress p)"
  "clientName (mergeDetails d p) = str_or (details_clientName d) (clientName p)"
  "searchPeriod (mergeDetails d p) = str_or (details_searchPeriod d) (searchPeriod p)"
  by (simp_all add: mergeDetails_def)

lemma mergeDetails_scenario:
  "details_scenario d = None \<Longrightarrow> scenario (mergeDetails d p) = Some ''UNKNOWN''"
  "details_scenario d = Some sc \<Longrightarrow> sc \<in> set SCENARIOS \<Longrightarrow> scenario (mergeDetails d p) = Some sc"
  "details_scenario d = Some sc \<Longrightarrow> sc \<notin> set SCENARIOS \<Longrightarrow> sc \<notin> set Object_prototype_properties
     \<Longrightarrow> scenario (mergeDetails d p) = Some ''UNKNOWN''"
  by (auto simp: mergeDetails_def SCENARIOS_lookup_def SCENARIOS_def)


section \<open>The re-entrancy lock of the deriver\<close>







section \<open>Merging the derived metadata\<close>

text \<open>
  C10: when the AI call of a derivation fails with an error that is not taken for a rate
  limit, or answers with an empty or unparsable response, the project keeps its name,
  address, client and search period and its scenario becomes \<^verbatim>\<open>UNKNOWN\<close>; the run has
  the same outcome as one whose response parsed to an object without fields. (\<open>c\<close> is the
  render whose callback runs, \<open>a\<close> the state its updates are applied to; the run ends
  with the project removed from the in-flight set.)
\<close>

theorem C10_failed_derivation:
  assumes "derivationCalls c pid" and "derivationFails env"
  shows "fst (runProjectDetailExtraction c a pid env) =
           a\<lparr> projects := map (\<lambda>p. if proj_id p = pid then p\<lparr> scenario := Some ''UNKNOWN'' \<rparr> else p)
                              (projects a),
              isExtractingFor := isExtractingFor a - {pid} \<rparr>
         \<and> runProjectDetailExtraction c a pid env = runProjectDetailExtraction c a pid envNoFields"
  using run_payload [OF assms(1) fails_payload [OF assms(2)], of a]
    run_by_details [of c pid env envNoFields a] fails_payload [OF assms(2), of c pid]
    no_fields_payload [of c pid]
  by (simp add: merge_empty)

theorem C10_failed_derivation_witness:
  "fst (runProjectDetailExtraction appDerive appDerive ''proj_1'' envServerError) =
     appDerive\<lparr> projects := [projectProcessed\<lparr> scenario := Some ''UNKNOWN'' \<rparr>] \<rparr>
   \<and> scenario projectProcessed = Some ''NA_PLOT''"
proof -
  have i: "projects appDerive = [projectProcessed]" "proj_id projectProcessed = ''proj_1''"
    by (simp_all add: appDerive_def projectProcessed_def projectOne_def)
  have u: "appDerive\<lparr> projects := ps, isExtractingFor := {} \<rparr> = appDerive\<lparr> projects := ps \<rparr>" for ps
    by (simp add: appDerive_def appReady_def)
  have "fst (runProjectDetailExtraction appDerive appDerive ''proj_1'' envServerError) =
          appDerive\<lparr> projects :=
            map (\<lambda>p. if proj_id p = ''proj_1'' then p\<lparr> scenario := Some ''UNKNOWN'' \<rparr> else p)
              (projects appDerive),
            isExtractingFor := isExtractingFor appDerive - {''proj_1''} \<rparr>"
    using C10_failed_derivation [OF calls_appDerive server_error_fails] by (rule conjunct1)
  then have a: "fst (runProjectDetailExtraction appDerive appDerive ''proj_1'' envServerError) =
     appDerive\<lparr> projects := [projectProcessed\<lparr> scenario := Some ''UNKNOWN'' \<rparr>] \<rparr>"
    by (simp add: i unlocked_appDerive u)
  have b: "scenario projectProcessed = Some ''NA_PLOT''"
    by (simp add: projectProcessed_def projectOne_def)
  show ?thesis using a b by (rule conjI)
qed


text \<open>
  C7 names a property the code misses for one kind of answer. The four descriptive fields
  follow the claim (\<open>mergeDetails_fields\<close>), and so does the scenario for every returned
  string that is not the name of an inherited property (\<open>mergeDetails_scenario\<close>). But
  the test \<^verbatim>\<open>SCENARIOS[extractedDetails.scenario]\<close> is also truthy for the names every
  object inherits: a response with the scenario \<^verbatim>\<open>constructor\<close>, which is no member of
  the enumeration, is stored as the project's scenario instead of \<^verbatim>\<open>UNKNOWN\<close>.
\<close>

theorem C7_inherited_name_kept:
  "fst (runProjectDetailExtraction appDerive appDerive ''proj_1'' envConstructor) =
     appDerive\<lparr> projects := [projectProcessed\<lparr> scenario := Some ''constructor'' \<rparr>] \<rparr>
   \<and> ''constructor'' \<notin> set SCENARIOS"
proof -
  have m: "mergeDetails (emptyDetails\<lparr> details_scenario := Some ''constructor'' \<rparr>) projectProcessed
             = projectProcessed\<lparr> scenario := Some ''constructor'' \<rparr>"
    by (simp add: mergeDetails_def emptyDetails_def str_or_def SCENARIOS_lookup_def
        Object_prototype_properties_def)
  have i: "proj_id projectProcessed = ''proj_1''"
    by (simp add: projectProcessed_def projectOne_def)
  show ?thesis
    using run_payload [OF calls_appDerive details_constructor, of appDerive] m i
    by (simp add: appDerive_def appReady_def SCENARIOS_def)
qed



section \<open>The monthly counters\<close>

lemma estimateTokens_nonneg: "0 \<le> estimateTokens text"
  by (simp add: estimateTokens_def split: option.splits)

lemma finally_log_nonneg:
  assumes "0 \<le> estimatedInputTokens" "0 \<le> estimatedOutputTokens"
    and "0 \<le> actualPromptTokens v" "0 \<le> actualCompletionTokens v"
  shows "0 \<le> promptTokens (logged (finally_log m ep estimatedInputTokens estimatedOutputTokens v))
       \<and> 0 \<le> completionTokens (logged (finally_log m ep estimatedInputTokens estimatedOutputTokens v))"
  using assms by (simp add: finally_log_def num_or_def)

lemma countersLe_refl: "countersLe l l"
  by (simp add: countersLe_def)

lemma countersLe_trans: "countersLe l l' \<Longrightarrow> countersLe l' l'' \<Longrightarrow> countersLe l l''"
  by (auto simp: countersLe_def)

subsection \<open>A call that runs alone\<close>

lemma logStep_holds:
  "holdsStored uid (fst (logStep today faults uid call stage d)) (snd (logStep today faults uid call stage d))"
  by (simp add: logStep_def holdsStored_def split: log_stage.splits option.splits fault.splits)

lemma logStep_grows:
  assumes "0 \<le> promptTokens call" "0 \<le> completionTokens call"
    and "api_limits d uid' = Some l" and "holdsStored uid stage d"
  shows "\<exists>l'. api_limits (snd (logStep today faults uid call stage d)) uid' = Some l' \<and> countersLe l l'"
  using assms
  by (auto simp: logStep_def holdsStored_def countersLe_def strCountIncrement_def
      split: log_stage.splits option.splits fault.splits)

lemma logSteps_grow:
  assumes "0 \<le> promptTokens call" "0 \<le> completionTokens call"
    and "api_limits d uid' = Some l" and "holdsStored uid stage d"
  shows "\<exists>l'. api_limits (snd (((\<lambda>(stage, d). logStep today faults uid call stage d) ^^ n) (stage, d))) uid'
              = Some l' \<and> countersLe l l'
       \<and> holdsStored uid (fst (((\<lambda>(stage, d). logStep today faults uid call stage d) ^^ n) (stage, d)))
           (snd (((\<lambda>(stage, d). logStep today faults uid call stage d) ^^ n) (stage, d)))"
proof (induction n)
  case 0
  then show ?case using assms(3,4) by (simp add: countersLe_refl)
next
  case (Suc n)
  obtain st dn where r: "((\<lambda>(stage, d). logStep today faults uid call stage d) ^^ n) (stage, d) = (st, dn)"
    by (cases "((\<lambda>(stage, d). logStep today faults uid call stage d) ^^ n) (stage, d)")
  obtain l1 where l1: "api_limits dn uid' = Some l1" "countersLe l l1" "holdsStored uid st dn"
    using Suc.IH r by auto
  obtain l2 where l2: "api_limits (snd (logStep today faults uid call st dn)) uid' = Some l2"
    "countersLe l1 l2"
    using logStep_grows [OF assms(1,2) l1(1,3)] by blast
  show ?case
    using r l2 countersLe_trans [OF l1(2) l2(2)] logStep_holds [of uid today faults call st dn]
    by simp
qed

text \<open>
  A call that runs alone, with token counts that are not negative, leaves every ledger row
  in its reset period with counters at least as large as before, whichever query fails.
\<close>

lemma logAiCall_grows:
  assumes "0 \<le> promptTokens call" "0 \<le> completionTokens call"
    and "api_limits d uid' = Some l"
  shows "\<exists>l'. api_limits (logAiCall today faults userId call d) uid' = Some l' \<and> countersLe l l'"
proof (cases userId)
  case None
  then show ?thesis using assms(3) by (simp add: logAiCall_def countersLe_refl)
next
  case (Some uid)
  have "holdsStored uid Insert_usage d" by (simp add: holdsStored_def)
  then show ?thesis
    using logSteps_grow [OF assms, where uid = uid and stage = Insert_usage and today = today
        and faults = faults and n = 5] Some
    by (auto simp: logAiCall_def)
qed

subsection \<open>The reset logic\<close>

lemma loadExisting_outcome:
  assumes "loadExisting clk faults uid d l = Loaded plan l2 n d2 t"
    and "api_limits d uid = Some l"
  shows "if monthChanged clk l
         then countersZero l2 \<and> reset_date l2 = utcDate clk
              \<and> (faults Limits_update = None \<longrightarrow> api_limits d2 uid = Some l2)
         else l2 = l \<and> d2 = d"
  using assms
  by (auto simp: loadExisting_def monthChanged_def countersZero_def Let_def
      split: option.splits fault.splits prod.splits if_splits)

text \<open>
  A ledger read that loads the row of a user returns it unchanged, and leaves the store as
  it is, when the test of the reset logic fails; otherwise the ledger it loads has all
  three counters at zero and the UTC date of now as its reset date, and so has the stored
  row when the update is accepted.
\<close>

lemma fetch_outcome:
  assumes "fetchUserPlanAndLimits clk faults uid d = Loaded plan l2 n d2 t"
    and "faults Limits_select = None" and "api_limits d uid = Some l"
  shows "if monthChanged clk l
         then countersZero l2 \<and> reset_date l2 = utcDate clk
              \<and> (faults Limits_update = None \<longrightarrow> api_limits d2 uid = Some l2)
         else l2 = l \<and> d2 = d"
  using assms loadExisting_outcome [of clk faults uid d l plan l2 n d2 t]
  by (simp add: fetchUserPlanAndLimits_def)

text \<open>On UTC the test is the one the claim names: the month or the year has changed.\<close>

lemma monthChanged_onUTC:
  "monthChanged (onUTC today) l
     = (month today \<noteq> month (reset_date l) \<or> year today \<noteq> year (reset_date l))"
  by (simp add: monthChanged_def onUTC_def)

subsection \<open>Counters that decrease within a reset period\<close>

lemma store_shape:
  "api_limits (storeWith row) ''u1'' = Some row" "plans (storeWith row) = [basicPlan]"
  "daily_usage (storeWith row) = Map.empty" "ai_usage (storeWith row) = []"
  "storeWith octoberLimits = storeOctober"
  by (simp_all add: storeWith_def storeOctober_def)

lemma plan_of_rows:
  "limits_plan_id octoberLimits = 1" "limits_plan_id resetLimits = 1"
  "limits_plan_id novemberLimits = 1" "plan_ident basicPlan = 1"
  by (simp_all add: octoberLimits_def resetLimits_def novemberLimits_def freshLimits_def
      basicPlan_def)

lemma dayBefore_november1: "dayBefore november1 = \<lparr> year = 2026, month = 10, day = 31 \<rparr>"
  by (simp add: dayBefore_def november1_def daysInMonth_def)

lemma noFaults_none: "noFaults op = None"
  by (simp add: noFaults_def)

lemma store_update:
  "(storeWith row)\<lparr> api_limits := (api_limits (storeWith row))(''u1'' \<mapsto> row') \<rparr> = storeWith row'"
  by (simp add: storeWith_def)

lemma daily_none: "fetchDailyStrs today noFaults ''u1'' (storeWith row) = Some 0"
  by (simp add: fetchDailyStrs_def noFaults_none store_shape or_zero_def)

text \<open>
  West of UTC, on the first of November: the first read of the day resets the October
  counters and stores today's date.
\<close>

lemma first_read_resets:
  "fetchUserPlanAndLimits (westOfUTC november1) noFaults ''u1'' (storeWith octoberLimits)
     = Loaded basicPlan resetLimits 0 (storeWith resetLimits) (Some Usage_reset)"
proof -
  have z: "octoberLimits\<lparr> input_tokens_used_monthly := 0, output_tokens_used_monthly := 0,
               strs_used_monthly := 0, reset_date := november1 \<rparr> = resetLimits"
    by (simp add: resetLimits_def)
  have m: "month (dayBefore (reset_date octoberLimits)) = 10" "month november1 = 11"
    by (simp_all add: octoberLimits_def dayBefore_def november1_def)
  show ?thesis
    unfolding fetchUserPlanAndLimits_def loadExisting_def
    using m
    by (simp add: noFaults_none store_shape(1,2) plan_of_rows westOfUTC_def Let_def z store_update
        daily_none)
qed

text \<open>A report is generated and logged.\<close>

lemma report_logged:
  "api_limits (logAiCall november1 noFaults (Some ''u1'') reportCall (storeWith resetLimits)) ''u1''
     = Some novemberLimits"
  by (simp add: logAiCall_def eval_nat_numeral logStep_def noFaults_def reportCall_def
      store_shape storeWith_def storeOctober_def strCountIncrement_def novemberLimits_def
      resetLimits_def)

text \<open>
  The next read of the same day: the stored date, the first of November, read as UTC
  midnight, is the 31st of October on the local calendar, so the test finds another month
  and the counters are set to zero again.
\<close>

lemma second_read_resets:
  "fetchUserPlanAndLimits (westOfUTC november1) noFaults ''u1'' (storeWith novemberLimits)
     = Loaded basicPlan resetLimits 0 (storeWith resetLimits) (Some Usage_reset)"
proof -
  have r: "reset_date novemberLimits = november1"
    by (simp add: novemberLimits_def resetLimits_def)
  have z: "novemberLimits\<lparr> input_tokens_used_monthly := 0, output_tokens_used_monthly := 0,
               strs_used_monthly := 0, reset_date := november1 \<rparr> = resetLimits"
    by (simp add: novemberLimits_def resetLimits_def)
  have m: "month november1 = 11"
    by (simp add: november1_def)
  show ?thesis
    unfolding fetchUserPlanAndLimits_def loadExisting_def
    using m
    by (simp add: noFaults_none store_shape(1,2) plan_of_rows westOfUTC_def Let_def r
        dayBefore_november1 z store_update daily_none)
qed

text \<open>On UTC the same read leaves the row as it is.\<close>

lemma second_read_onUTC:
  "fetchUserPlanAndLimits (onUTC november1) noFaults ''u1'' (storeWith novemberLimits)
     = Loaded basicPlan novemberLimits 0 (storeWith novemberLimits) None"
proof -
  have r: "reset_date novemberLimits = november1"
    by (simp add: novemberLimits_def resetLimits_def)
  show ?thesis
    unfolding fetchUserPlanAndLimits_def loadExisting_def
    by (simp add: noFaults_none store_shape(1,2) plan_of_rows onUTC_def Let_def r daily_none)
qed

text \<open>
  Two calls that overlap: both have read the row before either writes. Each writes the
  counters it read plus its own usage, so the second write takes back the first.
\<close>

lemma both_read:
  "logStep today1 noFaults ''u1'' reportCall Select_limits storeOctober
     = (Update_limits octoberLimits, storeOctober)"
  "logStep today1 noFaults ''u1'' classifyCall Select_limits storeOctober
     = (Update_limits octoberLimits, storeOctober)"
  by (simp_all add: logStep_def noFaults_def storeOctober_def)

lemma report_writes:
  "snd (logStep today1 noFaults ''u1'' reportCall (Update_limits octoberLimits) storeOctober)
     = storeWith reportCounted"
  by (simp add: logStep_def noFaults_def storeWith_def storeOctober_def reportCounted_def
      reportCall_def strCountIncrement_def octoberLimits_def)

lemma classify_writes:
  "snd (logStep today1 noFaults ''u1'' classifyCall (Update_limits octoberLimits)
          (storeWith reportCounted))
     = storeWith classifyCounted"
  by (simp add: logStep_def noFaults_def storeWith_def storeOctober_def reportCounted_def
      classifyCounted_def classifyCall_def strCountIncrement_def octoberLimits_def)


text \<open>
  C6: the claim fails on the code, in two ways. In a browser west of UTC the reset test
  reads the stored date on the local calendar, where the first of a month is the last day
  of the month before: on the first of November a read resets the counters and stores that
  date, a report is logged, and the next read of the same day sets the counters to zero
  again, with the reset date unchanged. And two overlapping calls of \<^verbatim>\<open>logAiCall\<close> that
  have both read the ledger row write back absolute values: the second write lowers all
  three counters the first one had raised.
\<close>

theorem C6_counters_decrease:
  "fetchUserPlanAndLimits (westOfUTC november1) noFaults ''u1'' (storeWith octoberLimits)
     = Loaded basicPlan resetLimits 0 (storeWith resetLimits) (Some Usage_reset)
   \<and> api_limits (logAiCall november1 noFaults (Some ''u1'') reportCall (storeWith resetLimits)) ''u1''
       = Some novemberLimits
   \<and> fetchUserPlanAndLimits (westOfUTC november1) noFaults ''u1'' (storeWith novemberLimits)
       = Loaded basicPlan resetLimits 0 (storeWith resetLimits) (Some Usage_reset)
   \<and> reset_date novemberLimits = reset_date resetLimits
   \<and> input_tokens_used_monthly novemberLimits = 1200 \<and> input_tokens_used_monthly resetLimits = 0
   \<and> output_tokens_used_monthly novemberLimits = 800 \<and> output_tokens_used_monthly resetLimits = 0
   \<and> strs_used_monthly novemberLimits = 1 \<and> strs_used_monthly resetLimits = 0
   \<and> logStep today1 noFaults ''u1'' reportCall Select_limits storeOctober
       = (Update_limits octoberLimits, storeOctober)
   \<and> logStep today1 noFaults ''u1'' classifyCall Select_limits storeOctober
       = (Update_limits octoberLimits, storeOctober)
   \<and> snd (logStep today1 noFaults ''u1'' reportCall (Update_limits octoberLimits) storeOctober)
       = storeWith reportCounted
   \<and> snd (logStep today1 noFaults ''u1'' classifyCall (Update_limits octoberLimits)
            (storeWith reportCounted))
       = storeWith classifyCounted
   \<and> reset_date classifyCounted = reset_date reportCounted
   \<and> input_tokens_used_monthly classifyCounted < input_tokens_used_monthly reportCounted
   \<and> output_tokens_used_monthly classifyCounted < output_tokens_used_monthly reportCounted
   \<and> strs_used_monthly classifyCounted < strs_used_monthly reportCounted"
proof -
  have c: "reset_date novemberLimits = reset_date resetLimits"
    "input_tokens_used_monthly novemberLimits = 1200" "input_tokens_used_monthly resetLimits = 0"
    "output_tokens_used_monthly novemberLimits = 800" "output_tokens_used_monthly resetLimits = 0"
    "strs_used_monthly novemberLimits = 1" "strs_used_monthly resetLimits = 0"
    by (simp_all add: novemberLimits_def resetLimits_def)
  have r: "reset_date classifyCounted = reset_date reportCounted"
    "input_tokens_used_monthly classifyCounted < input_tokens_used_monthly reportCounted"
    "output_tokens_used_monthly classifyCounted < output_tokens_used_monthly reportCounted"
    "strs_used_monthly classifyCounted < strs_used_monthly reportCounted"
    by (simp_all add: classifyCounted_def reportCounted_def)
  show ?thesis
    by (intro conjI first_read_resets report_logged second_read_resets c both_read
        report_writes classify_writes r)
qed



section \<open>Loading the stored snapshot\<close>

lemma load_no_array:
  "loadProjects JSON_parse None = Some []"
  "loadProjects JSON_parse (Some []) = Some []"
  "JSON_parse text = None \<Longrightarrow> loadProjects JSON_parse (Some text) = Some []"
  "JSON_parse text = Some v \<Longrightarrow> (\<And>entries. v \<noteq> JArr entries) \<Longrightarrow>
     loadProjects JSON_parse (Some text) = Some []"
  by (auto simp: loadProjects_def split: json.splits)

lemma reduce_app:
  "reduceProjects acc entries =
     (if list_ex (\<lambda>e. loadEntry e = Uncaught) entries then None
      else Some (acc @ concat (map pushedBy entries)))"
  by (induction entries arbitrary: acc) (auto simp: pushedBy_def split: entry_outcome.splits)

lemma load_array:
  assumes "text \<noteq> []" "JSON_parse text = Some (JArr entries)"
  shows "loadProjects JSON_parse (Some text) =
     (if list_ex (\<lambda>e. loadEntry e = Uncaught) entries then None
      else Some (concat (map pushedBy entries)))"
  using assms by (simp add: loadProjects_def reduce_app)

lemma invalid_skipped: "\<not> validEntry entry \<Longrightarrow> pushedBy entry = [] \<and> loadEntry entry = Skipped"
  by (simp add: pushedBy_def loadEntry_def)

lemma field_update: "field (JObj (AList.update k v kvs)) k' = (if k' = k then Some v else field (JObj kvs) k')"
  by (simp add: field_def update_conv')

lemma valid_spread: "validEntry entry \<Longrightarrow> JObj (spread entry) = entry"
  by (auto simp: validEntry_def truthyProp_def field_def spread_def split: json.splits)

lemma valid_pushed:
  assumes "validEntry entry" "validatedScenario entry = Some sc"
  shows "\<exists>loaded. loadEntry entry = Pushed loaded \<and> pushedBy entry = [loaded]
           \<and> field loaded ''id'' = field entry ''id''
           \<and> field loaded ''documents'' = Some (JArr (updatedDocuments entry))"
  using assms valid_spread [OF assms(1)]
  by (simp add: loadEntry_def pushedBy_def field_update)

lemma migrate_docType: "field (migrateDocument doc) ''docType'' = None"
  by (simp add: migrateDocument_def field_def Let_def update_conv' delete_conv')

lemma migrate_docTypes: "field (migrateDocument doc) ''docTypes'' = Some (JArr (finalTypesOf doc))"
  by (simp add: migrateDocument_def field_def Let_def update_conv' delete_conv')

lemma migrate_id: "field (migrateDocument doc) ''id'' = field (JObj (spread doc)) ''id''"
  by (simp add: migrateDocument_def field_def Let_def update_conv' delete_conv')

lemma migrate_status:
  "field (migrateDocument doc) ''status'' =
     (case field (JObj (spread doc)) ''status'' of
        None \<Rightarrow> None
      | Some st \<Rightarrow> if arrayIncludes transientStatuses st then Some (JStr ''Error'') else Some st)"
  by (simp add: migrateDocument_def field_def Let_def update_conv' delete_conv' split: option.splits)

lemma arrayIncludes_transient:
  "arrayIncludes transientStatuses st \<longleftrightarrow>
     st \<in> {JStr ''Uploading'', JStr ''Uploaded'', JStr ''Extracting Text'', JStr ''Classifying''}"
  by (auto simp: arrayIncludes_def transientStatuses_def sameValueZero_def split: json.splits)

lemma migrated_not_transient:
  "field (migrateDocument doc) ''status'' = Some st \<Longrightarrow> \<not> arrayIncludes transientStatuses st"
  by (auto simp: migrate_status arrayIncludes_transient split: option.splits if_splits)

lemma finalTypes_no_duplicate:
  "field doc ''docType'' = Some legacyType \<Longrightarrow> truthy legacyType \<Longrightarrow>
     finalTypesOf doc = (if arrayIncludes (currentTypesOf doc) legacyType then currentTypesOf doc
                         else currentTypesOf doc @ [legacyType])"
  "field doc ''docType'' = None \<Longrightarrow> finalTypesOf doc = currentTypesOf doc"
  by (simp_all add: finalTypesOf_def)


text \<open>
  C9 names a property the code misses on one input. The parts of the claim about the
  entries hold: a missing, unparsable or non-array snapshot gives the empty collection
  (\<open>load_no_array\<close>); the entries are loaded one by one, an entry without a truthy id
  contributes nothing and a valid one the project with its id (\<open>load_array\<close>,
  \<open>invalid_skipped\<close>, \<open>valid_pushed\<close>); document entries without id are filtered out
  (\<open>updatedDocuments\<close>); the legacy type is appended unless present and the field removed
  (\<open>finalTypes_no_duplicate\<close>, \<open>migrate_docType\<close>); no loaded document keeps a transient
  status (\<open>migrate_status\<close>, \<open>migrated_not_transient\<close>). But the loader can throw: for a
  project entry whose \<^verbatim>\<open>scenario\<close> is an object with a member \<^verbatim>\<open>toString\<close>, the read
  \<^verbatim>\<open>SCENARIOS[project.scenario]\<close> throws inside the \<^verbatim>\<open>try\<close> block; when the \<^verbatim>\<open>id\<close>
  of the entry is such an object too, the template literal in the \<^verbatim>\<open>catch\<close> block throws
  again, outside any handler.
\<close>

lemma toStr_tampered: "toStr (JObj [(''toString'', JNum 1)]) = None"
  by simp

theorem C9_tampered_snapshot_throws:
  "loadProjects (\<lambda>text. Some tampered) (Some ''[{\"id\":{\"toString\":1},\"scenario\":{\"toString\":1}}]'')
     = None"
proof -
  have v: "validEntry (JObj [(''id'', JObj [(''toString'', JNum 1)]),
                              (''scenario'', JObj [(''toString'', JNum 1)])])"
    by (simp add: validEntry_def truthy_def isObject_def truthyProp_def field_def)
  have s: "validatedScenario (JObj [(''id'', JObj [(''toString'', JNum 1)]),
                              (''scenario'', JObj [(''toString'', JNum 1)])]) = None"
    by (simp add: validatedScenario_def field_def truthy_def)
  have e: "loadEntry (JObj [(''id'', JObj [(''toString'', JNum 1)]),
                              (''scenario'', JObj [(''toString'', JNum 1)])]) = Uncaught"
    using v s by (simp add: loadEntry_def field_def)
  show ?thesis
    by (simp add: loadProjects_def tampered_def e)
qed




section \<open>One job in flight\<close>

lemma noInFlight_atHead: "noInFlight ps \<Longrightarrow> inFlightAtHead ps q"
  by (simp add: noInFlight_def inFlightAtHead_def)

lemma atHead_empty: "inFlightAtHead ps [] \<Longrightarrow> noInFlight ps"
  by (simp add: noInFlight_def inFlightAtHead_def headKey_def)

lemma headKey_append: "q \<noteq> [] \<Longrightarrow> headKey (q @ js) = headKey q"
  by (cases q) (simp_all add: headKey_def)

lemma atHead_append: "inFlightAtHead ps q \<Longrightarrow> inFlightAtHead ps (q @ js)"
proof (cases q)
  case Nil
  assume "inFlightAtHead ps q"
  then show ?thesis using Nil atHead_empty noInFlight_atHead by blast
next
  case (Cons j rest)
  assume "inFlightAtHead ps q"
  then show ?thesis using Cons headKey_append [of q js] by (simp add: inFlightAtHead_def)
qed

lemma mapDocument_proj_ids: "map proj_id (mapDocument pid did f ps) = map proj_id ps"
  by (induction ps) (simp_all add: mapDocument_def)

lemma mapDocument_ids:
  assumes "\<And>d. doc_id (f d) = doc_id d"
  shows "idsDistinct (mapDocument pid did f ps) = idsDistinct ps"
proof -
  have m: "\<And>ds. map (doc_id \<circ> (\<lambda>d. if doc_id d = did then f d else d)) ds = map doc_id ds"
    using assms by (simp add: comp_def)
  have "map (\<lambda>p. map doc_id (documents p)) (mapDocument pid did f ps)
          = map (\<lambda>p. map doc_id (documents p)) ps"
    by (induction ps) (simp_all add: mapDocument_def m)
  then have "list_all distinct (map (\<lambda>p. map doc_id (documents p)) (mapDocument pid did f ps))
          = list_all distinct (map (\<lambda>p. map doc_id (documents p)) ps)"
    by simp
  then have "(\<forall>p \<in> set (mapDocument pid did f ps). distinct (map doc_id (documents p)))
          = (\<forall>p \<in> set ps. distinct (map doc_id (documents p)))"
    by (simp add: list_all_iff)
  then show ?thesis
    by (simp add: idsDistinct_def mapDocument_proj_ids)
qed

lemma mapDocument_atHead:
  assumes "\<And>d. doc_id (f d) = doc_id d"
    and "\<And>d. inFlight (f d) \<Longrightarrow> inFlight d \<or> (pid, did) \<in> headKey q"
    and "inFlightAtHead ps q"
  shows "inFlightAtHead (mapDocument pid did f ps) q"
  using assms
  by (fastforce simp: inFlightAtHead_def mapDocument_def)

lemma mapDocument_clears:
  assumes "\<And>d. doc_id (f d) = doc_id d" and "\<And>d. \<not> inFlight (f d)"
    and "inFlightAtHead ps q" and "headKey q \<subseteq> {(pid, did)}"
  shows "noInFlight (mapDocument pid did f ps)"
  using assms
  by (fastforce simp: inFlightAtHead_def noInFlight_def mapDocument_def)


lemma inFlight_status [simp]:
  "inFlight (d\<lparr> status := st \<rparr>) = (st = Extracting_Text \<or> st = Classifying)"
  "inFlight (d\<lparr> doc_error := e \<rparr>) = inFlight d"
  "inFlight (d\<lparr> extractedText := t \<rparr>) = inFlight d"
  "inFlight (d\<lparr> docTypes := ts \<rparr>) = inFlight d"
  "inFlight (d\<lparr> progress := n \<rparr>) = inFlight d"
  by (simp_all add: inFlight_def)

lemma catch_ids: "idsDistinct (fst (catchProcessing pid did msg ps)) = idsDistinct ps"
  unfolding catchProcessing_def fst_conv by (rule mapDocument_ids) simp

lemma catch_atHead:
  "inFlightAtHead ps q \<Longrightarrow> inFlightAtHead (fst (catchProcessing pid did msg ps)) q"
  unfolding catchProcessing_def fst_conv by (rule mapDocument_atHead) simp_all

lemma catch_clears:
  "inFlightAtHead ps q \<Longrightarrow> headKey q \<subseteq> {(pid, did)} \<Longrightarrow>
     noInFlight (fst (catchProcessing pid did msg ps))"
  unfolding catchProcessing_def fst_conv by (rule mapDocument_clears) simp_all

lemma afterExtract_ids:
  "afterExtract pid did allowed extracted ps = (ps', st) \<Longrightarrow> idsDistinct ps' = idsDistinct ps"
  by (auto simp: afterExtract_def catch_ids mapDocument_ids split: if_splits)

lemma afterExtract_atHead:
  assumes "afterExtract pid did allowed extracted ps = (ps', st)"
    and "inFlightAtHead ps q" and "(pid, did) \<in> headKey q"
  shows "inFlightAtHead ps' q"
  using assms
  by (auto simp: afterExtract_def catch_atHead intro!: mapDocument_atHead
      split: if_splits)

lemma afterExtract_clears:
  assumes "afterExtract pid did allowed extracted ps = (ps', Finished r)"
    and "r \<noteq> PROCESS_RATE_LIMITED"
    and "inFlightAtHead ps q" and "headKey q \<subseteq> {(pid, did)}"
  shows "noInFlight ps'"
  using assms
  by (auto simp: afterExtract_def catch_clears catchProcessing_def
      intro!: mapDocument_clears split: if_splits)

lemma afterClassify_ids:
  "afterClassify pid did allowed docType ps = (ps', r) \<Longrightarrow> idsDistinct ps' = idsDistinct ps"
  using catch_ids [of pid did RATE_LIMIT_EXCEEDED ps]
  by (auto simp: afterClassify_def mapDocument_ids split: if_splits)

lemma afterClassify_atHead:
  assumes "afterClassify pid did allowed docType ps = (ps', r)"
    and "inFlightAtHead ps q"
  shows "inFlightAtHead ps' q"
  using assms catch_atHead [of ps q pid did RATE_LIMIT_EXCEEDED]
  by (auto simp: afterClassify_def intro!: mapDocument_atHead split: if_splits)

lemma afterClassify_clears:
  assumes "afterClassify pid did allowed docType ps = (ps', r)"
    and "r \<noteq> PROCESS_RATE_LIMITED"
    and "inFlightAtHead ps q" and "headKey q \<subseteq> {(pid, did)}"
  shows "noInFlight ps'"
  using assms
  by (auto simp: afterClassify_def catchProcessing_def intro!: mapDocument_clears
      split: if_splits)

lemma findDocument_None:
  assumes "idsDistinct ps" and "findDocument pid did ps = None"
    and "p \<in> set ps" and "d \<in> set (documents p)"
  shows "(proj_id p, doc_id d) \<noteq> (pid, did)"
proof
  assume eq: "(proj_id p, doc_id d) = (pid, did)"
  then have "List.find (\<lambda>p. proj_id p = pid) ps \<noteq> None"
    using assms(3) by (auto simp: find_None_iff)
  then obtain p' where f: "List.find (\<lambda>p. proj_id p = pid) ps = Some p'" by blast
  then have "p' \<in> set ps" "proj_id p' = pid"
    by (auto simp: find_Some_iff)
  moreover have "inj_on proj_id (set ps)"
    using assms(1) by (simp add: idsDistinct_def distinct_map)
  ultimately have "p' = p"
    using assms(3) eq by (auto dest: inj_onD)
  then have "List.find (\<lambda>d. doc_id d = did) (documents p) = None"
    using assms(2) f by (simp add: findDocument_def)
  then show False
    using assms(4) eq by (auto simp: find_None_iff)
qed


lemma filter_remove1_length:
  "x \<in> set xs \<Longrightarrow> length (filter (\<lambda>t. t = x) (remove1 x xs)) = length (filter (\<lambda>t. t = x) xs) - 1"
  by (induction xs) auto

lemma resumeCount_pending:
  "(20000, Resume_processing) \<in> set (timers a) \<longleftrightarrow> 0 < resumeCount a"
  by (auto simp: resumeCount_def filter_empty_conv)

lemma resumeCount_fire:
  "(20000, Resume_processing) \<in> set (timers a) \<Longrightarrow> resumeCount (fireResume a) = resumeCount a - 1"
  by (simp add: resumeCount_def fireResume_def filter_remove1_length)

lemma running_single:
  assumes "workerInv w" and "(job, ph) \<in> set (running w)"
  shows "running w = [(job, ph)] \<and> (\<exists>rest. processingQueue (state w) = job # rest)
         \<and> isProcessing (state w) \<and> resumeCount (state w) = 0"
  using assms by (auto simp: workerInv_def)

lemma idle_worker:
  assumes "workerInv w" and "\<not> isProcessing (state w)"
  shows "running w = [] \<and> resumeCount (state w) = 0"
  using assms by (auto simp: workerInv_def)

lemma finish_inv:
  assumes "pipelineInv w" and "(job, ph) \<in> set (running w)"
    and "idsDistinct ps'" and "inFlightAtHead ps' (processingQueue (state w))"
    and "r \<noteq> PROCESS_RATE_LIMITED \<Longrightarrow> noInFlight ps'"
  shows "pipelineInv (w\<lparr> state := fst (handleResult job r ((state w)\<lparr> projects := ps' \<rparr>)),
               running := remove1 (job, ph) (running w) \<rparr>)"
proof -
  have s: "running w = [(job, ph)]" "isProcessing (state w)" "resumeCount (state w) = 0"
    using running_single [OF _ assms(2)] assms(1) by (simp_all add: pipelineInv_def)
  show ?thesis
  proof (cases "r = PROCESS_RATE_LIMITED")
    case True
    then show ?thesis
      using assms(3,4) s
      by (simp add: pipelineInv_def handleResult_def workerInv_def resumeCount_def)
  next
    case False
    then have "noInFlight ps'" using assms(5) by simp
    then have "inFlightAtHead ps' (drop 1 (processingQueue (state w)))"
      by (rule noInFlight_atHead)
    then show ?thesis
      using False assms(3) s
      by (cases r) (simp_all add: pipelineInv_def handleResult_def workerInv_def resumeCount_def)
  qed
qed

lemma env_inv:
  assumes "pipelineInv w" and "idsDistinct (projects a')"
    and "inFlightAtHead (projects a') (processingQueue a')"
    and "processingQueue a' = processingQueue (state w) @ js"
    and "isProcessing a' = isProcessing (state w)"
    and "resumeCount a' = resumeCount (state w)"
  shows "pipelineInv (w\<lparr> state := a' \<rparr>)"
  using assms by (auto simp: pipelineInv_def workerInv_def)

lemma same_documents_ids:
  assumes "\<And>p. proj_id (g p) = proj_id p" and "\<And>p. documents (g p) = documents p"
  shows "idsDistinct (map g ps) = idsDistinct ps"
  using assms by (simp add: idsDistinct_def comp_def)

lemma same_documents_atHead:
  assumes "\<And>p. proj_id (g p) = proj_id p" and "\<And>p. documents (g p) = documents p"
  shows "inFlightAtHead (map g ps) q = inFlightAtHead ps q"
  using assms by (simp add: inFlightAtHead_def)


lemma merge_frame: "proj_id (mergeDetails d p) = proj_id p" "documents (mergeDetails d p) = documents p"
  by (simp_all add: mergeDetails_def)

lemma run_frame:
  "processingQueue (fst (runProjectDetailExtraction c a pid env)) = processingQueue a"
  "isProcessing (fst (runProjectDetailExtraction c a pid env)) = isProcessing a"
  "resumeCount (fst (runProjectDetailExtraction c a pid env)) = resumeCount a"
  by (simp_all add: runProjectDetailExtraction_def deriveStart_def deriveBody_def releaseLock_def
      resumeCount_def split: option.splits limited.splits)

lemma run_projects:
  "projects (fst (runProjectDetailExtraction c a pid env)) = projects a
   \<or> (\<exists>d. projects (fst (runProjectDetailExtraction c a pid env))
             = map (\<lambda>p. if proj_id p = pid then mergeDetails d p else p) (projects a))"
  by (auto simp: runProjectDetailExtraction_def deriveStart_def deriveBody_def releaseLock_def
      split: option.splits limited.splits)

lemma run_ids:
  "idsDistinct (projects (fst (runProjectDetailExtraction c a pid env))) = idsDistinct (projects a)"
  using run_projects [of c a pid env]
    same_documents_ids [of "\<lambda>p. if proj_id p = pid then mergeDetails d p else p" "projects a" for d]
  by (auto simp: merge_frame)

lemma run_atHead:
  "inFlightAtHead (projects (fst (runProjectDetailExtraction c a pid env))) q
     = inFlightAtHead (projects a) q"
  using run_projects [of c a pid env]
    same_documents_atHead [of "\<lambda>p. if proj_id p = pid then mergeDetails d p else p" "projects a" q for d]
  by (auto simp: merge_frame)

lemma inv_worker_start:
  assumes "pipelineInv w" and "\<not> isProcessing (state w)"
    and "processingQueue (state w) = nextItem # rest"
  shows "pipelineInv (w\<lparr> state := (state w)\<lparr> isProcessing := True,
                 projects := markExtracting (job_projectId nextItem) (job_documentId nextItem)
                               (projects (state w)) \<rparr>,
               running := running w @ [(nextItem, Awaiting_extraction)] \<rparr>)"
proof -
  have i: "running w = []" "resumeCount (state w) = 0"
    using idle_worker [OF _ assms(2)] assms(1) by (simp_all add: pipelineInv_def)
  have k: "(job_projectId nextItem, job_documentId nextItem) \<in> headKey (processingQueue (state w))"
    using assms(3) by (simp add: headKey_def)
  have a: "inFlightAtHead (markExtracting (job_projectId nextItem) (job_documentId nextItem)
             (projects (state w))) (processingQueue (state w))"
    unfolding markExtracting_def
    using assms(1) k by (intro mapDocument_atHead) (simp_all add: pipelineInv_def)
  have d: "idsDistinct (markExtracting (job_projectId nextItem) (job_documentId nextItem)
             (projects (state w)))"
    unfolding markExtracting_def using assms(1) by (simp add: mapDocument_ids pipelineInv_def)
  show ?thesis
    using a d i assms(3) by (simp add: pipelineInv_def workerInv_def resumeCount_def)
qed

lemma inv_worker_drop:
  assumes "pipelineInv w" and "\<not> isProcessing (state w)"
    and "processingQueue (state w) = nextItem # rest"
    and "findDocument (job_projectId nextItem) (job_documentId nextItem) (projects (state w)) = None"
  shows "pipelineInv (w\<lparr> state := (state w)\<lparr> processingQueue := drop 1 (processingQueue (state w)),
                                     isProcessing := False \<rparr> \<rparr>)"
proof -
  have i: "running w = []" "resumeCount (state w) = 0"
    using idle_worker [OF _ assms(2)] assms(1) by (simp_all add: pipelineInv_def)
  have ids: "idsDistinct (projects (state w))"
    and ah: "inFlightAtHead (projects (state w)) (processingQueue (state w))"
    using assms(1) by (simp_all add: pipelineInv_def)
  have "noInFlight (projects (state w))"
    unfolding noInFlight_def
  proof (intro ballI notI)
    fix p d
    assume pd: "p \<in> set (projects (state w))" "d \<in> set (documents p)" "inFlight d"
    then have "(proj_id p, doc_id d) = (job_projectId nextItem, job_documentId nextItem)"
      using ah assms(3) by (auto simp: inFlightAtHead_def headKey_def)
    then show False
      using findDocument_None [OF ids assms(4) pd(1,2)] by simp
  qed
  then have "inFlightAtHead (projects (state w)) (drop 1 (processingQueue (state w)))"
    by (rule noInFlight_atHead)
  then show ?thesis
    using ids i by (simp add: pipelineInv_def workerInv_def resumeCount_def)
qed

lemma inv_extraction_continues:
  assumes "pipelineInv w" and "(job, Awaiting_extraction) \<in> set (running w)"
    and "afterExtract (job_projectId job) (job_documentId job) allowed extracted (projects (state w))
           = (ps, Continue txt)"
  shows "pipelineInv (w\<lparr> state := (state w)\<lparr> projects := ps \<rparr>,
               running := (job, Awaiting_classification) # remove1 (job, Awaiting_extraction) (running w) \<rparr>)"
proof -
  have s: "running w = [(job, Awaiting_extraction)]" "isProcessing (state w)"
    "resumeCount (state w) = 0"
    and q: "\<exists>rest. processingQueue (state w) = job # rest"
    using running_single [OF _ assms(2)] assms(1) by (simp_all add: pipelineInv_def)
  have k: "(job_projectId job, job_documentId job) \<in> headKey (processingQueue (state w))"
    using q by (auto simp: headKey_def)
  have "idsDistinct ps" "inFlightAtHead ps (processingQueue (state w))"
    using afterExtract_ids [OF assms(3)] afterExtract_atHead [OF assms(3) _ k] assms(1)
    by (simp_all add: pipelineInv_def)
  then show ?thesis
    using s q by (simp add: pipelineInv_def workerInv_def resumeCount_def)
qed

lemma inv_extraction_ends:
  assumes "pipelineInv w" and "(job, Awaiting_extraction) \<in> set (running w)"
    and "afterExtract (job_projectId job) (job_documentId job) allowed extracted (projects (state w))
           = (ps, Finished r)"
  shows "pipelineInv (w\<lparr> state := fst (handleResult job r ((state w)\<lparr> projects := ps \<rparr>)),
               running := remove1 (job, Awaiting_extraction) (running w) \<rparr>)"
proof -
  have q: "\<exists>rest. processingQueue (state w) = job # rest"
    using running_single [OF _ assms(2)] assms(1) by (simp add: pipelineInv_def)
  then have k: "(job_projectId job, job_documentId job) \<in> headKey (processingQueue (state w))"
    "headKey (processingQueue (state w)) \<subseteq> {(job_projectId job, job_documentId job)}"
    by (auto simp: headKey_def)
  have ah: "inFlightAtHead (projects (state w)) (processingQueue (state w))"
    using assms(1) by (simp add: pipelineInv_def)
  show ?thesis
  proof (rule finish_inv [OF assms(1,2)])
    show "idsDistinct ps" using afterExtract_ids [OF assms(3)] assms(1) by (simp add: pipelineInv_def)
    show "inFlightAtHead ps (processingQueue (state w))"
      using afterExtract_atHead [OF assms(3) ah k(1)] .
    show "noInFlight ps" if "r \<noteq> PROCESS_RATE_LIMITED"
      using afterExtract_clears [OF assms(3) that ah k(2)] .
  qed
qed

lemma inv_classification_ends:
  assumes "pipelineInv w" and "(job, Awaiting_classification) \<in> set (running w)"
    and "afterClassify (job_projectId job) (job_documentId job) allowed docType (projects (state w))
           = (ps, r)"
  shows "pipelineInv (w\<lparr> state := fst (handleResult job r ((state w)\<lparr> projects := ps \<rparr>)),
               running := remove1 (job, Awaiting_classification) (running w) \<rparr>)"
proof -
  have q: "\<exists>rest. processingQueue (state w) = job # rest"
    using running_single [OF _ assms(2)] assms(1) by (simp add: pipelineInv_def)
  then have k: "headKey (processingQueue (state w)) \<subseteq> {(job_projectId job, job_documentId job)}"
    by (auto simp: headKey_def)
  have ah: "inFlightAtHead (projects (state w)) (processingQueue (state w))"
    using assms(1) by (simp add: pipelineInv_def)
  show ?thesis
  proof (rule finish_inv [OF assms(1,2)])
    show "idsDistinct ps" using afterClassify_ids [OF assms(3)] assms(1) by (simp add: pipelineInv_def)
    show "inFlightAtHead ps (processingQueue (state w))"
      using afterClassify_atHead [OF assms(3) ah] .
    show "noInFlight ps" if "r \<noteq> PROCESS_RATE_LIMITED"
      using afterClassify_clears [OF assms(3) that ah k] .
  qed
qed

lemma inv_resume_timer:
  assumes "pipelineInv w" and "(20000, Resume_processing) \<in> set (timers (state w))"
  shows "pipelineInv (w\<lparr> state := fireResume (state w) \<rparr>)"
proof -
  have c: "resumeCount (state w) = 1"
    using assms by (simp add: pipelineInv_def workerInv_def resumeCount_pending)
  then have r: "running w = []"
    using assms(1) by (auto simp: pipelineInv_def workerInv_def)
  have f: "resumeCount (fireResume (state w)) = 0"
    using resumeCount_fire [OF assms(2)] c by simp
  have p: "projects (fireResume (state w)) = projects (state w)"
    "processingQueue (fireResume (state w)) = processingQueue (state w)"
    by (simp_all add: fireResume_def)
  show ?thesis
    using assms(1) r f p by (simp add: pipelineInv_def workerInv_def)
qed


lemma idsDistinct_map_if:
  assumes "\<And>p. proj_id (h p) = proj_id p"
    and "\<And>p. p \<in> set ps \<Longrightarrow> c p \<Longrightarrow> distinct (map doc_id (documents p)) \<Longrightarrow>
           distinct (map doc_id (documents (h p)))"
    and "idsDistinct ps"
  shows "idsDistinct (map (\<lambda>p. if c p then h p else p) ps)"
proof -
  have m: "map proj_id (map (\<lambda>p. if c p then h p else p) ps) = map proj_id ps"
    by (induction ps) (simp_all add: assms(1))
  show ?thesis
    unfolding idsDistinct_def m using assms(2,3) by (auto simp: idsDistinct_def)
qed

lemma addDocType_frame:
  "doc_id (addDocType newType d) = doc_id d" "inFlight (addDocType newType d) = inFlight d"
  by (simp_all add: addDocType_def Let_def inFlight_def)

lemma inv_create_project:
  assumes "pipelineInv w" and "proj_id newProject \<notin> set (map proj_id (projects (state w)))"
    and "distinct (map doc_id (documents newProject))"
    and "\<forall>d \<in> set (documents newProject). status d = Uploaded \<and> doc_projectId d = proj_id newProject"
  shows "pipelineInv (w\<lparr> state := handleCreateProject newProject (state w) \<rparr>)"
proof (rule env_inv [OF assms(1)])
  show "idsDistinct (projects (handleCreateProject newProject (state w)))"
    using assms by (simp add: handleCreateProject_def idsDistinct_def pipelineInv_def)
  have "inFlightAtHead (projects (state w))
          (processingQueue (handleCreateProject newProject (state w)))"
    using assms(1) by (simp add: handleCreateProject_def pipelineInv_def atHead_append)
  then show "inFlightAtHead (projects (handleCreateProject newProject (state w)))
          (processingQueue (handleCreateProject newProject (state w)))"
    using assms(4) by (simp add: handleCreateProject_def inFlightAtHead_def inFlight_def)
  show "processingQueue (handleCreateProject newProject (state w)) = processingQueue (state w) @
          map (\<lambda>d. \<lparr> job_projectId = doc_projectId d, job_documentId = doc_id d,
                      job_file = the (doc_file d) \<rparr>)
            (filter (\<lambda>d. doc_file d \<noteq> None) (documents newProject))"
    by (simp add: handleCreateProject_def)
qed (simp_all add: handleCreateProject_def resumeCount_def)

lemma inv_upload_starts:
  assumes "pipelineInv w" and "freshDocuments projectId docs (state w)"
    and "\<forall>d \<in> set docs. status d = Uploading"
  shows "pipelineInv (w\<lparr> state := addDocuments projectId docs (state w) \<rparr>)"
proof (rule env_inv [OF assms(1)])
  have "idsDistinct (map (\<lambda>p. if proj_id p = projectId
                 then p\<lparr> documents := documents p @ docs \<rparr> else p) (projects (state w)))"
  proof (intro idsDistinct_map_if)
    fix p
    assume p: "p \<in> set (projects (state w))" "proj_id p = projectId"
      "distinct (map doc_id (documents p))"
    have "\<forall>d \<in> set docs. \<forall>e \<in> set (documents p). doc_id d \<noteq> doc_id e"
      using assms(2) p(1,2) by (simp add: freshDocuments_def)
    then have "doc_id ` set (documents p) \<inter> doc_id ` set docs = {}"
      by (auto simp: image_iff) metis
    then show "distinct (map doc_id (documents (p\<lparr> documents := documents p @ docs \<rparr>)))"
      using assms(2) p(3) by (simp add: freshDocuments_def)
  qed (use assms(1) in \<open>simp_all add: pipelineInv_def\<close>)
  then show "idsDistinct (projects (addDocuments projectId docs (state w)))"
    by (simp add: addDocuments_def)
  show "inFlightAtHead (projects (addDocuments projectId docs (state w)))
          (processingQueue (addDocuments projectId docs (state w)))"
    using assms(1,3)
    by (auto simp: addDocuments_def inFlightAtHead_def pipelineInv_def inFlight_def)
  show "processingQueue (addDocuments projectId docs (state w)) = processingQueue (state w) @ []"
    by (simp add: addDocuments_def)
qed (simp_all add: addDocuments_def resumeCount_def)

lemma inv_map_document:
  assumes "pipelineInv w" and "\<And>d. doc_id (f d) = doc_id d" and "\<And>d. inFlight (f d) \<Longrightarrow> inFlight d"
    and "projects a' = mapDocument pid did f (projects (state w))"
    and "processingQueue a' = processingQueue (state w) @ js"
    and "isProcessing a' = isProcessing (state w)" and "timers a' = timers (state w)"
  shows "pipelineInv (w\<lparr> state := a' \<rparr>)"
proof (rule env_inv [OF assms(1) _ _ assms(5,6)])
  show "idsDistinct (projects a')"
    using assms(1,2,4) by (simp add: mapDocument_ids pipelineInv_def)
  have "inFlightAtHead (projects (state w)) (processingQueue a')"
    using assms(1,5) by (simp add: pipelineInv_def atHead_append)
  then show "inFlightAtHead (projects a') (processingQueue a')"
    unfolding assms(4) using assms(2,3) by (intro mapDocument_atHead) auto
  show "resumeCount a' = resumeCount (state w)"
    using assms(7) by (simp add: resumeCount_def)
qed

lemma inv_delete_document:
  assumes "pipelineInv w"
  shows "pipelineInv (w\<lparr> state := handleDeleteDocument projectId documentId (state w) \<rparr>)"
proof (rule env_inv [OF assms(1)])
  have "idsDistinct (map (\<lambda>p. if proj_id p = projectId
                 then p\<lparr> documents := filter (\<lambda>d. doc_id d \<noteq> documentId) (documents p) \<rparr>
                 else p) (projects (state w)))"
    using assms by (intro idsDistinct_map_if) (simp_all add: pipelineInv_def distinct_map_filter)
  then show "idsDistinct (projects (handleDeleteDocument projectId documentId (state w)))"
    by (simp add: handleDeleteDocument_def)
  show "inFlightAtHead (projects (handleDeleteDocument projectId documentId (state w)))
          (processingQueue (handleDeleteDocument projectId documentId (state w)))"
    using assms by (auto simp: handleDeleteDocument_def inFlightAtHead_def pipelineInv_def)
  show "processingQueue (handleDeleteDocument projectId documentId (state w))
          = processingQueue (state w) @ []"
    by (simp add: handleDeleteDocument_def)
qed (simp_all add: handleDeleteDocument_def resumeCount_def)

lemma inv_delete_project:
  assumes "pipelineInv w"
  shows "pipelineInv (w\<lparr> state := handleDeleteProject projectId (state w) \<rparr>)"
proof (rule env_inv [OF assms(1)])
  show "idsDistinct (projects (handleDeleteProject projectId (state w)))"
    using assms by (auto simp: idsDistinct_def pipelineInv_def handleDeleteProject_def distinct_map_filter)
  show "inFlightAtHead (projects (handleDeleteProject projectId (state w)))
          (processingQueue (handleDeleteProject projectId (state w)))"
    using assms by (auto simp: handleDeleteProject_def inFlightAtHead_def pipelineInv_def)
  show "processingQueue (handleDeleteProject projectId (state w)) = processingQueue (state w) @ []"
    by (simp add: handleDeleteProject_def)
qed (simp_all add: handleDeleteProject_def resumeCount_def)

lemma inv_derive_metadata:
  assumes "pipelineInv w"
  shows "pipelineInv (w\<lparr> state := fst (runProjectDetailExtraction c (state w) projectId env) \<rparr>)"
proof (rule env_inv [OF assms(1)])
  show "idsDistinct (projects (fst (runProjectDetailExtraction c (state w) projectId env)))"
    using assms by (simp add: run_ids pipelineInv_def)
  show "inFlightAtHead (projects (fst (runProjectDetailExtraction c (state w) projectId env)))
          (processingQueue (fst (runProjectDetailExtraction c (state w) projectId env)))"
    using assms by (simp add: run_atHead run_frame pipelineInv_def)
  show "processingQueue (fst (runProjectDetailExtraction c (state w) projectId env))
          = processingQueue (state w) @ []"
    by (simp add: run_frame)
qed (simp_all add: run_frame)

lemma inv_completeness_checked:
  assumes "pipelineInv w"
  shows "pipelineInv (w\<lparr> state := setMissingDocuments projectId missingDocs (state w) \<rparr>)"
proof (rule env_inv [OF assms(1)])
  let ?g = "\<lambda>p. if proj_id p = projectId then p\<lparr> missingDocuments := Some missingDocs \<rparr> else p"
  have g: "\<And>p. proj_id (?g p) = proj_id p" "\<And>p. documents (?g p) = documents p"
    by simp_all
  show "idsDistinct (projects (setMissingDocuments projectId missingDocs (state w)))"
    using assms same_documents_ids [of ?g "projects (state w)", OF g]
    by (simp add: setMissingDocuments_def pipelineInv_def)
  show "inFlightAtHead (projects (setMissingDocuments projectId missingDocs (state w)))
          (processingQueue (setMissingDocuments projectId missingDocs (state w)))"
    using assms same_documents_atHead [of ?g "projects (state w)" "processingQueue (state w)", OF g]
    by (simp add: setMissingDocuments_def pipelineInv_def)
  show "processingQueue (setMissingDocuments projectId missingDocs (state w))
          = processingQueue (state w) @ []"
    by (simp add: setMissingDocuments_def)
qed (simp_all add: setMissingDocuments_def resumeCount_def)

lemma inv_call_rejected:
  assumes "pipelineInv w" and "(job, ph) \<in> set (running w)"
  shows "pipelineInv (w\<lparr> state := promiseRejected job msg (state w), running := remove1 (job, ph) (running w) \<rparr>)"
proof -
  let ?f = "\<lambda>d. d\<lparr> status := Error,
                   doc_error := Some (if msg = [] then ''An unexpected error occurred during processing.''
                                      else msg) \<rparr>"
  let ?ps = "mapDocument (job_projectId job) (job_documentId job) ?f (projects (state w))"
  have q: "\<exists>rest. processingQueue (state w) = job # rest"
    using running_single [OF _ assms(2)] assms(1) by (simp add: pipelineInv_def)
  then have k: "headKey (processingQueue (state w)) \<subseteq> {(job_projectId job, job_documentId job)}"
    by (auto simp: headKey_def)
  have ah: "inFlightAtHead (projects (state w)) (processingQueue (state w))"
    using assms(1) by (simp add: pipelineInv_def)
  have e: "promiseRejected job msg (state w)
             = fst (handleResult job PROCESS_ERROR ((state w)\<lparr> projects := ?ps \<rparr>))"
    by (simp add: promiseRejected_def handleResult_def)
  show ?thesis
    unfolding e
  proof (rule finish_inv [OF assms(1,2)])
    show "idsDistinct ?ps" using assms(1) by (simp add: mapDocument_ids pipelineInv_def)
    show "inFlightAtHead ?ps (processingQueue (state w))"
      using ah by (intro mapDocument_atHead) simp_all
    show "noInFlight ?ps"
      using ah k by (intro mapDocument_clears) simp_all
  qed
qed

lemma inv_update_project:
  assumes "pipelineInv w"
    and "\<forall>p \<in> set (projects (state w)).
           proj_id p = proj_id updatedProject \<longrightarrow> documents updatedProject = documents p"
  shows "pipelineInv (w\<lparr> state := handleUpdateProject updatedProject (state w) \<rparr>)"
proof (rule env_inv [OF assms(1)])
  have "idsDistinct (map (\<lambda>p. if proj_id p = proj_id updatedProject then updatedProject else p)
          (projects (state w)))"
    unfolding idsDistinct_def
  proof (intro conjI)
    have "map proj_id (map (\<lambda>p. if proj_id p = proj_id updatedProject then updatedProject else p)
            (projects (state w))) = map proj_id (projects (state w))"
      by (induction "projects (state w)") auto
    then show "distinct (map proj_id (map (\<lambda>p. if proj_id p = proj_id updatedProject
            then updatedProject else p) (projects (state w))))"
      using assms(1) by (simp only: pipelineInv_def idsDistinct_def)
    show "\<forall>p \<in> set (map (\<lambda>p. if proj_id p = proj_id updatedProject then updatedProject else p)
            (projects (state w))). distinct (map doc_id (documents p))"
      using assms by (auto simp: pipelineInv_def idsDistinct_def)
  qed
  then show "idsDistinct (projects (handleUpdateProject updatedProject (state w)))"
    by (simp add: handleUpdateProject_def)
  show "inFlightAtHead (projects (handleUpdateProject updatedProject (state w)))
          (processingQueue (handleUpdateProject updatedProject (state w)))"
    using assms by (auto simp: handleUpdateProject_def inFlightAtHead_def pipelineInv_def)
  show "processingQueue (handleUpdateProject updatedProject (state w)) = processingQueue (state w) @ []"
    by (simp add: handleUpdateProject_def)
qed (simp_all add: handleUpdateProject_def resumeCount_def)

lemma same_id_same_project:
  assumes "idsDistinct ps" and "p \<in> set ps" and "q \<in> set ps" and "proj_id p = proj_id q"
  shows "p = q"
proof -
  have "inj_on proj_id (set ps)"
    using assms(1) by (simp add: idsDistinct_def distinct_map)
  then show ?thesis using assms(2,3,4) by (auto dest: inj_onD)
qed

lemma inv_save_details:
  assumes "pipelineInv w" and "project \<in> set (projects (state w))"
  shows "pipelineInv (w\<lparr> state := handleSaveDetails project formData (state w) \<rparr>)"
  unfolding handleSaveDetails_def
proof (rule inv_update_project [OF assms(1)], intro ballI impI)
  fix p
  assume p: "p \<in> set (projects (state w))"
    and "proj_id p = proj_id (project\<lparr> projectName := form_projectName formData,
                 propertyAddress := form_propertyAddress formData,
                 clientName := form_clientName formData,
                 searchPeriod := form_searchPeriod formData,
                 advocateInstructions := Some (form_advocateInstructions formData) \<rparr>)"
  then have "proj_id p = proj_id project" by simp
  moreover have "idsDistinct (projects (state w))"
    using assms(1) by (simp add: pipelineInv_def)
  ultimately have "p = project"
    using p assms(2) by (intro same_id_same_project [of "projects (state w)"])
  then show "documents (project\<lparr> projectName := form_projectName formData,
                 propertyAddress := form_propertyAddress formData,
                 clientName := form_clientName formData,
                 searchPeriod := form_searchPeriod formData,
                 advocateInstructions := Some (form_advocateInstructions formData) \<rparr>)
             = documents p"
    by simp
qed

lemma inv_session:
  assumes "pipelineInv w" and "projects a' = projects (state w)"
    and "processingQueue a' = processingQueue (state w)"
    and "isProcessing a' = isProcessing (state w)" and "timers a' = timers (state w)"
  shows "pipelineInv (w\<lparr> state := a' \<rparr>)"
  using assms by (intro env_inv [where js = "[]"]) (simp_all add: pipelineInv_def resumeCount_def)

lemma inv_generating:
  "pipelineInv w \<Longrightarrow> pipelineInv (w\<lparr> generating := g \<rparr>)"
  by (simp add: pipelineInv_def workerInv_def)

lemma step_inv:
  assumes "step w w'" and "pipelineInv w"
  shows "pipelineInv w'"
  using assms
proof (induction rule: step.induct)
  case (worker_start w nextItem rest doc)
  then show ?case by (intro inv_worker_start)
next
  case (worker_drop w nextItem rest)
  then show ?case by (intro inv_worker_drop)
next
  case (extraction_continues job w allowed extracted ps continued)
  then show ?case by (intro inv_extraction_continues)
next
  case (extraction_ends job w allowed extracted ps r)
  then show ?case by (intro inv_extraction_ends)
next
  case (classification_ends job w allowed docType ps r)
  then show ?case by (intro inv_classification_ends)
next
  case (call_rejected job ph w msg)
  then show ?case by (intro inv_call_rejected)
next
  case (resume_timer w)
  then show ?case by (intro inv_resume_timer)
next
  case (create_project newProject w)
  then show ?case by (intro inv_create_project)
next
  case (upload_starts projectId docs w)
  then show ?case by (intro inv_upload_starts)
next
  case (upload_progresses w projectId documentId n)
  then show ?case
    by (intro inv_map_document [where js = "[]" and pid = projectId and did = documentId
          and f = "\<lambda>d. d\<lparr> progress := Some n \<rparr>"])
       (simp_all add: uploadProgress_def)
next
  case (upload_fails w projectId documentId)
  then show ?case
    by (intro inv_map_document [where js = "[]" and pid = projectId and did = documentId
          and f = "\<lambda>d. d\<lparr> status := Error,
                     doc_error := Some ''Network interruption during upload.'' \<rparr>"])
       (simp_all add: uploadFailed_def)
next
  case (upload_completes w job)
  then show ?case
    by (intro inv_map_document [where js = "[job]" and pid = "job_projectId job"
          and did = "job_documentId job"
          and f = "\<lambda>d. d\<lparr> status := Uploaded, progress := Some 100 \<rparr>"])
       (simp_all add: uploadCompleted_def)
next
  case (delete_document w projectId documentId)
  then show ?case by (intro inv_delete_document)
next
  case (delete_project w projectId)
  then show ?case by (intro inv_delete_project)
next
  case (update_document_type w projectId documentId newType)
  then show ?case
    by (intro inv_map_document [where js = "[]" and pid = projectId and did = documentId
          and f = "addDocType newType"])
       (simp_all add: handleUpdateDocumentType_def addDocType_frame)
next
  case (save_details project w formData)
  then show ?case by (intro inv_save_details)
next
  case (report_starts project w)
  then show ?case by (intro inv_generating)
next
  case (report_fails project w)
  then show ?case by (intro inv_generating)
next
  case (derive_metadata w c projectId env)
  then show ?case by (intro inv_derive_metadata)
next
  case (completeness_checked w projectId missingDocs)
  then show ?case by (intro inv_completeness_checked)
next
  case (sign_in w u)
  then show ?case by (intro inv_session) (simp_all add: signedIn_def)
next
  case (sign_out w)
  then show ?case by (intro inv_session) (simp_all add: signedOut_def)
next
  case (limits_loaded w plan limits)
  then show ?case by (intro inv_session) (simp_all add: limitsLoaded_def)
qed

lemma initial_inv: "initial w \<Longrightarrow> pipelineInv w"
  by (auto simp: initial_def pipelineInv_def idsDistinct_def inFlightAtHead_def workerInv_def
      resumeCount_def)

lemma steady_inv:
  assumes "step\<^sup>*\<^sup>* w0 w" and "initial w0"
  shows "pipelineInv w"
  using assms by (induction rule: rtranclp_induct) (auto intro: initial_inv step_inv)


subsection \<open>The worker alone\<close>

lemma worker_env:
  assumes "workerInv w" and "processingQueue a' = processingQueue (state w) @ js"
    and "isProcessing a' = isProcessing (state w)"
    and "resumeCount a' = resumeCount (state w)"
  shows "workerInv (w\<lparr> state := a' \<rparr>)"
  using assms by (auto simp: workerInv_def)

lemma worker_finish:
  assumes "workerInv w" and "(job, ph) \<in> set (running w)"
  shows "workerInv (w\<lparr> state := fst (handleResult job r ((state w)\<lparr> projects := ps \<rparr>)),
                      running := remove1 (job, ph) (running w) \<rparr>)"
proof -
  have s: "running w = [(job, ph)]" "isProcessing (state w)" "resumeCount (state w) = 0"
    using running_single [OF assms] by simp_all
  show ?thesis
    using s by (cases r) (simp_all add: handleResult_def workerInv_def resumeCount_def)
qed

lemma step_workerInv:
  assumes "step w w'" and "workerInv w"
  shows "workerInv w'"
  using assms
proof (induction rule: step.induct)
  case (worker_start w nextItem rest doc)
  then have "running w = []" "resumeCount (state w) = 0"
    using idle_worker [of w] by simp_all
  then show ?case
    using worker_start.hyps(3) by (simp add: workerInv_def resumeCount_def)
next
  case (worker_drop w nextItem rest)
  then have "running w = []" "resumeCount (state w) = 0"
    using idle_worker [of w] by simp_all
  then show ?case
    by (simp add: workerInv_def resumeCount_def)
next
  case (extraction_continues job w allowed extracted ps continued)
  then have s: "running w = [(job, Awaiting_extraction)]" "isProcessing (state w)"
    "resumeCount (state w) = 0" and q: "\<exists>rest. processingQueue (state w) = job # rest"
    using running_single [of w job Awaiting_extraction] by simp_all
  show ?case
    using s q by (simp add: workerInv_def resumeCount_def)
next
  case (extraction_ends job w allowed extracted ps r)
  then show ?case by (intro worker_finish)
next
  case (classification_ends job w allowed docType ps r)
  then show ?case by (intro worker_finish)
next
  case (call_rejected job ph w msg)
  then have s: "running w = [(job, ph)]" "resumeCount (state w) = 0"
    using running_single [of w job ph] by simp_all
  show ?case
    using s by (simp add: workerInv_def resumeCount_def promiseRejected_def)
next
  case (resume_timer w)
  then have c: "resumeCount (state w) = 1"
    by (simp add: workerInv_def resumeCount_pending)
  then have "running w = []"
    using resume_timer.prems by (auto simp: workerInv_def)
  moreover have "resumeCount (fireResume (state w)) = 0"
    using resumeCount_fire [OF resume_timer.hyps] c by simp
  ultimately show ?case
    by (simp add: workerInv_def)
next
  case (create_project newProject w)
  then show ?case
    by (intro worker_env [where js = "map (\<lambda>d. \<lparr> job_projectId = doc_projectId d,
              job_documentId = doc_id d, job_file = the (doc_file d) \<rparr>)
            (filter (\<lambda>d. doc_file d \<noteq> None) (documents newProject))"])
       (simp_all add: handleCreateProject_def resumeCount_def)
next
  case (upload_starts projectId docs w)
  then show ?case
    by (intro worker_env [where js = "[]"]) (simp_all add: addDocuments_def resumeCount_def)
next
  case (upload_progresses w projectId documentId n)
  then show ?case
    by (intro worker_env [where js = "[]"]) (simp_all add: uploadProgress_def resumeCount_def)
next
  case (upload_fails w projectId documentId)
  then show ?case
    by (intro worker_env [where js = "[]"]) (simp_all add: uploadFailed_def resumeCount_def)
next
  case (upload_completes w job)
  then show ?case
    by (intro worker_env [where js = "[job]"]) (simp_all add: uploadCompleted_def resumeCount_def)
next
  case (delete_document w projectId documentId)
  then show ?case
    by (intro worker_env [where js = "[]"]) (simp_all add: handleDeleteDocument_def resumeCount_def)
next
  case (delete_project w projectId)
  then show ?case
    by (intro worker_env [where js = "[]"]) (simp_all add: handleDeleteProject_def resumeCount_def)
next
  case (update_document_type w projectId documentId newType)
  then show ?case
    by (intro worker_env [where js = "[]"])
       (simp_all add: handleUpdateDocumentType_def resumeCount_def)
next
  case (save_details project w formData)
  then show ?case
    by (intro worker_env [where js = "[]"])
       (simp_all add: handleSaveDetails_def handleUpdateProject_def resumeCount_def)
next
  case (report_starts project w)
  then show ?case by (simp add: workerInv_def)
next
  case (report_fails project w)
  then show ?case by (simp add: workerInv_def)
next
  case (derive_metadata w c projectId env)
  then show ?case
    by (intro worker_env [where js = "[]"]) (simp_all add: run_frame)
next
  case (completeness_checked w projectId missingDocs)
  then show ?case
    by (intro worker_env [where js = "[]"]) (simp_all add: setMissingDocuments_def resumeCount_def)
next
  case (sign_in w u)
  then show ?case
    by (intro worker_env [where js = "[]"]) (simp_all add: signedIn_def resumeCount_def)
next
  case (sign_out w)
  then show ?case
    by (intro worker_env [where js = "[]"]) (simp_all add: signedOut_def resumeCount_def)
next
  case (limits_loaded w plan limits)
  then show ?case
    by (intro worker_env [where js = "[]"]) (simp_all add: limitsLoaded_def resumeCount_def)
qed

lemma report_workerInv:
  assumes "reportStep w w'" and "workerInv w"
  shows "workerInv w'"
  using assms
  by (induction rule: reportStep.induct)
     (simp add: workerInv_def resumeCount_def reportGenerated_def handleUpdateProject_def)

lemma reachable_workerInv: "reachable w \<Longrightarrow> workerInv w"
proof (induction rule: reachable.induct)
  case (reach_initial w)
  then show ?case by (simp add: initial_def workerInv_def resumeCount_def)
next
  case (reach_step w w')
  show ?case using reach_step.hyps(2) reach_step.IH by (rule step_workerInv)
next
  case (reach_report w w')
  show ?case using reach_report.hyps(2) reach_report.IH by (rule report_workerInv)
qed

text \<open>
  In every reachable state at most one call of \<^verbatim>\<open>processSingleDocument\<close> is in progress,
  and it works on the job at the head of the queue: no two extract or classify calls
  overlap, whatever the project view stores.
\<close>

lemma worker_serial:
  assumes "reachable w"
  shows "length (running w) \<le> 1
       \<and> (\<forall>(job, ph) \<in> set (running w). \<exists>rest. processingQueue (state w) = job # rest)"
  using reachable_workerInv [OF assms] by (auto simp: workerInv_def)

text \<open>Every event leaves the queue as it is, appends to it, or removes its head.\<close>

lemma queue_fifo:
  assumes "step w w' \<or> reportStep w w'"
  shows "(\<exists>js. processingQueue (state w') = processingQueue (state w) @ js)
       \<or> processingQueue (state w') = drop 1 (processingQueue (state w))"
  using assms
proof
  assume "step w w'"
  then show ?thesis
  proof (induction rule: step.induct)
    case (extraction_ends job w allowed extracted ps r)
    then show ?case by (cases r) (simp_all add: handleResult_def)
  next
    case (classification_ends job w allowed docType ps r)
    then show ?case by (cases r) (simp_all add: handleResult_def)
  qed (simp_all add: promiseRejected_def fireResume_def handleCreateProject_def addDocuments_def
        uploadProgress_def uploadFailed_def uploadCompleted_def handleDeleteDocument_def
        handleDeleteProject_def handleUpdateDocumentType_def handleSaveDetails_def
        handleUpdateProject_def run_frame setMissingDocuments_def signedIn_def signedOut_def
        limitsLoaded_def)
next
  assume "reportStep w w'"
  then show ?thesis
    by (induction rule: reportStep.induct) (simp add: reportGenerated_def handleUpdateProject_def)
qed


subsection \<open>The documents in flight\<close>

lemma filter_key_length:
  "distinct (map f xs) \<Longrightarrow> length (filter (\<lambda>x. f x = v) xs) \<le> 1"
proof (induction xs)
  case Nil
  then show ?case by simp
next
  case (Cons a xs)
  show ?case
  proof (cases "f a = v")
    case True
    have "\<forall>x \<in> set xs. f x \<noteq> f a"
      using Cons.prems by (metis distinct.simps(2) imageI list.simps(9) set_map)
    then have "filter (\<lambda>x. f x = v) xs = []"
      using True by (simp add: filter_empty_conv)
    then show ?thesis using True by simp
  next
    case False
    then show ?thesis using Cons by simp
  qed
qed

lemma filter_length_mono:
  "(\<And>x. x \<in> set xs \<Longrightarrow> P x \<Longrightarrow> Q x) \<Longrightarrow> length (filter P xs) \<le> length (filter Q xs)"
  by (induction xs) auto

lemma no_inFlight_documents:
  "noInFlight ps \<Longrightarrow> filter inFlight (concat (map documents ps)) = []"
  by (induction ps) (auto simp: noInFlight_def filter_empty_conv)

lemma keyed_at_most_one:
  assumes "idsDistinct ps"
    and "\<forall>p \<in> set ps. \<forall>d \<in> set (documents p). inFlight d \<longrightarrow> proj_id p = pid \<and> doc_id d = did"
  shows "length (filter inFlight (concat (map documents ps))) \<le> 1"
  using assms
proof (induction ps)
  case Nil
  then show ?case by simp
next
  case (Cons p ps)
  have tail: "idsDistinct ps"
    "\<forall>p \<in> set ps. \<forall>d \<in> set (documents p). inFlight d \<longrightarrow> proj_id p = pid \<and> doc_id d = did"
    using Cons.prems by (simp_all add: idsDistinct_def)
  show ?case
  proof (cases "proj_id p = pid")
    case True
    have "proj_id p \<notin> set (map proj_id ps)"
      using Cons.prems(1) by (simp add: idsDistinct_def)
    then have "\<forall>p' \<in> set ps. proj_id p' \<noteq> pid"
      using True by (metis imageI set_map)
    then have "noInFlight ps"
      using tail(2) by (auto simp: noInFlight_def)
    then have rest: "filter inFlight (concat (map documents ps)) = []"
      by (rule no_inFlight_documents)
    have "length (filter inFlight (documents p)) \<le> length (filter (\<lambda>d. doc_id d = did) (documents p))"
      using Cons.prems(2) by (intro filter_length_mono) simp
    also have "\<dots> \<le> 1"
      using Cons.prems(1) by (intro filter_key_length) (simp add: idsDistinct_def)
    finally show ?thesis using rest by simp
  next
    case False
    then have "filter inFlight (documents p) = []"
      using Cons.prems(2) by (auto simp: filter_empty_conv)
    then show ?thesis using Cons.IH [OF tail] by simp
  qed
qed

lemma inv_at_most_one:
  assumes "pipelineInv w"
  shows "length (filter inFlight (concat (map documents (projects (state w))))) \<le> 1"
proof (cases "processingQueue (state w)")
  case Nil
  then have "noInFlight (projects (state w))"
    using assms atHead_empty by (simp add: pipelineInv_def)
  then show ?thesis by (simp add: no_inFlight_documents)
next
  case (Cons job rest)
  then have "\<forall>p \<in> set (projects (state w)). \<forall>d \<in> set (documents p).
      inFlight d \<longrightarrow> proj_id p = job_projectId job \<and> doc_id d = job_documentId job"
    using assms by (auto simp: pipelineInv_def inFlightAtHead_def headKey_def)
  then show ?thesis
    using assms
    by (intro keyed_at_most_one [where pid = "job_projectId job" and did = "job_documentId job"])
       (simp_all add: pipelineInv_def)
qed

text \<open>
  As long as no report generation has stored its project, at most one document has status
  \<^verbatim>\<open>Extracting Text\<close> or \<^verbatim>\<open>Classifying\<close>, and it is the document of the job at the head
  of the queue.
\<close>

lemma steady_at_most_one:
  assumes "initial w0" and "step\<^sup>*\<^sup>* w0 w"
  shows "length (filter inFlight (concat (map documents (projects (state w))))) \<le> 1"
  using steady_inv [OF assms(2,1)] by (rule inv_at_most_one)


subsection \<open>A report stored from an old render\<close>

lemma docs_shape: "doc_id docA = ''doc_1''" "doc_id docB = ''doc_2''" "doc_id docC = ''doc_0''"
  "doc_id uploadA = ''doc_1''" "doc_id uploadB = ''doc_2''"
  "status docC = Processed" "status uploadA = Uploading" "status uploadB = Uploading"
  by (simp_all add: docA_def docB_def docC_def uploadA_def uploadB_def)

lemma projectLoaded_shape: "proj_id projectLoaded = ''proj_1''" "documents projectLoaded = [docC]"
  by (simp_all add: projectLoaded_def projectOne_def)

lemma job_shape: "job_projectId jobA = ''proj_1''" "job_documentId jobA = ''doc_1''"
  "job_projectId jobB = ''proj_1''" "job_documentId jobB = ''doc_2''"
  by (simp_all add: jobA_def jobB_def)

lemma run0_shape:
  "projects (state run0) = [projectLoaded]" "processingQueue (state run0) = []"
  "isProcessing (state run0) = False" "timers (state run0) = []"
  "user (state run0) = Some advocate" "running run0 = []" "generating run0 = []"
  by (simp_all add: run0_def appReady_def)

lemma initial_run0: "initial run0"
  by (simp add: initial_def run0_shape projectLoaded_shape docs_shape inFlight_def)

lemma run1_shape:
  "projects (state run1) = [projectLoaded\<lparr> documents := [docC, uploadA, uploadB] \<rparr>]"
  "processingQueue (state run1) = []" "isProcessing (state run1) = False"
  "user (state run1) = Some advocate" "running run1 = []" "generating run1 = []"
  by (simp_all add: run1_def addDocuments_def run0_shape projectLoaded_shape)

lemma run2_shape:
  "projects (state run2) = [projectLoaded\<lparr> documents :=
     [docC, uploadA\<lparr> status := Uploaded, progress := Some 100 \<rparr>, uploadB] \<rparr>]"
  "processingQueue (state run2) = [jobA]" "isProcessing (state run2) = False"
  "user (state run2) = Some advocate" "running run2 = []" "generating run2 = []"
  by (simp_all add: run2_def uploadCompleted_def mapDocument_def run1_shape projectLoaded_shape
      docs_shape job_shape)

lemma run3_shape:
  "projects (state run3) = [projectLoaded\<lparr> documents :=
     [docC, uploadA\<lparr> status := Uploaded, progress := Some 100 \<rparr>,
      uploadB\<lparr> status := Uploaded, progress := Some 100 \<rparr>] \<rparr>]"
  "processingQueue (state run3) = [jobA, jobB]" "isProcessing (state run3) = False"
  "user (state run3) = Some advocate" "running run3 = []" "generating run3 = []"
  by (simp_all add: run3_def uploadCompleted_def mapDocument_def run2_shape projectLoaded_shape
      docs_shape job_shape)

lemma run4_shape:
  "projects (state run4) = [staleProject]"
  "processingQueue (state run4) = [jobA, jobB]" "isProcessing (state run4) = True"
  "user (state run4) = Some advocate" "running run4 = [(jobA, Awaiting_extraction)]"
  "generating run4 = []"
  by (simp_all add: run4_def markExtracting_def mapDocument_def run3_shape projectLoaded_shape
      docs_shape job_shape staleProject_def)

lemma run5_shape:
  "projects (state run5) = [staleProject]"
  "processingQueue (state run5) = [jobA, jobB]" "isProcessing (state run5) = True"
  "user (state run5) = Some advocate" "running run5 = [(jobA, Awaiting_extraction)]"
  "generating run5 = [staleProject]"
  by (simp_all add: run5_def run4_shape)

lemma staleProject_shape: "proj_id staleProject = ''proj_1''"
  "documents staleProject = [docC, uploadA\<lparr> status := Extracting_Text, progress := Some 100 \<rparr>,
      uploadB\<lparr> status := Uploaded, progress := Some 100 \<rparr>]"
  by (simp_all add: staleProject_def projectLoaded_shape)

lemma run6_shape:
  "projects (state run6) = [staleProject\<lparr> documents :=
     [docC, uploadA\<lparr> status := Classifying, progress := Some 100,
                     extractedText := Some ''SALE DEED between A and B'' \<rparr>,
      uploadB\<lparr> status := Uploaded, progress := Some 100 \<rparr>] \<rparr>]"
  "processingQueue (state run6) = [jobA, jobB]" "isProcessing (state run6) = True"
  "user (state run6) = Some advocate" "running run6 = [(jobA, Awaiting_classification)]"
  "generating run6 = [staleProject]"
  by (simp_all add: run6_def mapDocument_def run5_shape staleProject_shape docs_shape job_shape)

lemma run7_shape:
  "projects (state run7) = [staleProject\<lparr> documents :=
     [docC, uploadA\<lparr> status := Processed, progress := Some 100,
                     extractedText := Some ''SALE DEED between A and B'',
                     docTypes := Some [''Sale Deed''] \<rparr>,
      uploadB\<lparr> status := Uploaded, progress := Some 100 \<rparr>] \<rparr>]"
  "processingQueue (state run7) = [jobB]" "isProcessing (state run7) = False"
  "user (state run7) = Some advocate" "running run7 = []"
  "generating run7 = [staleProject]"
  by (simp_all add: run7_def handleResult_def mapDocument_def run6_shape staleProject_shape
      docs_shape job_shape)

lemma run8_shape:
  "projects (state run8) = [staleProject\<lparr> documents :=
     [docC, uploadA\<lparr> status := Processed, progress := Some 100,
                     extractedText := Some ''SALE DEED between A and B'',
                     docTypes := Some [''Sale Deed''] \<rparr>,
      uploadB\<lparr> status := Extracting_Text, progress := Some 100 \<rparr>] \<rparr>]"
  "processingQueue (state run8) = [jobB]" "isProcessing (state run8) = True"
  "user (state run8) = Some advocate" "running run8 = [(jobB, Awaiting_extraction)]"
  "generating run8 = [staleProject]"
  by (simp_all add: run8_def markExtracting_def mapDocument_def run7_shape staleProject_shape
      docs_shape job_shape)

lemma run9_shape:
  "projects (state run9) = [staleProject\<lparr> report := Some staleReport \<rparr>]"
  "processingQueue (state run9) = [jobB]" "isProcessing (state run9) = True"
  "user (state run9) = Some advocate" "running run9 = [(jobB, Awaiting_extraction)]"
  "generating run9 = []"
  by (simp_all add: run9_def reportGenerated_def handleUpdateProject_def run8_shape
      staleProject_shape)

lemma worldStale_shape:
  "projects (state worldStale) = [staleProject\<lparr> report := Some staleReport, documents :=
     [docC, uploadA\<lparr> status := Extracting_Text, progress := Some 100 \<rparr>,
      uploadB\<lparr> status := Classifying, progress := Some 100,
                extractedText := Some ''TAX RECEIPT 2025'' \<rparr>] \<rparr>]"
  "processingQueue (state worldStale) = [jobB]"
  "running worldStale = [(jobB, Awaiting_classification)]"
  by (simp_all add: worldStale_def mapDocument_def run9_shape staleProject_shape docs_shape
      job_shape)

text \<open>The project kept by the report generation has processed text, so a report is made.\<close>

lemma staleProject_has_text: "aggregateText (documents staleProject) \<noteq> []"
  by (simp add: aggregateText_def staleProject_shape docs_shape docC_def docA_def
      uploadA_def uploadB_def docB_def)

lemma extract_continues:
  "afterExtract pid did True ''SALE DEED between A and B'' ps
     = (mapDocument pid did
          (\<lambda>d. d\<lparr> extractedText := Some ''SALE DEED between A and B'', status := Classifying \<rparr>) ps,
        Continue ''SALE DEED between A and B'')"
  "afterExtract pid did True ''TAX RECEIPT 2025'' ps
     = (mapDocument pid did
          (\<lambda>d. d\<lparr> extractedText := Some ''TAX RECEIPT 2025'', status := Classifying \<rparr>) ps,
        Continue ''TAX RECEIPT 2025'')"
  by (simp_all add: afterExtract_def RATE_LIMIT_EXCEEDED_def UNSUPPORTED_FOR_EXTRACTION_def
      startsWith_def)

lemma classify_succeeds:
  "afterClassify pid did True ''Sale Deed'' ps
     = (mapDocument pid did (\<lambda>d. d\<lparr> docTypes := Some [''Sale Deed''], status := Processed \<rparr>) ps,
        PROCESS_SUCCESS)"
  by (simp add: afterClassify_def RATE_LIMIT_EXCEEDED_def)

lemma found_run3:
  "findDocument (job_projectId jobA) (job_documentId jobA) (projects (state run3))
     = Some (uploadA\<lparr> status := Uploaded, progress := Some 100 \<rparr>)"
  by (simp add: findDocument_def run3_shape projectLoaded_shape docs_shape job_shape)

lemma found_run7:
  "findDocument (job_projectId jobB) (job_documentId jobB) (projects (state run7))
     = Some (uploadB\<lparr> status := Uploaded, progress := Some 100 \<rparr>)"
  by (simp add: findDocument_def run7_shape staleProject_shape docs_shape job_shape)

lemma reachable_run4: "reachable run4"
proof -
  have r0: "reachable run0" using initial_run0 by (rule reach_initial)
  have "freshDocuments ''proj_1'' [uploadA, uploadB] (state run0)"
    by (simp add: freshDocuments_def run0_shape projectLoaded_shape docs_shape)
  moreover have "\<forall>d \<in> set [uploadA, uploadB]. status d = Uploading"
    by (simp add: docs_shape)
  ultimately have "step run0 run1"
    unfolding run1_def by (rule step.upload_starts)
  then have r1: "reachable run1" by (rule reach_step [OF r0])
  have "step run1 run2" unfolding run2_def by (rule step.upload_completes)
  then have r2: "reachable run2" by (rule reach_step [OF r1])
  have "step run2 run3" unfolding run3_def by (rule step.upload_completes)
  then have r3: "reachable run3" by (rule reach_step [OF r2])
  have u: "user (state run3) \<noteq> None" "\<not> isProcessing (state run3)"
    by (simp_all add: run3_shape)
  have "step run3 run4"
    unfolding run4_def
    by (rule step.worker_start [where w = run3 and nextItem = jobA and rest = "[jobB]",
          OF u run3_shape(2) found_run3])
  then show ?thesis by (rule reach_step [OF r3])
qed

lemma reachable_run8: "reachable run8"
proof -
  have p: "staleProject \<in> set (projects (state run4))" by (simp add: run4_shape)
  have "step run4 run5" unfolding run5_def using p by (rule step.report_starts)
  then have r5: "reachable run5" by (rule reach_step [OF reachable_run4])
  have a: "(jobA, Awaiting_extraction) \<in> set (running run5)" by (simp add: run5_shape)
  have "step run5 run6"
    unfolding run6_def
    by (rule step.extraction_continues [where w = run5, OF a extract_continues(1)])
  then have r6: "reachable run6" by (rule reach_step [OF r5])
  have c: "(jobA, Awaiting_classification) \<in> set (running run6)" by (simp add: run6_shape)
  have "step run6 run7"
    unfolding run7_def
    by (rule step.classification_ends [where w = run6, OF c classify_succeeds])
  then have r7: "reachable run7" by (rule reach_step [OF r6])
  have u: "user (state run7) \<noteq> None" "\<not> isProcessing (state run7)"
    by (simp_all add: run7_shape)
  have "step run7 run8"
    unfolding run8_def
    by (rule step.worker_start [where w = run7 and nextItem = jobB and rest = "[]",
          OF u run7_shape(2) found_run7])
  then show ?thesis by (rule reach_step [OF r7])
qed

lemma reachable_worldStale: "reachable worldStale"
proof -
  have g: "staleProject \<in> set (generating run8)" by (simp add: run8_shape)
  have "reportStep run8 run9" unfolding run9_def using g by (rule reportStep.report_stored)
  then have r9: "reachable run9" by (rule reach_report [OF reachable_run8])
  have b: "(jobB, Awaiting_extraction) \<in> set (running run9)" by (simp add: run9_shape)
  have "step run9 worldStale"
    unfolding worldStale_def
    by (rule step.extraction_continues [where w = run9, OF b extract_continues(2)])
  then show ?thesis by (rule reach_step [OF r9])
qed

text \<open>
  C2: the claim fails on the code. A report generation started while the first upload is
  being extracted stores, when it ends, the project of the render it was started in: the
  first document, processed in the meantime, is back in status \<^verbatim>\<open>Extracting Text\<close>, and
  the document the worker is then working on goes to \<^verbatim>\<open>Classifying\<close>. In this reachable
  state two documents have a status of a document in flight, while the worker has one call
  in progress.
\<close>

theorem C2_stale_project_two_in_flight:
  "reachable worldStale
   \<and> map status (concat (map documents (projects (state worldStale))))
       = [Processed, Extracting_Text, Classifying]
   \<and> length (filter inFlight (concat (map documents (projects (state worldStale))))) = 2
   \<and> running worldStale = [(jobB, Awaiting_classification)]"
proof -
  have "map status (concat (map documents (projects (state worldStale))))
          = [Processed, Extracting_Text, Classifying]"
    by (simp add: worldStale_shape docs_shape)
  moreover have "length (filter inFlight (concat (map documents (projects (state worldStale))))) = 2"
    by (simp add: worldStale_shape docs_shape inFlight_def)
  ultimately show ?thesis
    using reachable_worldStale worldStale_shape(3) by simp
qed

end
